(* ===== verification/Prelude.thy ===== *)
theory Prelude
  imports Complex_Main "HOL-Library.Word"
begin

text \<open>
  Shared vocabulary of the development.  The display controller's memory is a
  framebuffer, a total map from logical pixel coordinates to 16-bit RGB565
  colours.  Every drawing primitive of the display library writes one colour to
  a set of pixels; such a write is an \<^emph>\<open>overlay\<close>, a partial map from pixels to
  colours, and drawing is painting an overlay over the framebuffer.  Overlays
  compose with \<open>++\<close> (the later one wins), which is how the frame and
  agreement lemmas of the display theories are stated.  The collection
  \<open>geometry_simps\<close> gathers the facts that decide membership of a pixel in the
  rectangles of the screen layout.
\<close>

named_theorems geometry_simps "membership of pixels in layout rectangles"

type_synonym color = "16 word"
type_synonym pixel = "int \<times> int"
type_synonym framebuffer = "pixel \<Rightarrow> color"
type_synonym overlay = "pixel \<rightharpoonup> color"

definition paint :: "overlay \<Rightarrow> framebuffer \<Rightarrow> framebuffer" where
  "paint m fb = (\<lambda>p. case m p of None \<Rightarrow> fb p | Some c \<Rightarrow> c)"

definition in_rect :: "int \<Rightarrow> int \<Rightarrow> int \<Rightarrow> int \<Rightarrow> pixel \<Rightarrow> bool" where
  "in_rect x y w h p = (case p of (px, py) \<Rightarrow> x \<le> px \<and> px < x + w \<and> y \<le> py \<and> py < y + h)"

definition rect :: "int \<Rightarrow> int \<Rightarrow> int \<Rightarrow> int \<Rightarrow> pixel set" where
  "rect x y w h = Collect (in_rect x y w h)"

text \<open>The overlay that writes colour \<open>c\<close> to the pixels satisfying \<open>P\<close>.\<close>

definition const_on :: "(pixel \<Rightarrow> bool) \<Rightarrow> color \<Rightarrow> overlay" where
  "const_on P c = (\<lambda>p. if P p then Some c else None)"

text \<open>Two framebuffers agree off a set of pixels when they hold the same
  colour at every pixel outside it.\<close>

definition agree_off :: "pixel set \<Rightarrow> framebuffer \<Rightarrow> framebuffer \<Rightarrow> bool" where
  "agree_off A fb1 fb2 \<longleftrightarrow> (\<forall>p. p \<notin> A \<longrightarrow> fb1 p = fb2 p)"

subsection \<open>Painting overlays\<close>

lemma paint_None [simp]: "m p = None \<Longrightarrow> paint m fb p = fb p"
  by (simp add: paint_def)

lemma paint_Some [simp]: "m p = Some c \<Longrightarrow> paint m fb p = c"
  by (simp add: paint_def)

lemma paint_empty [simp]: "paint Map.empty fb = fb"
  by (simp add: paint_def)

lemma paint_paint [simp]: "paint m2 (paint m1 fb) = paint (m1 ++ m2) fb"
  by (rule ext) (simp add: paint_def map_add_def split: option.splits)

lemma paint_idem: "paint m (paint m fb) = paint m fb"
  by (rule ext) (simp add: paint_def split: option.splits)

lemma paint_const_on_none: "(\<And>p. \<not> P p) \<Longrightarrow> paint (const_on P c) fb = fb"
  by (rule ext) (simp add: paint_def const_on_def)

lemma const_on_False [simp]: "const_on (\<lambda>p. False) c = Map.empty"
  by (simp add: const_on_def)

lemma dom_const_on [simp]: "dom (const_on P c) = Collect P"
  by (auto simp: const_on_def split: if_splits)

lemma paint_const_on: "paint (const_on P c) fb p = (if P p then c else fb p)"
  by (simp add: paint_def const_on_def)

subsection \<open>Rectangles\<close>

lemma in_rect_simp [simp, geometry_simps]:
  "in_rect x y w h (px, py) \<longleftrightarrow> x \<le> px \<and> px < x + w \<and> y \<le> py \<and> py < y + h"
  by (simp add: in_rect_def)

lemma mem_rect [simp, geometry_simps]:
  "(px, py) \<in> rect x y w h \<longleftrightarrow> x \<le> px \<and> px < x + w \<and> y \<le> py \<and> py < y + h"
  by (simp add: rect_def)

lemma rect_subset:
  "x \<le> x' \<Longrightarrow> x' + w' \<le> x + w \<Longrightarrow> y \<le> y' \<Longrightarrow> y' + h' \<le> y + h \<Longrightarrow>
   rect x' y' w' h' \<subseteq> rect x y w h"
  by auto

lemma rect_union_row:
  "0 \<le> a \<Longrightarrow> 0 \<le> b \<Longrightarrow> rect x y a h \<union> rect (x + a) y b h \<subseteq> rect x y (a + b) h"
  by auto

lemma rect_empty: "w \<le> 0 \<or> h \<le> 0 \<Longrightarrow> rect x y w h = {}"
  by auto

subsection \<open>Agreement off a set\<close>

lemma agree_off_refl [simp, intro]: "agree_off A fb fb"
  by (simp add: agree_off_def)

lemma agree_offD: "agree_off A fb1 fb2 \<Longrightarrow> p \<notin> A \<Longrightarrow> fb1 p = fb2 p"
  unfolding agree_off_def by blast

lemma agree_off_sym: "agree_off A fb1 fb2 \<Longrightarrow> agree_off A fb2 fb1"
  by (simp add: agree_off_def)

lemma agree_off_trans:
  "agree_off A fb1 fb2 \<Longrightarrow> agree_off B fb2 fb3 \<Longrightarrow> agree_off (A \<union> B) fb1 fb3"
  by (simp add: agree_off_def)

lemma agree_off_mono: "agree_off A fb1 fb2 \<Longrightarrow> A \<subseteq> B \<Longrightarrow> agree_off B fb1 fb2"
  by (auto simp: agree_off_def)

lemma agree_off_empty: "agree_off {} fb1 fb2 \<longleftrightarrow> fb1 = fb2"
  by (auto simp: agree_off_def)

lemma agree_off_paint_frame: "dom m \<subseteq> A \<Longrightarrow> agree_off A fb (paint m fb)"
  by (auto simp: agree_off_def paint_def split: option.splits)

lemma agree_off_paint_cong:
  "agree_off A fb1 fb2 \<Longrightarrow> agree_off A (paint m fb1) (paint m fb2)"
  by (simp add: agree_off_def paint_def split: option.splits)

lemma agree_off_paint_const:
  "agree_off A fb1 fb2 \<Longrightarrow> agree_off (A - Collect P) (paint (const_on P c) fb1) (paint (const_on P c) fb2)"
  by (simp add: agree_off_def paint_const_on)

lemma agree_off_inter:
  "agree_off A fb1 fb2 \<Longrightarrow> agree_off B fb1 fb2 \<Longrightarrow> agree_off (A \<inter> B) fb1 fb2"
  by (auto simp: agree_off_def)

end
