(* ===== verification/Gfx.thy ===== *)
theory Gfx
  imports Prelude
begin

unbundle bit_operations_syntax

text \<open>
  The display collaborator: the parts of Adafruit_GFX, Adafruit_SPITFT and
  Adafruit_ILI9341 that \<^verbatim>\<open>src/src/main.cpp\<close> calls (\<^verbatim>\<open>begin\<close>,
  \<^verbatim>\<open>setRotation\<close>, \<^verbatim>\<open>fillScreen\<close>, \<^verbatim>\<open>fillRect\<close>, \<^verbatim>\<open>setTextSize\<close>,
  \<^verbatim>\<open>setTextColor\<close>, \<^verbatim>\<open>setCursor\<close>, and \<^verbatim>\<open>print\<close> of strings through
  \<^verbatim>\<open>write\<close> and \<^verbatim>\<open>drawChar\<close> with the built-in 5x7 font).  These libraries are
  not in the repository; the model follows their sources.  The object's state
  is the record \<open>tft\<close>: the controller memory as a framebuffer over logical
  coordinates (only rotation 0 is ever selected, before anything is drawn), and
  the fields of \<^verbatim>\<open>Adafruit_GFX\<close>.  SPI transactions are not modelled: each
  drawing call is its effect on the framebuffer.  Pixel writes of
  \<^verbatim>\<open>drawChar\<close> (\<^verbatim>\<open>writePixel\<close>, \<^verbatim>\<open>writeFillRect\<close>, \<^verbatim>\<open>writeFastVLine\<close>)
  clip against the screen as \<^verbatim>\<open>fillRect\<close> does, so all are \<open>fill_rect\<close>.

  The lemmas show that every operation is a paint of an overlay that depends
  only on the non-framebuffer fields (congruence), and bound the pixels each
  operation can change (frame).
\<close>

record tft =
  gram :: framebuffer
  width :: int
  height :: int
  rotation :: nat
  cursor_x :: int
  cursor_y :: int
  textsize_x :: nat
  textsize_y :: nat
  textcolor :: color
  textbgcolor :: color
  wrap :: bool
  cp437 :: bool
  glcdfont :: "nat \<Rightarrow> 8 word"

definition ILI9341_TFTWIDTH :: int where "ILI9341_TFTWIDTH = 240"
definition ILI9341_TFTHEIGHT :: int where "ILI9341_TFTHEIGHT = 320"

text \<open>The constructor \<^verbatim>\<open>Adafruit_ILI9341(cs, dc, rst)\<close>, through
  \<^verbatim>\<open>Adafruit_GFX(ILI9341_TFTWIDTH, ILI9341_TFTHEIGHT)\<close>; the controller memory
  holds whatever it held at power-on.\<close>

definition tft_construct :: "framebuffer \<Rightarrow> (nat \<Rightarrow> 8 word) \<Rightarrow> tft" where
  "tft_construct fb font =
     \<lparr>gram = fb, width = ILI9341_TFTWIDTH, height = ILI9341_TFTHEIGHT, rotation = 0,
      cursor_x = 0, cursor_y = 0, textsize_x = 1, textsize_y = 1,
      textcolor = 0xFFFF, textbgcolor = 0xFFFF, wrap = True, cp437 = False,
      glcdfont = font\<rparr>"

text \<open>\<^verbatim>\<open>Adafruit_ILI9341::begin\<close>: the initialisation commands leave the
  controller memory as it is, and the logical size is reset.\<close>

definition tft_begin :: "tft \<Rightarrow> tft" where
  "tft_begin d = d\<lparr>width := ILI9341_TFTWIDTH, height := ILI9341_TFTHEIGHT\<rparr>"

definition set_rotation :: "nat \<Rightarrow> tft \<Rightarrow> tft" where
  "set_rotation m d =
     (let r = m mod 4
      in if r = 0 \<or> r = 2
         then d\<lparr>rotation := r, width := ILI9341_TFTWIDTH, height := ILI9341_TFTHEIGHT\<rparr>
         else d\<lparr>rotation := r, width := ILI9341_TFTHEIGHT, height := ILI9341_TFTWIDTH\<rparr>)"

definition set_text_size :: "nat \<Rightarrow> tft \<Rightarrow> tft" where
  "set_text_size s d =
     d\<lparr>textsize_x := (if 0 < s then s else 1), textsize_y := (if 0 < s then s else 1)\<rparr>"

definition set_text_color :: "color \<Rightarrow> color \<Rightarrow> tft \<Rightarrow> tft" where
  "set_text_color c bg d = d\<lparr>textcolor := c, textbgcolor := bg\<rparr>"

definition set_cursor :: "int \<Rightarrow> int \<Rightarrow> tft \<Rightarrow> tft" where
  "set_cursor x y d = d\<lparr>cursor_x := x, cursor_y := y\<rparr>"

definition on_screen :: "tft \<Rightarrow> pixel \<Rightarrow> bool" where
  "on_screen d p = in_rect 0 0 (width d) (height d) p"

definition screen :: "tft \<Rightarrow> pixel set" where
  "screen d = Collect (on_screen d)"

text \<open>\<^verbatim>\<open>Adafruit_SPITFT::fillRect\<close>: a negative width or height extends the
  rectangle to the left or upwards; a rectangle entirely off the screen is
  skipped; the rest is clipped to the screen and filled.\<close>

definition fill_rect :: "int \<Rightarrow> int \<Rightarrow> int \<Rightarrow> int \<Rightarrow> color \<Rightarrow> tft \<Rightarrow> tft" where
  "fill_rect x y w h c d =
     (if w = 0 \<or> h = 0 then d
      else
        let x1 = (if w < 0 then x + w + 1 else x); w1 = \<bar>w\<bar>
        in if width d \<le> x1 then d
           else
             let y1 = (if h < 0 then y + h + 1 else y); h1 = \<bar>h\<bar>
             in if height d \<le> y1 then d
                else if x1 + w1 - 1 < 0 then d
                else if y1 + h1 - 1 < 0 then d
                else d\<lparr>gram := paint (const_on (\<lambda>p. in_rect x1 y1 w1 h1 p \<and> on_screen d p) c) (gram d)\<rparr>)"

definition fill_screen :: "color \<Rightarrow> tft \<Rightarrow> tft" where
  "fill_screen c d = fill_rect 0 0 (width d) (height d) c d"

text \<open>The inner loop of \<^verbatim>\<open>drawChar\<close>: rows \<open>j\<close> to \<open>j + k - 1\<close> of one
  column, reading the column byte bit by bit (\<^verbatim>\<open>line >>= 1\<close>).\<close>

fun glyph_rows ::
  "int \<Rightarrow> int \<Rightarrow> color \<Rightarrow> color \<Rightarrow> nat \<Rightarrow> nat \<Rightarrow> nat \<Rightarrow> 8 word \<Rightarrow> nat \<Rightarrow> tft \<Rightarrow> tft" where
  "glyph_rows x y fg bg sx sy j line 0 d = d"
| "glyph_rows x y fg bg sx sy j line (Suc k) d =
     glyph_rows x y fg bg sx sy (Suc j) (drop_bit 1 line) k
       (if line AND 1 \<noteq> 0 then fill_rect x (y + int j * int sy) (int sx) (int sy) fg d
        else if bg \<noteq> fg then fill_rect x (y + int j * int sy) (int sx) (int sy) bg d
        else d)"

text \<open>The outer loop: columns \<open>i\<close> to \<open>i + k - 1\<close> of the glyph of \<open>c\<close>.\<close>

fun glyph_cols ::
  "int \<Rightarrow> int \<Rightarrow> 8 word \<Rightarrow> color \<Rightarrow> color \<Rightarrow> nat \<Rightarrow> nat \<Rightarrow> nat \<Rightarrow> nat \<Rightarrow> tft \<Rightarrow> tft" where
  "glyph_cols x y c fg bg sx sy i 0 d = d"
| "glyph_cols x y c fg bg sx sy i (Suc k) d =
     glyph_cols x y c fg bg sx sy (Suc i) k
       (glyph_rows (x + int i * int sx) y fg bg sx sy 0 (glcdfont d (unat c * 5 + i)) 8 d)"

text \<open>\<^verbatim>\<open>Adafruit_GFX::drawChar\<close> for the classic font.  The character code is
  a \<open>uint8_t\<close>: outside the CP437 mode codes from 176 are shifted by one, and
  255 wraps to 0.\<close>

definition draw_char ::
  "int \<Rightarrow> int \<Rightarrow> 8 word \<Rightarrow> color \<Rightarrow> color \<Rightarrow> nat \<Rightarrow> nat \<Rightarrow> tft \<Rightarrow> tft" where
  "draw_char x y c fg bg sx sy d =
     (if width d \<le> x \<or> height d \<le> y \<or> x + 6 * int sx - 1 < 0 \<or> y + 8 * int sy - 1 < 0 then d
      else
        let c1 = (if \<not> cp437 d \<and> 176 \<le> c then c + 1 else c);
            d1 = glyph_cols x y c1 fg bg sx sy 0 5 d
        in if bg \<noteq> fg then fill_rect (x + 5 * int sx) y (int sx) (8 * int sy) bg d1 else d1)"

text \<open>\<^verbatim>\<open>Adafruit_GFX::write(uint8_t)\<close> for the classic font: newline, carriage
  return, wrap at the right edge, draw, advance.\<close>

definition write_char :: "char \<Rightarrow> tft \<Rightarrow> tft" where
  "write_char ch d =
     (if ch = CHR 0x0A then d\<lparr>cursor_x := 0, cursor_y := cursor_y d + 8 * int (textsize_y d)\<rparr>
      else if ch = CHR 0x0D then d
      else
        let d1 = (if wrap d \<and> width d < cursor_x d + 6 * int (textsize_x d)
                  then d\<lparr>cursor_x := 0, cursor_y := cursor_y d + 8 * int (textsize_y d)\<rparr>
                  else d);
            d2 = draw_char (cursor_x d1) (cursor_y d1) (of_char ch) (textcolor d1) (textbgcolor d1)
                   (textsize_x d1) (textsize_y d1) d1
        in d2\<lparr>cursor_x := cursor_x d2 + 6 * int (textsize_x d2)\<rparr>)"

text \<open>\<^verbatim>\<open>Print::write(const char*)\<close>: every character in turn.\<close>

definition print_str :: "string \<Rightarrow> tft \<Rightarrow> tft" where
  "print_str s d = foldl (\<lambda>d ch. write_char ch d) d s"

subsection \<open>Configuration and agreement\<close>

text \<open>Two display states have the same configuration when they agree on every
  field but the framebuffer; they agree off a set of pixels when moreover their
  framebuffers agree outside it.\<close>

definition same_cfg :: "tft \<Rightarrow> tft \<Rightarrow> bool" where
  "same_cfg d1 d2 \<longleftrightarrow>
     width d1 = width d2 \<and> height d1 = height d2 \<and> rotation d1 = rotation d2 \<and>
     cursor_x d1 = cursor_x d2 \<and> cursor_y d1 = cursor_y d2 \<and>
     textsize_x d1 = textsize_x d2 \<and> textsize_y d1 = textsize_y d2 \<and>
     textcolor d1 = textcolor d2 \<and> textbgcolor d1 = textbgcolor d2 \<and>
     wrap d1 = wrap d2 \<and> cp437 d1 = cp437 d2 \<and> glcdfont d1 = glcdfont d2"

definition tft_agree :: "pixel set \<Rightarrow> tft \<Rightarrow> tft \<Rightarrow> bool" where
  "tft_agree A d1 d2 \<longleftrightarrow> same_cfg d1 d2 \<and> agree_off A (gram d1) (gram d2)"

definition fill_area :: "int \<Rightarrow> int \<Rightarrow> int \<Rightarrow> int \<Rightarrow> pixel set" where
  "fill_area x y w h =
     rect (if w < 0 then x + w + 1 else x) (if h < 0 then y + h + 1 else y) \<bar>w\<bar> \<bar>h\<bar>"

text \<open>Well-formedness of the display object: text sizes at least 1 (as
  \<^verbatim>\<open>setTextSize\<close> enforces), a rotation in \<open>0..3\<close>, and the logical size that
  rotation gives the 240 by 320 panel.\<close>

definition tft_wf :: "tft \<Rightarrow> bool" where
  "tft_wf d \<longleftrightarrow> 0 < textsize_x d \<and> 0 < textsize_y d \<and> rotation d < 4 \<and>
     (if rotation d mod 2 = 0 then width d = ILI9341_TFTWIDTH \<and> height d = ILI9341_TFTHEIGHT
      else width d = ILI9341_TFTHEIGHT \<and> height d = ILI9341_TFTWIDTH)"

lemma tft_eq_iff: "d1 = d2 \<longleftrightarrow> same_cfg d1 d2 \<and> gram d1 = gram d2"
  by (cases d1, cases d2) (auto simp: same_cfg_def)

lemma same_cfg_refl [simp, intro]: "same_cfg d d"
  by (simp add: same_cfg_def)

lemma same_cfg_sym: "same_cfg d1 d2 \<Longrightarrow> same_cfg d2 d1"
  by (simp add: same_cfg_def)

lemma same_cfg_trans: "same_cfg d1 d2 \<Longrightarrow> same_cfg d2 d3 \<Longrightarrow> same_cfg d1 d3"
  by (simp add: same_cfg_def)

lemma same_cfg_gram_upd [simp]: "same_cfg (d\<lparr>gram := g\<rparr>) d' \<longleftrightarrow> same_cfg d d'"
  by (simp add: same_cfg_def)

lemma same_cfg_gram_upd2 [simp]: "same_cfg d' (d\<lparr>gram := g\<rparr>) \<longleftrightarrow> same_cfg d' d"
  by (simp add: same_cfg_def)

lemma same_cfg_screen: "same_cfg d1 d2 \<Longrightarrow> on_screen d1 = on_screen d2"
  by (simp add: same_cfg_def on_screen_def fun_eq_iff)

lemma same_cfg_screen_set: "same_cfg d1 d2 \<Longrightarrow> screen d1 = screen d2"
  by (simp add: screen_def same_cfg_screen)

lemma tft_agree_refl [simp, intro]: "tft_agree A d d"
  by (simp add: tft_agree_def)

lemma tft_agree_sym: "tft_agree A d1 d2 \<Longrightarrow> tft_agree A d2 d1"
  by (simp add: tft_agree_def same_cfg_sym agree_off_sym)

lemma tft_agree_trans:
  "tft_agree A d1 d2 \<Longrightarrow> tft_agree B d2 d3 \<Longrightarrow> tft_agree (A \<union> B) d1 d3"
  by (auto simp: tft_agree_def intro: same_cfg_trans agree_off_trans)

lemma tft_agree_trans_same:
  "tft_agree A d1 d2 \<Longrightarrow> tft_agree A d2 d3 \<Longrightarrow> tft_agree A d1 d3"
  using tft_agree_trans [of A d1 d2 A d3] by simp

lemma tft_agree_mono: "tft_agree A d1 d2 \<Longrightarrow> A \<subseteq> B \<Longrightarrow> tft_agree B d1 d2"
  by (auto simp: tft_agree_def intro: agree_off_mono)

lemma tft_agree_empty: "tft_agree {} d1 d2 \<longleftrightarrow> d1 = d2"
  by (simp add: tft_agree_def tft_eq_iff agree_off_empty)

lemma on_screen_eq: "on_screen d = in_rect 0 0 (width d) (height d)"
  by (rule ext) (simp add: on_screen_def)

lemma screen_rect: "screen d = rect 0 0 (width d) (height d)"
  by (simp add: screen_def rect_def on_screen_eq)

subsection \<open>Filling rectangles\<close>

lemma fill_rect_eq:
  "fill_rect x y w h c d =
     d\<lparr>gram := paint (const_on (\<lambda>p. p \<in> fill_area x y w h \<and> on_screen d p) c) (gram d)\<rparr>"
proof -
  define x1 where "x1 = (if w < 0 then x + w + 1 else x)"
  define y1 where "y1 = (if h < 0 then y + h + 1 else y)"
  have pred: "(\<lambda>p. p \<in> fill_area x y w h \<and> on_screen d p) =
              (\<lambda>p. in_rect x1 y1 \<bar>w\<bar> \<bar>h\<bar> p \<and> on_screen d p)"
    by (simp add: fill_area_def rect_def x1_def y1_def)
  have mem: "(a, b) \<in> fill_area x y w h \<longleftrightarrow> x1 \<le> a \<and> a < x1 + \<bar>w\<bar> \<and> y1 \<le> b \<and> b < y1 + \<bar>h\<bar>" for a b
    by (simp add: fill_area_def x1_def y1_def)
  show ?thesis
  proof (cases "w = 0 \<or> h = 0 \<or> width d \<le> x1 \<or> height d \<le> y1 \<or> x1 + \<bar>w\<bar> - 1 < 0 \<or> y1 + \<bar>h\<bar> - 1 < 0")
    case True
    then have "fill_rect x y w h c d = d"
      unfolding fill_rect_def Let_def x1_def y1_def by auto
    moreover have "\<not> (p \<in> fill_area x y w h \<and> on_screen d p)" for p
      using True by (cases p) (auto simp: mem on_screen_def)
    ultimately show ?thesis by (simp add: paint_const_on_none)
  next
    case False
    then show ?thesis
      unfolding fill_rect_def Let_def by (simp add: pred x1_def y1_def)
  qed
qed

lemma fill_rect_cfg [simp]: "same_cfg (fill_rect x y w h c d) d'  \<longleftrightarrow> same_cfg d d'"
  by (simp add: fill_rect_eq)

lemma fill_rect_fields [simp]:
  "width (fill_rect x y w h c d) = width d" "height (fill_rect x y w h c d) = height d"
  "cursor_x (fill_rect x y w h c d) = cursor_x d" "cursor_y (fill_rect x y w h c d) = cursor_y d"
  "textsize_x (fill_rect x y w h c d) = textsize_x d" "textsize_y (fill_rect x y w h c d) = textsize_y d"
  "textcolor (fill_rect x y w h c d) = textcolor d" "textbgcolor (fill_rect x y w h c d) = textbgcolor d"
  "wrap (fill_rect x y w h c d) = wrap d" "cp437 (fill_rect x y w h c d) = cp437 d"
  "glcdfont (fill_rect x y w h c d) = glcdfont d" "rotation (fill_rect x y w h c d) = rotation d"
  by (simp_all add: fill_rect_eq)

text \<open>Filling overwrites the whole clipped rectangle: two states that agree
  off \<open>A\<close> agree after the fill off \<open>A\<close> minus the filled pixels.\<close>

lemma fill_rect_overwrite:
  assumes "tft_agree A d1 d2"
  shows "tft_agree (A - (fill_area x y w h \<inter> screen d1)) (fill_rect x y w h c d1) (fill_rect x y w h c d2)"
proof -
  have s: "on_screen d2 = on_screen d1"
    using assms by (simp add: tft_agree_def same_cfg_screen same_cfg_sym)
  have "agree_off (A - Collect (\<lambda>p. p \<in> fill_area x y w h \<and> on_screen d1 p))
          (paint (const_on (\<lambda>p. p \<in> fill_area x y w h \<and> on_screen d1 p) c) (gram d1))
          (paint (const_on (\<lambda>p. p \<in> fill_area x y w h \<and> on_screen d1 p) c) (gram d2))"
    using assms by (intro agree_off_paint_const) (simp add: tft_agree_def)
  moreover have "Collect (\<lambda>p. p \<in> fill_area x y w h \<and> on_screen d1 p) = fill_area x y w h \<inter> screen d1"
    by (auto simp: screen_def)
  ultimately show ?thesis
    using assms by (simp add: tft_agree_def fill_rect_eq s)
qed

lemma fill_rect_gram_overwrite:
  assumes "on_screen d1 = on_screen d2" and "agree_off A (gram d1) (gram d2)"
  shows "agree_off (A - (fill_area x y w h \<inter> screen d1))
           (gram (fill_rect x y w h c d1)) (gram (fill_rect x y w h c d2))"
proof -
  have "Collect (\<lambda>p. p \<in> fill_area x y w h \<and> on_screen d1 p) = fill_area x y w h \<inter> screen d1"
    by (auto simp: screen_def)
  with agree_off_paint_const [OF assms(2), of "\<lambda>p. p \<in> fill_area x y w h \<and> on_screen d1 p" c]
  show ?thesis by (simp add: fill_rect_eq assms(1))
qed

lemma fill_rect_agree:
  "tft_agree A d1 d2 \<Longrightarrow> tft_agree A (fill_rect x y w h c d1) (fill_rect x y w h c d2)"
  by (rule tft_agree_mono [OF fill_rect_overwrite]) auto

lemma fill_rect_frame: "tft_agree (fill_area x y w h \<inter> screen d) d (fill_rect x y w h c d)"
proof -
  have "dom (const_on (\<lambda>p. p \<in> fill_area x y w h \<and> on_screen d p) c) \<subseteq> fill_area x y w h \<inter> screen d"
    by (auto simp: screen_def)
  then show ?thesis by (simp add: tft_agree_def fill_rect_eq agree_off_paint_frame same_cfg_sym)
qed

lemma fill_area_nonneg: "0 \<le> w \<Longrightarrow> 0 \<le> h \<Longrightarrow> fill_area x y w h = rect x y w h"
  by (simp add: fill_area_def)

lemma slot_le: "i < n \<Longrightarrow> 0 \<le> s \<Longrightarrow> int i * s + s \<le> int n * s"
  using mult_right_mono [of "int i + 1" "int n" s] by (simp add: algebra_simps)

lemma row_in_cell:
  "j < n \<Longrightarrow> rect x (y + int j * int sy) w (int sy) \<subseteq> rect x y w (int n * int sy)"
proof -
  have nn: "0 \<le> int j * int sy" by simp
  assume "j < n"
  then have le: "int j * int sy + int sy \<le> int n * int sy" by (simp add: slot_le)
  show ?thesis using nn le by (intro rect_subset) linarith+
qed

lemma col_in_cell:
  "i < n \<Longrightarrow> rect (x + int i * int sx) y (int sx) h \<subseteq> rect x y (int n * int sx) h"
proof -
  have nn: "0 \<le> int i * int sx" by simp
  assume "i < n"
  then have le: "int i * int sx + int sx \<le> int n * int sx" by (simp add: slot_le)
  show ?thesis using nn le by (intro rect_subset) linarith+
qed

lemma tft_agree_frame_step:
  assumes "tft_agree (B \<inter> screen d) d d'" and "B \<subseteq> R"
    and "tft_agree (R \<inter> screen d') d' d''"
  shows "tft_agree (R \<inter> screen d) d d''"
proof -
  have "screen d' = screen d"
    using assms(1) by (simp add: tft_agree_def same_cfg_screen_set same_cfg_sym)
  have "tft_agree (R \<inter> screen d) d d'"
    using assms(2) by (intro tft_agree_mono [OF assms(1)]) blast
  moreover have "tft_agree (R \<inter> screen d) d' d''"
    using assms(3) \<open>screen d' = screen d\<close> by simp
  ultimately show ?thesis by (rule tft_agree_trans_same)
qed

subsection \<open>Drawing a character\<close>

lemma glyph_rows_agree:
  "tft_agree A d1 d2 \<Longrightarrow>
   tft_agree A (glyph_rows x y fg bg sx sy j line k d1) (glyph_rows x y fg bg sx sy j line k d2)"
  by (induction k arbitrary: j line d1 d2) (simp_all add: fill_rect_agree)

lemma glyph_rows_frame:
  "j + k \<le> 8 \<Longrightarrow>
   tft_agree (rect x y (int sx) (8 * int sy) \<inter> screen d) d (glyph_rows x y fg bg sx sy j line k d)"
proof (induction k arbitrary: j line d)
  case 0
  then show ?case by simp
next
  case (Suc k)
  define d' where "d' = (if line AND 1 \<noteq> 0 then fill_rect x (y + int j * int sy) (int sx) (int sy) fg d
        else if bg \<noteq> fg then fill_rect x (y + int j * int sy) (int sx) (int sy) bg d else d)"
  have B: "rect x (y + int j * int sy) (int sx) (int sy) \<subseteq> rect x y (int sx) (8 * int sy)"
    using row_in_cell [where j = j and n = 8 and x = x and y = y and w = "int sx" and sy = sy] Suc.prems
    by simp
  have "tft_agree (rect x (y + int j * int sy) (int sx) (int sy) \<inter> screen d) d d'"
    using fill_rect_frame [where x = x and y = "y + int j * int sy" and w = "int sx" and h = "int sy" and d = d]
    by (simp add: d'_def fill_area_nonneg)
  moreover have "tft_agree (rect x y (int sx) (8 * int sy) \<inter> screen d') d'
                   (glyph_rows x y fg bg sx sy (Suc j) (drop_bit 1 line) k d')"
    using Suc.prems by (intro Suc.IH) simp
  ultimately show ?case
    by (simp add: d'_def [symmetric] tft_agree_frame_step [OF _ B])
qed

lemma glyph_cols_agree:
  "tft_agree A d1 d2 \<Longrightarrow>
   tft_agree A (glyph_cols x y c fg bg sx sy i k d1) (glyph_cols x y c fg bg sx sy i k d2)"
proof (induction k arbitrary: i d1 d2)
  case 0
  then show ?case by simp
next
  case (Suc k)
  then have "glcdfont d1 = glcdfont d2" by (simp add: tft_agree_def same_cfg_def)
  with Suc show ?case by (simp add: glyph_rows_agree)
qed

lemma glyph_cols_frame:
  "i + k \<le> 5 \<Longrightarrow>
   tft_agree (rect x y (6 * int sx) (8 * int sy) \<inter> screen d) d (glyph_cols x y c fg bg sx sy i k d)"
proof (induction k arbitrary: i d)
  case 0
  then show ?case by simp
next
  case (Suc k)
  define d' where "d' = glyph_rows (x + int i * int sx) y fg bg sx sy 0 (glcdfont d (unat c * 5 + i)) 8 d"
  have B: "rect (x + int i * int sx) y (int sx) (8 * int sy) \<subseteq> rect x y (6 * int sx) (8 * int sy)"
    using col_in_cell [where i = i and n = 6 and x = x and sx = sx and y = y and h = "8 * int sy"] Suc.prems
    by simp
  have "tft_agree (rect (x + int i * int sx) y (int sx) (8 * int sy) \<inter> screen d) d d'"
    unfolding d'_def by (rule glyph_rows_frame) simp
  moreover have "tft_agree (rect x y (6 * int sx) (8 * int sy) \<inter> screen d') d'
                   (glyph_cols x y c fg bg sx sy (Suc i) k d')"
    using Suc.prems by (intro Suc.IH) simp
  ultimately show ?case
    by (simp add: d'_def [symmetric] tft_agree_frame_step [OF _ B])
qed

lemma draw_char_agree:
  assumes "tft_agree A d1 d2"
  shows "tft_agree A (draw_char x y c fg bg sx sy d1) (draw_char x y c fg bg sx sy d2)"
proof -
  have "width d1 = width d2" "height d1 = height d2" "cp437 d1 = cp437 d2"
    using assms by (simp_all add: tft_agree_def same_cfg_def)
  with assms show ?thesis
    by (simp add: draw_char_def Let_def glyph_cols_agree fill_rect_agree)
qed

text \<open>A character changes only the pixels of its \<open>6 \<times> 8\<close> cell, scaled by
  the text size and clipped to the screen.\<close>

lemma draw_char_frame:
  "tft_agree (rect x y (6 * int sx) (8 * int sy) \<inter> screen d) d (draw_char x y c fg bg sx sy d)"
proof -
  define c1 where "c1 = (if \<not> cp437 d \<and> 176 \<le> c then c + 1 else c)"
  define d1 where "d1 = glyph_cols x y c1 fg bg sx sy 0 5 d"
  have g: "tft_agree (rect x y (6 * int sx) (8 * int sy) \<inter> screen d) d d1"
    unfolding d1_def by (rule glyph_cols_frame) simp
  have B: "rect (x + 5 * int sx) y (int sx) (8 * int sy) \<subseteq> rect x y (6 * int sx) (8 * int sy)"
    using col_in_cell [where i = 5 and n = 6 and x = x and sx = sx and y = y and h = "8 * int sy"]
    by simp
  have f: "tft_agree (rect (x + 5 * int sx) y (int sx) (8 * int sy) \<inter> screen d1) d1
             (fill_rect (x + 5 * int sx) y (int sx) (8 * int sy) bg d1)"
    using fill_rect_frame [where x = "x + 5 * int sx" and y = y and w = "int sx" and h = "8 * int sy" and c = bg and d = d1]
    by (simp add: fill_area_nonneg)
  have "screen d1 = screen d"
    using g by (simp add: tft_agree_def same_cfg_screen_set same_cfg_sym)
  then have "tft_agree (rect x y (6 * int sx) (8 * int sy) \<inter> screen d) d1
               (fill_rect (x + 5 * int sx) y (int sx) (8 * int sy) bg d1)"
    using f B by (auto intro: tft_agree_mono)
  with g show ?thesis
    unfolding draw_char_def Let_def c1_def [symmetric] d1_def [symmetric]
    by (auto intro: tft_agree_trans_same)
qed

lemma draw_char_cfg: "same_cfg (draw_char x y c fg bg sx sy d) d"
  using draw_char_frame [of x y sx sy d c fg bg] by (simp add: tft_agree_def same_cfg_sym)

lemma draw_char_fields [simp]:
  "width (draw_char x y c fg bg sx sy d) = width d"
  "height (draw_char x y c fg bg sx sy d) = height d"
  "cursor_x (draw_char x y c fg bg sx sy d) = cursor_x d"
  "cursor_y (draw_char x y c fg bg sx sy d) = cursor_y d"
  "textsize_x (draw_char x y c fg bg sx sy d) = textsize_x d"
  "textsize_y (draw_char x y c fg bg sx sy d) = textsize_y d"
  "textcolor (draw_char x y c fg bg sx sy d) = textcolor d"
  "textbgcolor (draw_char x y c fg bg sx sy d) = textbgcolor d"
  "wrap (draw_char x y c fg bg sx sy d) = wrap d"
  "cp437 (draw_char x y c fg bg sx sy d) = cp437 d"
  "glcdfont (draw_char x y c fg bg sx sy d) = glcdfont d"
  "rotation (draw_char x y c fg bg sx sy d) = rotation d"
  using draw_char_cfg [of x y c fg bg sx sy d] by (simp_all add: same_cfg_def)

subsection \<open>Writing characters and strings\<close>

lemma tft_agree_cursor:
  "tft_agree A d1 d2 \<Longrightarrow> tft_agree A (d1\<lparr>cursor_x := a\<rparr>) (d2\<lparr>cursor_x := a\<rparr>)"
  "tft_agree A d1 d2 \<Longrightarrow> tft_agree A (d1\<lparr>cursor_x := a, cursor_y := b\<rparr>) (d2\<lparr>cursor_x := a, cursor_y := b\<rparr>)"
  by (simp_all add: tft_agree_def same_cfg_def)

lemma write_char_agree:
  assumes "tft_agree A d1 d2"
  shows "tft_agree A (write_char ch d1) (write_char ch d2)"
proof -
  have f: "cursor_x d1 = cursor_x d2" "cursor_y d1 = cursor_y d2"
    "textsize_x d1 = textsize_x d2" "textsize_y d1 = textsize_y d2"
    "textcolor d1 = textcolor d2" "textbgcolor d1 = textbgcolor d2"
    "wrap d1 = wrap d2" "width d1 = width d2"
    using assms by (simp_all add: tft_agree_def same_cfg_def)
  show ?thesis
    unfolding write_char_def Let_def
    using assms by (simp add: f tft_agree_cursor draw_char_agree)
qed

text \<open>A printable character written where it fits is drawn at the cursor,
  which then advances by one cell.\<close>

lemma write_char_plain:
  assumes "ch \<noteq> CHR 0x0A" and "ch \<noteq> CHR 0x0D"
    and "\<not> (wrap d \<and> width d < cursor_x d + 6 * int (textsize_x d))"
  shows "write_char ch d =
    (draw_char (cursor_x d) (cursor_y d) (of_char ch) (textcolor d) (textbgcolor d)
       (textsize_x d) (textsize_y d) d)\<lparr>cursor_x := cursor_x d + 6 * int (textsize_x d)\<rparr>"
proof -
  have c: "(wrap d \<and> width d < cursor_x d + 6 * int (textsize_x d)) = False"
    using assms(3) by simp
  show ?thesis unfolding write_char_def Let_def c using assms(1,2) by simp
qed

lemma write_char_frame:
  assumes "(32::nat) \<le> of_char ch" and "cursor_x d + 6 * int (textsize_x d) \<le> width d"
  shows "tft_agree (rect (cursor_x d) (cursor_y d) (6 * int (textsize_x d)) (8 * int (textsize_y d)) \<inter> screen d)
           (d\<lparr>cursor_x := cursor_x d + 6 * int (textsize_x d)\<rparr>) (write_char ch d)"
proof -
  have "ch \<noteq> CHR 0x0A" "ch \<noteq> CHR 0x0D" using assms(1) by auto
  then have w: "write_char ch d =
    (draw_char (cursor_x d) (cursor_y d) (of_char ch) (textcolor d) (textbgcolor d)
       (textsize_x d) (textsize_y d) d)\<lparr>cursor_x := cursor_x d + 6 * int (textsize_x d)\<rparr>"
    using assms(2) by (intro write_char_plain) auto
  show ?thesis
    unfolding w by (rule tft_agree_cursor(1)) (rule draw_char_frame)
qed

lemma print_str_Nil [simp]: "print_str [] d = d"
  by (simp add: print_str_def)

lemma print_str_Cons [simp]: "print_str (ch # s) d = print_str s (write_char ch d)"
  by (simp add: print_str_def)

lemma print_str_append: "print_str (s @ t) d = print_str t (print_str s d)"
  by (simp add: print_str_def)

lemma print_str_agree: "tft_agree A d1 d2 \<Longrightarrow> tft_agree A (print_str s d1) (print_str s d2)"
  by (induction s arbitrary: d1 d2) (simp_all add: write_char_agree)

text \<open>A string of printable characters that fits on the cursor's line is
  drawn cell after cell: it changes only the pixels of the cells it covers, and
  leaves the cursor after its last cell.\<close>

lemma print_str_frame:
  assumes "\<forall>ch \<in> set s. (32::nat) \<le> of_char ch"
    and "cursor_x d + 6 * int (textsize_x d) * int (length s) \<le> width d"
  shows "tft_agree (rect (cursor_x d) (cursor_y d) (6 * int (textsize_x d) * int (length s))
                      (8 * int (textsize_y d)) \<inter> screen d)
           (d\<lparr>cursor_x := cursor_x d + 6 * int (textsize_x d) * int (length s)\<rparr>) (print_str s d)"
  using assms
proof (induction s arbitrary: d)
  case Nil
  then show ?case by (simp add: tft_agree_def same_cfg_def)
next
  case (Cons ch s)
  define sx where "sx = 6 * int (textsize_x d)"
  define d' where "d' = write_char ch d"
  have sx0: "0 \<le> sx" by (simp add: sx_def)
  have step: "tft_agree (rect (cursor_x d) (cursor_y d) sx (8 * int (textsize_y d)) \<inter> screen d)
                (d\<lparr>cursor_x := cursor_x d + sx\<rparr>) d'"
    unfolding sx_def d'_def
  proof (rule write_char_frame)
    show "(32::nat) \<le> of_char ch" using Cons.prems(1) by simp
    show "cursor_x d + 6 * int (textsize_x d) \<le> width d"
      using Cons.prems(2) sx0 mult_left_mono [of 1 "int (length (ch # s))" sx]
      by (simp add: sx_def)
  qed
  then have cfg: "cursor_x d' = cursor_x d + sx" "cursor_y d' = cursor_y d"
      "textsize_x d' = textsize_x d" "textsize_y d' = textsize_y d" "width d' = width d"
      "screen d' = screen d"
    by (auto simp: tft_agree_def same_cfg_def screen_def on_screen_def)
  have IH: "tft_agree (rect (cursor_x d + sx) (cursor_y d) (sx * int (length s)) (8 * int (textsize_y d))
                         \<inter> screen d)
              (d'\<lparr>cursor_x := cursor_x d + sx + sx * int (length s)\<rparr>) (print_str s d')"
    using Cons.IH [of d'] Cons.prems cfg by (simp add: sx_def algebra_simps)
  have step': "tft_agree (rect (cursor_x d) (cursor_y d) sx (8 * int (textsize_y d)) \<inter> screen d)
      (d\<lparr>cursor_x := cursor_x d + sx * int (length (ch # s))\<rparr>)
      (d'\<lparr>cursor_x := cursor_x d + sx + sx * int (length s)\<rparr>)"
    using tft_agree_cursor(1) [OF step, of "cursor_x d + sx + sx * int (length s)"]
    by (simp add: algebra_simps)
  have sub: "rect (cursor_x d) (cursor_y d) sx (8 * int (textsize_y d)) \<union>
             rect (cursor_x d + sx) (cursor_y d) (sx * int (length s)) (8 * int (textsize_y d))
             \<subseteq> rect (cursor_x d) (cursor_y d) (sx * int (length (ch # s))) (8 * int (textsize_y d))"
    using rect_union_row [OF sx0, of "sx * int (length s)" "cursor_x d" "cursor_y d" "8 * int (textsize_y d)"]
      sx0 by (simp add: algebra_simps)
  have "tft_agree (rect (cursor_x d) (cursor_y d) (sx * int (length (ch # s))) (8 * int (textsize_y d))
                    \<inter> screen d)
          (d\<lparr>cursor_x := cursor_x d + sx * int (length (ch # s))\<rparr>) (print_str s d')"
    using tft_agree_trans [OF step' IH] sub by (blast intro: tft_agree_mono)
  then show ?case by (simp add: d'_def sx_def)
qed

lemma print_str_frame_gram:
  assumes "\<forall>ch \<in> set s. (32::nat) \<le> of_char ch"
    and "cursor_x d + 6 * int (textsize_x d) * int (length s) \<le> width d"
  shows "agree_off (rect (cursor_x d) (cursor_y d) (6 * int (textsize_x d) * int (length s))
                      (8 * int (textsize_y d)) \<inter> screen d) (gram d) (gram (print_str s d))"
    and "width (print_str s d) = width d" "height (print_str s d) = height d"
    and "rotation (print_str s d) = rotation d" "wrap (print_str s d) = wrap d"
    and "cp437 (print_str s d) = cp437 d" "glcdfont (print_str s d) = glcdfont d"
proof -
  have T: "tft_agree (rect (cursor_x d) (cursor_y d) (6 * int (textsize_x d) * int (length s))
                      (8 * int (textsize_y d)) \<inter> screen d)
           (d\<lparr>cursor_x := cursor_x d + 6 * int (textsize_x d) * int (length s)\<rparr>) (print_str s d)"
    by (rule print_str_frame [OF assms])
  then show "agree_off (rect (cursor_x d) (cursor_y d) (6 * int (textsize_x d) * int (length s))
                      (8 * int (textsize_y d)) \<inter> screen d) (gram d) (gram (print_str s d))"
    by (simp add: tft_agree_def)
  from T show "width (print_str s d) = width d" "height (print_str s d) = height d"
    "rotation (print_str s d) = rotation d" "wrap (print_str s d) = wrap d"
    "cp437 (print_str s d) = cp437 d" "glcdfont (print_str s d) = glcdfont d"
    by (simp_all add: tft_agree_def same_cfg_def)
qed

text \<open>Writing text never changes the display's size, rotation, wrap mode or
  font, whatever the string.\<close>

lemma write_char_fields [simp]:
  "width (write_char ch d) = width d" "height (write_char ch d) = height d"
  "rotation (write_char ch d) = rotation d" "wrap (write_char ch d) = wrap d"
  "cp437 (write_char ch d) = cp437 d" "glcdfont (write_char ch d) = glcdfont d"
  "textsize_x (write_char ch d) = textsize_x d" "textsize_y (write_char ch d) = textsize_y d"
  "textcolor (write_char ch d) = textcolor d" "textbgcolor (write_char ch d) = textbgcolor d"
  by (simp_all add: write_char_def Let_def)

lemma print_str_fields [simp]:
  "width (print_str s d) = width d" "height (print_str s d) = height d"
  "rotation (print_str s d) = rotation d" "wrap (print_str s d) = wrap d"
  "cp437 (print_str s d) = cp437 d" "glcdfont (print_str s d) = glcdfont d"
  "textsize_x (print_str s d) = textsize_x d" "textsize_y (print_str s d) = textsize_y d"
  "textcolor (print_str s d) = textcolor d" "textbgcolor (print_str s d) = textbgcolor d"
  by (induction s arbitrary: d) simp_all

lemma fill_screen_gram:
  "0 \<le> width d \<Longrightarrow> 0 \<le> height d \<Longrightarrow>
   gram (fill_screen c d) p = (if on_screen d p then c else gram d p)"
  by (cases p) (simp add: fill_screen_def fill_rect_eq fill_area_nonneg paint_const_on on_screen_def)

subsection \<open>Well-formedness\<close>

lemma tft_wf_construct: "tft_wf (tft_construct fb font)"
  by (simp add: tft_wf_def tft_construct_def)

lemma tft_wf_set_rotation:
  "0 < textsize_x d \<Longrightarrow> 0 < textsize_y d \<Longrightarrow> tft_wf (set_rotation m d)"
  by (auto simp: tft_wf_def set_rotation_def Let_def)

lemma tft_wf_set_text_size: "tft_wf d \<Longrightarrow> tft_wf (set_text_size s d)"
  by (simp add: tft_wf_def set_text_size_def)

lemma tft_wf_ops [simp]:
  "tft_wf (set_text_color c bg d) \<longleftrightarrow> tft_wf d" "tft_wf (set_cursor x y d) \<longleftrightarrow> tft_wf d"
  "tft_wf (fill_rect x y w h c d) \<longleftrightarrow> tft_wf d" "tft_wf (fill_screen c d) \<longleftrightarrow> tft_wf d"
  "tft_wf (write_char ch d) \<longleftrightarrow> tft_wf d" "tft_wf (print_str s d) \<longleftrightarrow> tft_wf d"
  by (simp_all add: tft_wf_def set_text_color_def set_cursor_def fill_screen_def)

end
