(* ===== verification/Print_Float.thy ===== *)
theory Print_Float
  imports Prelude
begin

text \<open>
  The Arduino core's number printing, which \<open>printValue\<close> of
  \<^verbatim>\<open>src/src/main.cpp\<close> reaches through \<^verbatim>\<open>tft.print(value, decimals)\<close>:
  \<^verbatim>\<open>Print::printFloat\<close>, and the \<^verbatim>\<open>Print::printNumber\<close> and
  \<^verbatim>\<open>Print::print(long)\<close> it calls for the integer part and for each fractional
  digit.  The library is not part of the repository; the model follows the
  ESP32 Arduino core's \<^verbatim>\<open>Print.cpp\<close>.  Every character a \<^verbatim>\<open>print\<close> call
  emits goes to the display's \<^verbatim>\<open>write\<close>, so a print is modelled by the string
  it emits.  The \<open>float\<close> argument is modelled as a real number: rounding of
  the \<open>double\<close> arithmetic inside \<^verbatim>\<open>printFloat\<close> is not modelled, and the
  \<open>nan\<close> and \<open>inf\<close> branches are absent because every value the program
  prints is finite.  The \<open>unsigned long\<close> integer part is a \<open>32 word\<close>.
\<close>

subsection \<open>Definitions\<close>

text \<open>The character for digit value \<open>c\<close> in \<^verbatim>\<open>printNumber\<close>.\<close>

definition digit_char :: "nat \<Rightarrow> char" where
  "digit_char c = (if c < 10 then char_of (48 + c) else char_of (65 + c - 10))"

text \<open>\<^verbatim>\<open>printNumber(n, 10)\<close>: a do-while loop that peels off the last digit
  until the quotient is zero, so zero prints as one digit.\<close>

fun print_number :: "nat \<Rightarrow> string" where
  "print_number n =
     (if n div 10 = 0 then [] else print_number (n div 10)) @ [digit_char (n mod 10)]"

declare print_number.simps [simp del]

text \<open>\<^verbatim>\<open>print(long n, 10)\<close>: a minus sign, then the magnitude.\<close>

definition print_long :: "int \<Rightarrow> string" where
  "print_long n = (if n < 0 then CHR ''-'' # print_number (nat (- n)) else print_number (nat n))"

text \<open>C's conversion of a floating value to \<open>int\<close> truncates towards zero.\<close>

definition trunc_int :: "real \<Rightarrow> int" where
  "trunc_int r = (if 0 \<le> r then \<lfloor>r\<rfloor> else \<lceil>r\<rceil>)"

text \<open>\<^verbatim>\<open>for (i = 0; i < digits; ++i) rounding /= 10.0;\<close> from \<open>0.5\<close>.\<close>

fun rounding :: "nat \<Rightarrow> real" where
  "rounding 0 = 1 / 2"
| "rounding (Suc i) = rounding i / 10"

text \<open>The loop \<^verbatim>\<open>while (digits-- > 0) { remainder *= 10.0;
  int toPrint = int(remainder); print(toPrint); remainder -= toPrint; }\<close>.\<close>

fun frac_digits :: "nat \<Rightarrow> real \<Rightarrow> string" where
  "frac_digits 0 remainder = []"
| "frac_digits (Suc k) remainder =
     (let r = remainder * 10; to_print = trunc_int r
      in print_long to_print @ frac_digits k (r - of_int to_print))"

text \<open>\<^verbatim>\<open>printFloat(number, digits)\<close>.  The integer part is the C conversion of a
  non-negative \<open>double\<close> to \<open>unsigned long\<close>, written as \<open>word_of_nat\<close> of
  the floor, which wraps modulo \<open>2\<^sup>3\<^sup>2\<close>.\<close>

definition print_float :: "real \<Rightarrow> nat \<Rightarrow> string" where
  "print_float number digits =
     (if number > 4294967040 then ''ovf''
      else if number < - 4294967040 then ''ovf''
      else
        let sign = (if number < 0 then ''-'' else []);
            n = (if number < 0 then - number else number) + rounding digits;
            int_part = (word_of_nat (nat \<lfloor>n\<rfloor>) :: 32 word);
            remainder = n - real (unat int_part)
        in sign @ print_number (unat int_part) @ (if 0 < digits then ''.'' else [])
             @ frac_digits digits remainder)"

text \<open>
  A reference reading of a decimal string, used to state what the printed
  text means: an optional minus sign, the digits of the integer part, and the
  digits after the point.
\<close>

definition digits_val :: "string \<Rightarrow> nat" where
  "digits_val s = foldl (\<lambda>acc ch. 10 * acc + (of_char ch - 48)) 0 s"

definition udec_value :: "string \<Rightarrow> real" where
  "udec_value t =
     (let ip = takeWhile (\<lambda>ch. ch \<noteq> CHR ''.'') t;
          fp = drop 1 (dropWhile (\<lambda>ch. ch \<noteq> CHR ''.'') t)
      in real (digits_val ip) + real (digits_val fp) / 10 ^ length fp)"

fun dec_value :: "string \<Rightarrow> real" where
  "dec_value [] = 0"
| "dec_value (ch # t) = (if ch = CHR ''-'' then - udec_value t else udec_value (ch # t))"

subsection \<open>Digits\<close>

lemma digit_char_digit [simp]: "c < 10 \<Longrightarrow> digit_char c = char_of (48 + c)"
  by (simp add: digit_char_def)

lemma digits_val_acc:
  "foldl (\<lambda>acc ch. 10 * acc + (of_char ch - 48)) a ys = a * 10 ^ length ys + digits_val ys"
proof (induction ys arbitrary: a)
  case Nil
  then show ?case by (simp add: digits_val_def)
next
  case (Cons y ys)
  have "digits_val (y # ys) = (of_char y - 48) * 10 ^ length ys + digits_val ys"
    using Cons.IH [of "of_char y - 48"] by (simp add: digits_val_def)
  with Cons.IH [of "10 * a + (of_char y - 48)"] show ?case
    by (simp add: algebra_simps)
qed

lemma digits_val_append:
  "digits_val (xs @ ys) = digits_val xs * 10 ^ length ys + digits_val ys"
proof -
  have "digits_val (xs @ ys) = foldl (\<lambda>acc ch. 10 * acc + (of_char ch - 48)) (digits_val xs) ys"
    by (simp add: digits_val_def)
  then show ?thesis by (simp only: digits_val_acc)
qed

lemma digits_val_digit [simp]: "c < 10 \<Longrightarrow> digits_val [char_of (48 + c)] = c"
proof -
  assume "c < 10"
  then have "of_char (char_of (48 + c) :: char) = 48 + c"
    by (simp add: of_char_of)
  then show ?thesis by (simp add: digits_val_def)
qed

lemma print_number_unfold:
  "print_number n = (if n < 10 then [] else print_number (n div 10)) @ [digit_char (n mod 10)]"
  by (subst print_number.simps) (simp add: div_eq_0_iff)

lemma digits_val_print_number: "digits_val (print_number n) = n"
proof (induction n rule: print_number.induct)
  case (1 n)
  show ?case
  proof (cases "n < 10")
    case True
    then show ?thesis by (simp add: print_number_unfold [of n])
  next
    case False
    with "1.IH" have "digits_val (print_number (n div 10)) = n div 10"
      by (simp add: div_eq_0_iff)
    then show ?thesis using False
      by (simp add: print_number_unfold [of n] digits_val_append)
  qed
qed

lemma print_number_nonempty [simp]: "print_number n \<noteq> []"
  by (simp add: print_number_unfold [of n])

lemma set_print_number:
  "set (print_number n) \<subseteq> {ch. (48::nat) \<le> of_char ch \<and> of_char ch \<le> (57::nat)}"
proof (induction n rule: print_number.induct)
  case (1 n)
  have "(48::nat) \<le> of_char (digit_char (n mod 10)) \<and> of_char (digit_char (n mod 10)) \<le> (57::nat)"
    by (simp add: of_char_of)
  with "1.IH" show ?case
    by (auto simp: print_number_unfold [of n] div_eq_0_iff split: if_splits)
qed

lemma length_print_number_le: "n < 10 ^ k \<Longrightarrow> 0 < k \<Longrightarrow> length (print_number n) \<le> k"
proof (induction n arbitrary: k rule: print_number.induct)
  case (1 n)
  show ?case
  proof (cases "n < 10")
    case True
    with "1.prems" show ?thesis by (simp add: print_number_unfold [of n])
  next
    case False
    then obtain k' where k: "k = Suc k'" and "0 < k'"
      using "1.prems" by (cases k; cases "k - 1") auto
    with "1.prems" have "n div 10 < 10 ^ k'"
      by (simp add: div_less_iff_less_mult mult.commute)
    with "1.IH" False \<open>0 < k'\<close> have "length (print_number (n div 10)) \<le> k'"
      by (simp add: div_eq_0_iff)
    with False k show ?thesis by (simp add: print_number_unfold [of n])
  qed
qed

lemma print_number_digit: "n < 10 \<Longrightarrow> print_number n = [char_of (48 + n)]"
  by (simp add: print_number_unfold [of n])

subsection \<open>The fractional digits\<close>

lemma print_long_digit: "0 \<le> t \<Longrightarrow> t < 10 \<Longrightarrow> print_long t = [char_of (48 + nat t)]"
  by (simp add: print_long_def print_number_digit nat_less_iff)

lemma trunc_int_nonneg: "0 \<le> r \<Longrightarrow> trunc_int r = \<lfloor>r\<rfloor>"
  by (simp add: trunc_int_def)

text \<open>Each pass of the digit loop starts from a remainder in \<open>[0, 1)\<close>, so the
  value printed is a single digit and the next remainder is again in
  \<open>[0, 1)\<close>.  The digits read back as the first \<open>k\<close> decimal places of the
  remainder.\<close>

lemma frac_digits_spec:
  assumes "0 \<le> r" and "r < 1"
  shows "length (frac_digits k r) = k
         \<and> int (digits_val (frac_digits k r)) = \<lfloor>r * 10 ^ k\<rfloor>
         \<and> set (frac_digits k r) \<subseteq> {ch. (48::nat) \<le> of_char ch \<and> of_char ch \<le> (57::nat)}"
  using assms
proof (induction k arbitrary: r)
  case 0
  then show ?case by (simp add: digits_val_def floor_eq_iff)
next
  case (Suc k)
  define t where "t = \<lfloor>r * 10\<rfloor>"
  have t0: "0 \<le> t" and t9: "t < 10"
    using Suc.prems by (simp_all add: t_def floor_less_iff)
  have r': "0 \<le> r * 10 - of_int t" "r * 10 - of_int t < 1"
    by (simp_all add: t_def) linarith
  note IH = Suc.IH [OF r']
  have eq: "frac_digits (Suc k) r = [char_of (48 + nat t)] @ frac_digits k (r * 10 - of_int t)"
    using Suc.prems t0 t9 by (simp add: Let_def trunc_int_nonneg t_def print_long_digit)
  have dig: "of_char (char_of (48 + nat t) :: char) = 48 + nat t"
    using t0 t9 by (simp add: of_char_of)
  have "\<lfloor>(r * 10 - of_int t) * 10 ^ k\<rfloor> = \<lfloor>r * 10 ^ Suc k\<rfloor> - t * 10 ^ k"
  proof -
    have e: "(r * 10 - of_int t) * 10 ^ k = r * 10 ^ Suc k - of_int (t * 10 ^ k)"
      by (simp add: algebra_simps)
    show ?thesis unfolding e by (rule floor_diff_of_int)
  qed
  moreover have "digits_val [char_of (48 + nat t)] = nat t"
    using t0 t9 by (simp add: nat_less_iff)
  ultimately have "int (digits_val (frac_digits (Suc k) r)) = \<lfloor>r * 10 ^ Suc k\<rfloor>"
    using IH t0 unfolding eq digits_val_append by simp
  moreover have "length (frac_digits (Suc k) r) = Suc k"
    using IH unfolding eq by simp
  moreover have "set (frac_digits (Suc k) r) \<subseteq> {ch. (48::nat) \<le> of_char ch \<and> of_char ch \<le> (57::nat)}"
    using IH dig t9 unfolding eq by auto
  ultimately show ?case by blast
qed

subsection \<open>The printed value\<close>

lemma rounding_eq: "rounding d = 1 / (2 * 10 ^ d)"
  by (induction d) simp_all

lemma rounding_bounds: "0 < rounding d \<and> rounding d \<le> 1 / 2"
  by (simp add: rounding_eq)

text \<open>Below the \<open>ovf\<close> threshold the rounded magnitude is below \<open>2\<^sup>3\<^sup>2\<close>, so
  the conversion to \<open>unsigned long\<close> does not wrap.\<close>

lemma int_part_no_wrap:
  assumes "\<bar>x\<bar> \<le> 4294967040"
  shows "unat (word_of_nat (nat \<lfloor>\<bar>x\<bar> + rounding d\<rfloor>) :: 32 word) = nat \<lfloor>\<bar>x\<bar> + rounding d\<rfloor>"
proof -
  have "\<bar>x\<bar> + rounding d < 4294967296"
    using assms rounding_bounds [of d] by linarith
  then have "\<lfloor>\<bar>x\<bar> + rounding d\<rfloor> < 4294967296"
    by (simp add: floor_less_iff)
  moreover have "0 \<le> \<lfloor>\<bar>x\<bar> + rounding d\<rfloor>"
    using rounding_bounds [of d] by simp
  ultimately have "nat \<lfloor>\<bar>x\<bar> + rounding d\<rfloor> < 2 ^ LENGTH(32)"
    by (simp add: nat_less_iff)
  then show ?thesis by (simp add: unat_of_nat)
qed

lemma print_float_unfold:
  assumes "\<bar>x\<bar> \<le> 4294967040"
  shows "print_float x d =
    (if x < 0 then ''-'' else []) @ print_number (nat \<lfloor>\<bar>x\<bar> + rounding d\<rfloor>)
    @ (if 0 < d then ''.'' else [])
    @ frac_digits d (\<bar>x\<bar> + rounding d - of_int \<lfloor>\<bar>x\<bar> + rounding d\<rfloor>)"
proof -
  have n: "(if x < 0 then - x else x) = \<bar>x\<bar>" by simp
  have pos: "0 \<le> \<lfloor>\<bar>x\<bar> + rounding d\<rfloor>"
    using rounding_bounds [of d] by simp
  show ?thesis
    using assms int_part_no_wrap [OF assms, of d] pos
    by (simp only: print_float_def n Let_def) (simp add: abs_le_iff)
qed

lemma digit_not_point:
  "set xs \<subseteq> {ch. (48::nat) \<le> of_char ch \<and> of_char ch \<le> (57::nat)} \<Longrightarrow> ch \<in> set xs \<Longrightarrow>
   ch \<noteq> CHR ''.'' \<and> ch \<noteq> CHR ''-''"
  by auto

lemma udec_value_digits:
  assumes ip: "set ip \<subseteq> {ch. (48::nat) \<le> of_char ch \<and> of_char ch \<le> (57::nat)}"
    and f: "d = (0::nat) \<Longrightarrow> f = []"
  shows "udec_value (ip @ (if 0 < d then ''.'' else []) @ f)
         = real (digits_val ip) + real (digits_val f) / 10 ^ length f"
proof -
  have P: "\<And>ch. ch \<in> set ip \<Longrightarrow> ch \<noteq> CHR ''.''"
    using digit_not_point [OF ip] by blast
  show ?thesis
  proof (cases "0 < d")
    case True
    then show ?thesis by (simp add: udec_value_def P)
  next
    case False
    then have "f = []" using f by simp
    have tw: "takeWhile (\<lambda>ch. ch \<noteq> CHR ''.'') ip = ip"
      and dw: "dropWhile (\<lambda>ch. ch \<noteq> CHR ''.'') ip = []"
      using P by (simp_all add: takeWhile_eq_all_conv dropWhile_eq_Nil_conv)
    have "udec_value ip = real (digits_val ip)"
      unfolding udec_value_def Let_def tw dw by (simp add: digits_val_def)
    with False \<open>f = []\<close> show ?thesis by (simp add: digits_val_def)
  qed
qed

lemma dec_value_minus: "dec_value (CHR ''-'' # t) = - udec_value t"
  by simp

lemma dec_value_unsigned:
  "s \<noteq> [] \<Longrightarrow> hd s \<noteq> CHR ''-'' \<Longrightarrow> dec_value s = udec_value s"
  by (cases s) auto

lemma hd_print_number_not_minus: "hd (print_number n) \<noteq> CHR ''-''"
proof -
  have "hd (print_number n) \<in> set (print_number n)" by simp
  then show ?thesis using digit_not_point [OF set_print_number [of n]] by simp
qed

text \<open>The printed string reads back as the magnitude rounded half-up to
  \<open>d\<close> decimal places, with the sign of the argument.\<close>

lemma udec_value_print_float_body:
  assumes "0 \<le> a"
  shows "udec_value (print_number (nat \<lfloor>a + rounding d\<rfloor>) @ (if 0 < d then ''.'' else [])
           @ frac_digits d (a + rounding d - of_int \<lfloor>a + rounding d\<rfloor>))
         = of_int \<lfloor>a * 10 ^ d + 1 / 2\<rfloor> / 10 ^ d"
proof -
  define n where "n = a + rounding d"
  define r where "r = n - of_int \<lfloor>n\<rfloor>"
  have n0: "0 \<le> \<lfloor>n\<rfloor>" using assms rounding_bounds [of d] by (simp add: n_def)
  have r: "0 \<le> r" "r < 1" by (simp_all add: r_def) linarith
  note F = frac_digits_spec [OF r, of d]
  have "\<lfloor>r * 10 ^ d\<rfloor> = \<lfloor>n * 10 ^ d\<rfloor> - \<lfloor>n\<rfloor> * 10 ^ d"
  proof -
    have e: "r * 10 ^ d = n * 10 ^ d - of_int (\<lfloor>n\<rfloor> * 10 ^ d)"
      by (simp add: r_def algebra_simps)
    show ?thesis unfolding e by (rule floor_diff_of_int)
  qed
  moreover have "n * 10 ^ d = a * 10 ^ d + 1 / 2"
    by (simp add: n_def rounding_eq algebra_simps)
  ultimately have fl: "\<lfloor>r * 10 ^ d\<rfloor> = \<lfloor>a * 10 ^ d + 1 / 2\<rfloor> - \<lfloor>n\<rfloor> * 10 ^ d"
    by simp
  have fv: "real (digits_val (frac_digits d r)) = of_int \<lfloor>r * 10 ^ d\<rfloor>"
    using F by (metis of_int_of_nat_eq)
  have ip: "real (digits_val (print_number (nat \<lfloor>n\<rfloor>))) = of_int \<lfloor>n\<rfloor>"
    using n0 by (simp add: digits_val_print_number)
  have "udec_value (print_number (nat \<lfloor>n\<rfloor>) @ (if 0 < d then ''.'' else []) @ frac_digits d r)
        = of_int \<lfloor>n\<rfloor> + of_int \<lfloor>r * 10 ^ d\<rfloor> / 10 ^ d"
    using F by (simp add: udec_value_digits [OF set_print_number] ip fv)
  also have "\<dots> = of_int \<lfloor>a * 10 ^ d + 1 / 2\<rfloor> / 10 ^ d"
    by (simp add: fl field_simps)
  finally show ?thesis by (simp add: n_def r_def)
qed

lemma dec_value_print_float:
  assumes "\<bar>x\<bar> \<le> 4294967040"
  shows "dec_value (print_float x d) =
         (if x < 0 then - 1 else 1) * (of_int \<lfloor>\<bar>x\<bar> * 10 ^ d + 1 / 2\<rfloor> / 10 ^ d)"
proof -
  define body where "body = print_number (nat \<lfloor>\<bar>x\<bar> + rounding d\<rfloor>)
    @ (if 0 < d then ''.'' else []) @ frac_digits d (\<bar>x\<bar> + rounding d - of_int \<lfloor>\<bar>x\<bar> + rounding d\<rfloor>)"
  have u: "udec_value body = of_int \<lfloor>\<bar>x\<bar> * 10 ^ d + 1 / 2\<rfloor> / 10 ^ d"
    unfolding body_def by (rule udec_value_print_float_body) simp
  have p: "print_float x d = (if x < 0 then ''-'' else []) @ body"
    unfolding body_def by (rule print_float_unfold [OF assms])
  show ?thesis
  proof (cases "x < 0")
    case True
    then show ?thesis by (simp only: p if_True append.simps dec_value_minus u)
  next
    case False
    have "dec_value body = udec_value body"
      by (rule dec_value_unsigned) (simp_all add: body_def hd_print_number_not_minus)
    with False show ?thesis by (simp add: p u)
  qed
qed

lemma length_print_float:
  assumes "\<bar>x\<bar> \<le> 4294967040"
  shows "length (print_float x d) = (if x < 0 then 1 else 0)
           + length (print_number (nat \<lfloor>\<bar>x\<bar> + rounding d\<rfloor>)) + (if 0 < d then 1 else 0) + d"
proof -
  have "0 \<le> \<bar>x\<bar> + rounding d - of_int \<lfloor>\<bar>x\<bar> + rounding d\<rfloor>"
       "\<bar>x\<bar> + rounding d - of_int \<lfloor>\<bar>x\<bar> + rounding d\<rfloor> < 1"
    by linarith+
  from frac_digits_spec [OF this, of d] show ?thesis
    by (simp add: print_float_unfold [OF assms])
qed

lemma length_print_float_le:
  assumes "\<bar>x\<bar> \<le> 4294967040" and "\<bar>x\<bar> + rounding d < 10 ^ k" and "0 < k"
  shows "length (print_float x d) \<le> 2 + k + d"
proof -
  have "nat \<lfloor>\<bar>x\<bar> + rounding d\<rfloor> < 10 ^ k"
  proof -
    have "\<lfloor>\<bar>x\<bar> + rounding d\<rfloor> < 10 ^ k"
      using assms(2) by (simp add: floor_less_iff)
    moreover have "0 \<le> \<lfloor>\<bar>x\<bar> + rounding d\<rfloor>"
      using rounding_bounds [of d] by simp
    ultimately show ?thesis by (simp add: nat_less_iff)
  qed
  then have "length (print_number (nat \<lfloor>\<bar>x\<bar> + rounding d\<rfloor>)) \<le> k"
    using assms(3) by (rule length_print_number_le)
  moreover have "(if x < 0 then 1 else 0) \<le> (1::nat)" "(if 0 < d then 1 else 0) \<le> (1::nat)"
    by simp_all
  ultimately show ?thesis unfolding length_print_float [OF assms(1)] by linarith
qed

text \<open>Every character \<^verbatim>\<open>printFloat\<close> emits is a digit, a sign, a point or a
  letter of \<open>ovf\<close>: none is a control character.\<close>

lemma print_float_chars: "ch \<in> set (print_float x d) \<Longrightarrow> (45::nat) \<le> of_char ch"
proof (cases "\<bar>x\<bar> \<le> 4294967040")
  case True
  have "0 \<le> \<bar>x\<bar> + rounding d - of_int \<lfloor>\<bar>x\<bar> + rounding d\<rfloor>"
       "\<bar>x\<bar> + rounding d - of_int \<lfloor>\<bar>x\<bar> + rounding d\<rfloor> < 1"
    by linarith+
  note F = frac_digits_spec [OF this, of d]
  assume "ch \<in> set (print_float x d)"
  with True F set_print_number [of "nat \<lfloor>\<bar>x\<bar> + rounding d\<rfloor>"] show ?thesis
    by (auto simp: print_float_unfold split: if_splits)
next
  case False
  assume "ch \<in> set (print_float x d)"
  with False show ?thesis by (auto simp: print_float_def split: if_splits)
qed

subsection \<open>Accuracy\<close>

text \<open>The printed text differs from the value by at most half a unit in the
  last printed place.\<close>

lemma print_float_error:
  assumes "\<bar>x\<bar> \<le> 4294967040"
  shows "\<bar>dec_value (print_float x d) - x\<bar> \<le> 1 / (2 * 10 ^ d)"
proof -
  define f where "f = \<lfloor>\<bar>x\<bar> * 10 ^ d + 1 / 2\<rfloor>"
  have b: "\<bar>x\<bar> * 10 ^ d - 1 / 2 < of_int f" "of_int f \<le> \<bar>x\<bar> * 10 ^ d + 1 / 2"
    unfolding f_def by linarith+
  have e: "of_int f / 10 ^ d - \<bar>x\<bar> = (of_int f - \<bar>x\<bar> * 10 ^ d) / 10 ^ d"
    by (simp add: field_simps)
  have "\<bar>of_int f - \<bar>x\<bar> * 10 ^ d\<bar> \<le> 1 / 2"
    unfolding abs_le_iff using b by linarith
  then have "\<bar>of_int f - \<bar>x\<bar> * 10 ^ d\<bar> / 10 ^ d \<le> (1 / 2) / 10 ^ d"
    by (rule divide_right_mono) simp
  then have close: "\<bar>of_int f / 10 ^ d - \<bar>x\<bar>\<bar> \<le> 1 / (2 * 10 ^ d)"
    unfolding e abs_divide by simp
  show ?thesis
  proof (cases "x < 0")
    case True
    then have "dec_value (print_float x d) - x = - (of_int f / 10 ^ d - \<bar>x\<bar>)"
      by (simp add: dec_value_print_float [OF assms] f_def)
    with close show ?thesis by (simp only: abs_minus_cancel)
  next
    case False
    then have "dec_value (print_float x d) - x = of_int f / 10 ^ d - \<bar>x\<bar>"
      by (simp add: dec_value_print_float [OF assms] f_def)
    with close show ?thesis by simp
  qed
qed

end
