(* ===== verification/Renderer.thy ===== *)
theory Renderer
  imports Gfx Print_Float
begin

text \<open>
  The display renderer of \<^verbatim>\<open>src/src/main.cpp\<close>: the layout constants
  (lines 30--47), \<^verbatim>\<open>drawHeader\<close>, \<^verbatim>\<open>drawStaticLabels\<close>,
  \<^verbatim>\<open>clearValueBox\<close> and \<^verbatim>\<open>printValue\<close>, each a function of the display
  state.  The colour constants of \<^verbatim>\<open>Adafruit_ILI9341.h\<close> are RGB565 words.
  The lemmas show what one \<^verbatim>\<open>printValue\<close> touches (its value box and
  nothing else), that it depends on nothing the previous frames drew inside its
  box, and that the value strings the program prints fit their boxes.
\<close>

subsection \<open>Layout constants\<close>

text \<open>\<^verbatim>\<open>ILI9341_WHITE\<close>; the colours of lines 32--37 are the values of
  \<^verbatim>\<open>ILI9341_BLACK\<close> (0x0000), \<^verbatim>\<open>ILI9341_DARKCYAN\<close> (0x03EF),
  \<^verbatim>\<open>ILI9341_GREEN\<close> (0x07E0), \<^verbatim>\<open>ILI9341_CYAN\<close> (0x07FF) and
  \<^verbatim>\<open>ILI9341_RED\<close> (0xF800).\<close>

definition ILI9341_WHITE :: color where "ILI9341_WHITE = 0xFFFF"

definition HEADER_H :: int where "HEADER_H = 40"
definition COL_BG :: color where "COL_BG = 0x0000"
definition COL_HEADER :: color where "COL_HEADER = 0x03EF"
definition COL_ROLL :: color where "COL_ROLL = 0x07E0"
definition COL_PITCH :: color where "COL_PITCH = 0x07FF"
definition COL_TEMP :: color where "COL_TEMP = 0xF800"

definition LINE_X_LABEL :: int where "LINE_X_LABEL = 10"
definition LINE_X_VAL :: int where "LINE_X_VAL = 110"
definition LINE_Y1 :: int where "LINE_Y1 = HEADER_H + 30"
definition LINE_Y2 :: int where "LINE_Y2 = HEADER_H + 70"
definition LINE_Y3 :: int where "LINE_Y3 = HEADER_H + 110"
definition VAL_W :: int where "VAL_W = 200"
definition VAL_H :: int where "VAL_H = 24"

lemmas layout_defs = HEADER_H_def LINE_X_LABEL_def LINE_X_VAL_def LINE_Y1_def LINE_Y2_def
  LINE_Y3_def VAL_W_def VAL_H_def

subsection \<open>Drawing operations\<close>

definition drawHeader :: "tft \<Rightarrow> tft" where
  "drawHeader d =
     (let d1 = fill_rect 0 0 (width d) HEADER_H COL_HEADER d;
          d2 = set_text_size 2 d1;
          d3 = set_text_color ILI9341_WHITE COL_HEADER d2;
          d4 = set_cursor 10 12 d3
      in print_str ''ERESENSE - MPU6050'' d4)"

definition drawStaticLabels :: "tft \<Rightarrow> tft" where
  "drawStaticLabels d =
     (let d1 = set_text_size 2 d;
          d2 = set_text_color ILI9341_WHITE COL_BG d1;
          d3 = print_str ''Roll:'' (set_cursor LINE_X_LABEL LINE_Y1 d2);
          d4 = print_str ''Pitch:'' (set_cursor LINE_X_LABEL LINE_Y2 d3)
      in print_str ''Temp:'' (set_cursor LINE_X_LABEL LINE_Y3 d4))"

definition clearValueBox :: "int \<Rightarrow> tft \<Rightarrow> tft" where
  "clearValueBox y d = fill_rect LINE_X_VAL y VAL_W VAL_H COL_BG d"

text \<open>\<^verbatim>\<open>printValue(y, value, unit, color, decimals)\<close>: clear the box, then
  print the value with \<^verbatim>\<open>tft.print(value, decimals)\<close>, a space and the unit.\<close>

definition printValue :: "int \<Rightarrow> real \<Rightarrow> string \<Rightarrow> color \<Rightarrow> nat \<Rightarrow> tft \<Rightarrow> tft" where
  "printValue y value unit color decimals d =
     (let d1 = clearValueBox y d;
          d2 = set_text_size 2 d1;
          d3 = set_text_color color COL_BG d2;
          d4 = set_cursor LINE_X_VAL y d3;
          d5 = print_str (print_float value decimals) d4;
          d6 = print_str '' '' d5
      in print_str unit d6)"

text \<open>The text one \<^verbatim>\<open>printValue\<close> writes, and the box it owns.\<close>

definition value_text :: "real \<Rightarrow> nat \<Rightarrow> string \<Rightarrow> string" where
  "value_text value decimals unit = print_float value decimals @ '' '' @ unit"

definition value_box :: "int \<Rightarrow> pixel set" where
  "value_box y = rect LINE_X_VAL y VAL_W VAL_H"

definition text_start :: "int \<Rightarrow> color \<Rightarrow> tft \<Rightarrow> tft" where
  "text_start y color d = set_cursor LINE_X_VAL y (set_text_color color COL_BG (set_text_size 2 d))"

text \<open>The static chrome: the header banner and the cells of the three labels
  (size-2 text, \<open>12 \<times> 16\<close> pixels per character).\<close>

definition header_area :: "pixel set" where
  "header_area = rect 0 0 ILI9341_TFTWIDTH HEADER_H"

text \<open>The cells of the title \<^verbatim>\<open>ERESENSE - MPU6050\<close> (18 characters at
  \<open>(10, 12)\<close>).\<close>

definition title_area :: "pixel set" where
  "title_area = rect 10 12 (12 * 18) 16"

definition label_area :: "pixel set" where
  "label_area = rect LINE_X_LABEL LINE_Y1 (12 * 5) 16 \<union> rect LINE_X_LABEL LINE_Y2 (12 * 6) 16
                \<union> rect LINE_X_LABEL LINE_Y3 (12 * 5) 16"

definition value_area :: "pixel set" where
  "value_area = value_box LINE_Y1 \<union> value_box LINE_Y2 \<union> value_box LINE_Y3"

text \<open>Display states with the same setup agree on the fields that no drawing
  call and no text setting changes.\<close>

definition same_setup :: "tft \<Rightarrow> tft \<Rightarrow> bool" where
  "same_setup d1 d2 \<longleftrightarrow> width d1 = width d2 \<and> height d1 = height d2 \<and> rotation d1 = rotation d2
     \<and> wrap d1 = wrap d2 \<and> cp437 d1 = cp437 d2 \<and> glcdfont d1 = glcdfont d2"

subsection \<open>What one value update touches\<close>

lemma same_setup_refl [simp, intro]: "same_setup d d"
  by (simp add: same_setup_def)

lemma same_setup_sym: "same_setup d1 d2 \<Longrightarrow> same_setup d2 d1"
  by (auto simp: same_setup_def)

lemma same_setup_trans: "same_setup d1 d2 \<Longrightarrow> same_setup d2 d3 \<Longrightarrow> same_setup d1 d3"
  by (simp add: same_setup_def)

lemma same_setup_screen: "same_setup d1 d2 \<Longrightarrow> screen d1 = screen d2"
  by (simp add: same_setup_def screen_rect)

lemma same_cfg_setup: "same_cfg d1 d2 \<Longrightarrow> same_setup d1 d2"
  by (simp add: same_cfg_def same_setup_def)

lemma printValue_text:
  "printValue y v u c k d = print_str (value_text v k u) (text_start y c (clearValueBox y d))"
  by (simp add: printValue_def value_text_def text_start_def Let_def print_str_append)

lemma text_start_fields [simp]:
  "gram (text_start y c d) = gram d" "width (text_start y c d) = width d"
  "height (text_start y c d) = height d" "cursor_x (text_start y c d) = LINE_X_VAL"
  "cursor_y (text_start y c d) = y" "textsize_x (text_start y c d) = 2" "textsize_y (text_start y c d) = 2"
  "screen (text_start y c d) = screen d" "rotation (text_start y c d) = rotation d"
  "wrap (text_start y c d) = wrap d" "cp437 (text_start y c d) = cp437 d"
  "glcdfont (text_start y c d) = glcdfont d"
  by (simp_all add: text_start_def set_cursor_def set_text_color_def set_text_size_def screen_rect)

lemma text_start_setup: "same_setup (text_start y c d) d"
  by (simp add: text_start_def set_cursor_def set_text_color_def set_text_size_def same_setup_def)

lemma value_box_clear: "fill_area LINE_X_VAL y VAL_W VAL_H = value_box y"
  by (simp add: fill_area_nonneg value_box_def layout_defs)

lemma value_text_chars:
  "\<forall>ch \<in> set u. (32::nat) \<le> of_char ch \<Longrightarrow> \<forall>ch \<in> set (value_text v k u). (32::nat) \<le> of_char ch"
  using print_float_chars [of _ v k] by (fastforce simp: value_text_def)

text \<open>Frame: when the value text fits on the line and in the box, a value
  update changes no pixel outside its box and keeps the display's setup.\<close>

lemma printValue_frame_gen:
  assumes chars: "\<forall>ch \<in> set u. (32::nat) \<le> of_char ch"
    and fit: "LINE_X_VAL + 12 * int (length (value_text v k u)) \<le> width d"
    and box: "12 * int (length (value_text v k u)) \<le> VAL_W"
  shows "same_setup d (printValue y v u c k d) \<and>
         agree_off (value_box y \<inter> screen d) (gram d) (gram (printValue y v u c k d))"
proof -
  define d1 where "d1 = clearValueBox y d"
  define d4 where "d4 = text_start y c d1"
  define n where "n = length (value_text v k u)"
  have f1: "tft_agree (value_box y \<inter> screen d) d d1"
    using fill_rect_frame [where x = LINE_X_VAL and y = y and w = VAL_W and h = VAL_H and d = d and c = COL_BG]
    by (simp add: d1_def clearValueBox_def value_box_clear)
  then have c1: "same_cfg d1 d" by (simp add: tft_agree_def same_cfg_sym)
  then have w1: "width d1 = width d" by (simp add: same_cfg_def)
  have s1: "screen d1 = screen d" using c1 by (rule same_cfg_screen_set)
  have fit4: "cursor_x d4 + 6 * int (textsize_x d4) * int (length (value_text v k u)) \<le> width d4"
    using fit by (simp add: d4_def w1)
  note P = print_str_frame_gram [OF value_text_chars [OF chars] fit4]
  have sub: "rect LINE_X_VAL y (12 * int n) 16 \<subseteq> value_box y"
    unfolding value_box_def using box by (intro rect_subset) (simp_all add: layout_defs n_def)
  have g4: "agree_off (value_box y \<inter> screen d) (gram d4) (gram (print_str (value_text v k u) d4))"
  proof (rule agree_off_mono [OF P(1)])
    show "rect (cursor_x d4) (cursor_y d4) (6 * int (textsize_x d4) * int (length (value_text v k u)))
            (8 * int (textsize_y d4)) \<inter> screen d4 \<subseteq> value_box y \<inter> screen d"
      using sub by (auto simp: d4_def s1 n_def)
  qed
  have g1: "agree_off (value_box y \<inter> screen d) (gram d) (gram d4)"
    using f1 by (simp add: tft_agree_def d4_def)
  have s: "same_setup d (print_str (value_text v k u) d4)"
    using P(2-7) c1 by (simp add: same_setup_def same_cfg_def d4_def)
  show ?thesis
    using s agree_off_trans [OF g1 g4] by (simp add: printValue_text d4_def d1_def)
qed

text \<open>Congruence: a value update ignores everything its box held before.\<close>

lemma printValue_cong_gen:
  assumes "same_setup d1 d2" and "agree_off (A \<union> (value_box y \<inter> screen d1)) (gram d1) (gram d2)"
  shows "tft_agree A (printValue y v u c k d1) (printValue y v u c k d2)"
proof -
  have os: "on_screen d1 = on_screen d2"
    using assms(1) by (simp add: same_setup_def on_screen_def fun_eq_iff)
  have "agree_off ((A \<union> (value_box y \<inter> screen d1)) - (value_box y \<inter> screen d1))
          (gram (clearValueBox y d1)) (gram (clearValueBox y d2))"
    using fill_rect_gram_overwrite [OF os assms(2), of LINE_X_VAL y VAL_W VAL_H COL_BG]
    by (simp add: clearValueBox_def value_box_clear)
  then have a: "agree_off A (gram (clearValueBox y d1)) (gram (clearValueBox y d2))"
    by (rule agree_off_mono) auto
  have "same_cfg (text_start y c (clearValueBox y d1)) (text_start y c (clearValueBox y d2))"
    using assms(1)
    by (simp add: text_start_def set_cursor_def set_text_color_def set_text_size_def
        same_cfg_def same_setup_def clearValueBox_def)
  with a have "tft_agree A (text_start y c (clearValueBox y d1)) (text_start y c (clearValueBox y d2))"
    by (simp add: tft_agree_def)
  then show ?thesis by (simp add: printValue_text print_str_agree)
qed

subsection \<open>The program's value strings fit their boxes\<close>

lemma rounding_one: "rounding 1 = 1 / 20"
  by (simp add: rounding_eq)

lemma value_text_length:
  assumes "\<bar>v\<bar> < 999"
  shows "length (value_text v 1 u) \<le> 7 + length u"
proof -
  have "length (print_float v 1) \<le> 2 + 3 + 1"
    using assms by (intro length_print_float_le) (simp_all add: rounding_one)
  then show ?thesis by (simp add: value_text_def)
qed

lemma value_text_fits:
  assumes "\<bar>v\<bar> < 999" and "length u \<le> 3" and "width d = ILI9341_TFTWIDTH"
  shows "LINE_X_VAL + 12 * int (length (value_text v 1 u)) \<le> width d"
    and "12 * int (length (value_text v 1 u)) \<le> VAL_W"
  using value_text_length [OF assms(1), of u] assms(2,3)
  by (simp_all add: layout_defs ILI9341_TFTWIDTH_def)

lemma value_box_screen_frame:
  assumes "width d = ILI9341_TFTWIDTH" "\<bar>v\<bar> < 999" "length u \<le> 3" "\<forall>ch \<in> set u. (32::nat) \<le> of_char ch"
  shows "same_setup d (printValue y v u c 1 d) \<and>
         agree_off (value_box y \<inter> screen d) (gram d) (gram (printValue y v u c 1 d))"
  using value_text_fits [OF assms(2,3,1)] by (intro printValue_frame_gen [OF assms(4)])

lemma printValue_cong:
  assumes "same_setup d1 d2" and "agree_off (value_box y \<inter> screen d1) (gram d1) (gram d2)"
  shows "printValue y v u c k d1 = printValue y v u c k d2"
proof -
  have "agree_off ({} \<union> (value_box y \<inter> screen d1)) (gram d1) (gram d2)"
    using assms(2) by simp
  then have "tft_agree {} (printValue y v u c k d1) (printValue y v u c k d2)"
    by (rule printValue_cong_gen [OF assms(1)])
  then show ?thesis by (simp add: tft_agree_empty)
qed

lemma printValue_setup: "same_setup (printValue y v u c k d) d"
  by (simp add: printValue_text same_setup_def clearValueBox_def)

lemma printValue_screen [simp]: "screen (printValue y v u c k d) = screen d"
  using printValue_setup by (rule same_setup_screen)

lemma printValue_cong_agree:
  assumes "tft_agree (A \<union> (value_box y \<inter> screen d1)) d1 d2"
  shows "tft_agree A (printValue y v u c k d1) (printValue y v u c k d2)"
  using assms by (intro printValue_cong_gen) (simp_all add: tft_agree_def same_cfg_setup)

lemma printValue_agree_off:
  assumes "same_setup d1 d2" and "agree_off A (gram d1) (gram d2)"
  shows "agree_off A (gram (printValue y v u c k d1)) (gram (printValue y v u c k d2))"
proof -
  have "agree_off (A \<union> (value_box y \<inter> screen d1)) (gram d1) (gram d2)"
    using assms(2) by (rule agree_off_mono) auto
  then show ?thesis
    using printValue_cong_gen [OF assms(1)] by (simp add: tft_agree_def)
qed

lemma value_text_number: "takeWhile (\<lambda>c. c \<noteq> CHR '' '') (value_text v k u) = print_float v k"
proof -
  have "\<forall>c \<in> set (print_float v k). c \<noteq> CHR '' ''"
    using print_float_chars by fastforce
  then show ?thesis by (simp add: value_text_def takeWhile_append2)
qed

lemma tft_wf_renderer:
  "tft_wf d \<Longrightarrow> tft_wf (drawHeader d)" "tft_wf d \<Longrightarrow> tft_wf (drawStaticLabels d)"
  "tft_wf d \<Longrightarrow> tft_wf (printValue y v u c k d)"
  by (simp_all add: drawHeader_def drawStaticLabels_def printValue_text text_start_def clearValueBox_def
      tft_wf_set_text_size)

lemma value_boxes_disjoint:
  "value_box LINE_Y1 \<inter> value_box LINE_Y2 = {} \<and> value_box LINE_Y1 \<inter> value_box LINE_Y3 = {}
   \<and> value_box LINE_Y2 \<inter> value_box LINE_Y3 = {}"
  by (auto simp: value_box_def layout_defs)

lemma header_value_disjoint: "header_area \<inter> value_area = {}"
  by (auto simp: header_area_def value_area_def value_box_def layout_defs)

lemma header_label_disjoint: "header_area \<inter> label_area = {}"
  by (auto simp: header_area_def label_area_def layout_defs)

lemma label_value_disjoint: "label_area \<inter> value_area = {}"
  by (auto simp: label_area_def value_area_def value_box_def layout_defs)

subsection \<open>The static chrome\<close>

lemma print_at_frame:
  assumes "\<forall>ch \<in> set s. (32::nat) \<le> of_char ch" and "x + 12 * int (length s) \<le> width d"
    and "textsize_x d = 2" "textsize_y d = 2"
  shows "agree_off (rect x y (12 * int (length s)) 16 \<inter> screen d) (gram d)
           (gram (print_str s (set_cursor x y d)))"
proof -
  have "cursor_x (set_cursor x y d) + 6 * int (textsize_x (set_cursor x y d)) * int (length s)
        \<le> width (set_cursor x y d)"
    using assms(2,3) by (simp add: set_cursor_def)
  from print_str_frame_gram(1) [OF assms(1) this] show ?thesis
    using assms(3,4) by (simp add: set_cursor_def screen_rect)
qed

lemma drawHeader_setup: "same_setup (drawHeader d) d"
  by (simp add: drawHeader_def same_setup_def set_cursor_def set_text_color_def set_text_size_def)

lemma drawHeader_frame:
  assumes "width d = ILI9341_TFTWIDTH"
  shows "agree_off (header_area \<inter> screen d) (gram d) (gram (drawHeader d))"
    and "p \<in> header_area - title_area \<Longrightarrow> on_screen d p \<Longrightarrow> gram (drawHeader d) p = COL_HEADER"
proof -
  define d1 where "d1 = fill_rect 0 0 (width d) HEADER_H COL_HEADER d"
  define d3 where "d3 = set_text_color ILI9341_WHITE COL_HEADER (set_text_size 2 d1)"
  have g1: "gram d1 q = (if q \<in> header_area \<and> on_screen d q then COL_HEADER else gram d q)" for q
    using assms by (simp add: d1_def fill_rect_eq fill_area_nonneg header_area_def layout_defs
        paint_const_on ILI9341_TFTWIDTH_def)
  have d3: "gram d3 = gram d1" "width d3 = width d" "textsize_x d3 = 2" "textsize_y d3 = 2"
    "screen d3 = screen d"
    by (simp_all add: d3_def d1_def set_text_color_def set_text_size_def screen_rect)
  have t: "agree_off (rect 10 12 (12 * int (length ''ERESENSE - MPU6050'')) 16 \<inter> screen d3) (gram d3)
             (gram (print_str ''ERESENSE - MPU6050'' (set_cursor 10 12 d3)))"
    by (rule print_at_frame) (simp_all add: d3 assms ILI9341_TFTWIDTH_def)
  have dh: "drawHeader d = print_str ''ERESENSE - MPU6050'' (set_cursor 10 12 d3)"
    by (simp add: drawHeader_def d3_def d1_def)
  have ta: "rect 10 12 (12 * int (length ''ERESENSE - MPU6050'')) 16 = title_area"
    by (simp add: title_area_def)
  have sub: "title_area \<subseteq> header_area"
    by (auto simp: title_area_def header_area_def layout_defs ILI9341_TFTWIDTH_def)
  have a1: "agree_off (header_area \<inter> screen d) (gram d) (gram d1)"
    by (auto simp: agree_off_def g1 screen_def)
  have t2: "agree_off (title_area \<inter> screen d) (gram d1) (gram (drawHeader d))"
    using t unfolding ta d3(1) d3(5) dh .
  have a2: "agree_off (header_area \<inter> screen d) (gram d1) (gram (drawHeader d))"
    by (rule agree_off_mono [OF t2]) (use sub in auto)
  show "agree_off (header_area \<inter> screen d) (gram d) (gram (drawHeader d))"
    using agree_off_trans [OF a1 a2] by simp
  assume p: "p \<in> header_area - title_area" "on_screen d p"
  then have "p \<notin> title_area \<inter> screen d" by blast
  then have "gram d1 p = gram (drawHeader d) p"
    using t2 unfolding agree_off_def by blast
  then show "gram (drawHeader d) p = COL_HEADER" using p by (simp add: g1 screen_def)
qed

lemma drawStaticLabels_setup: "same_setup (drawStaticLabels d) d"
  by (simp add: drawStaticLabels_def same_setup_def set_cursor_def set_text_color_def set_text_size_def)

lemma drawStaticLabels_frame:
  assumes "width d = ILI9341_TFTWIDTH"
  shows "agree_off (label_area \<inter> screen d) (gram d) (gram (drawStaticLabels d))"
proof -
  define d2 where "d2 = set_text_color ILI9341_WHITE COL_BG (set_text_size 2 d)"
  define d3 where "d3 = print_str ''Roll:'' (set_cursor LINE_X_LABEL LINE_Y1 d2)"
  define d4 where "d4 = print_str ''Pitch:'' (set_cursor LINE_X_LABEL LINE_Y2 d3)"
  have f2: "gram d2 = gram d" "width d2 = width d" "height d2 = height d" "textsize_x d2 = 2"
    "textsize_y d2 = 2" "screen d2 = screen d"
    by (simp_all add: d2_def set_text_color_def set_text_size_def screen_rect)
  have f3: "width d3 = width d" "height d3 = height d" "textsize_x d3 = 2" "textsize_y d3 = 2" "screen d3 = screen d"
    by (simp_all add: d3_def f2 set_cursor_def screen_rect)
  have f4: "width d4 = width d" "height d4 = height d" "textsize_x d4 = 2" "textsize_y d4 = 2" "screen d4 = screen d"
    by (simp_all add: d4_def f3 set_cursor_def screen_rect)
  have a3: "agree_off (rect LINE_X_LABEL LINE_Y1 (12 * 5) 16 \<inter> screen d) (gram d) (gram d3)"
    using print_at_frame [of "''Roll:''" LINE_X_LABEL d2 LINE_Y1] assms
    by (simp add: d3_def f2 layout_defs ILI9341_TFTWIDTH_def)
  have a4: "agree_off (rect LINE_X_LABEL LINE_Y2 (12 * 6) 16 \<inter> screen d) (gram d3) (gram d4)"
    using print_at_frame [of "''Pitch:''" LINE_X_LABEL d3 LINE_Y2] assms
    by (simp add: d4_def f3 layout_defs ILI9341_TFTWIDTH_def)
  have dsl: "drawStaticLabels d = print_str ''Temp:'' (set_cursor LINE_X_LABEL LINE_Y3 d4)"
    by (simp add: drawStaticLabels_def d2_def d3_def d4_def)
  have L: "12 * int (length ''Temp:'') = 12 * 5" by simp
  have "agree_off (rect LINE_X_LABEL LINE_Y3 (12 * int (length ''Temp:'')) 16 \<inter> screen d4) (gram d4)
          (gram (print_str ''Temp:'' (set_cursor LINE_X_LABEL LINE_Y3 d4)))"
    by (rule print_at_frame) (simp_all add: f4 assms layout_defs ILI9341_TFTWIDTH_def)
  then have a5: "agree_off (rect LINE_X_LABEL LINE_Y3 (12 * 5) 16 \<inter> screen d) (gram d4) (gram (drawStaticLabels d))"
    by (simp only: L f4(5) dsl)
  have "agree_off (rect LINE_X_LABEL LINE_Y1 (12 * 5) 16 \<inter> screen d \<union> rect LINE_X_LABEL LINE_Y2 (12 * 6) 16 \<inter> screen d
          \<union> rect LINE_X_LABEL LINE_Y3 (12 * 5) 16 \<inter> screen d) (gram d) (gram (drawStaticLabels d))"
    by (rule agree_off_trans [OF agree_off_trans [OF a3 a4] a5])
  then show ?thesis by (rule agree_off_mono) (auto simp: label_area_def)
qed

subsection \<open>Properties of the renderer\<close>

text \<open>C4: rendering a field twice in succession with the same value leaves the
  display exactly as rendering it once (for the program's values: one decimal,
  a magnitude below 999, a unit of at most three printable characters, on the
  240-pixel-wide portrait screen).\<close>

theorem printValue_idempotent:
  assumes "width d = ILI9341_TFTWIDTH" "\<bar>v\<bar> < 999" "length u \<le> 3"
    "\<forall>ch \<in> set u. (32::nat) \<le> of_char ch"
  shows "printValue y v u c 1 (printValue y v u c 1 d) = printValue y v u c 1 d"
proof -
  note F = value_box_screen_frame [OF assms, of y c]
  then have s: "same_setup (printValue y v u c 1 d) d" by (simp add: same_setup_sym)
  have "agree_off (value_box y \<inter> screen (printValue y v u c 1 d)) (gram (printValue y v u c 1 d)) (gram d)"
    using F same_setup_screen [OF s] by (simp add: agree_off_sym)
  then show ?thesis by (rule printValue_cong [OF s])
qed

theorem printValue_idempotent_witness:
  "printValue LINE_Y1 23.47 ''deg'' COL_ROLL 1 (printValue LINE_Y1 23.47 ''deg'' COL_ROLL 1 (tft_construct (\<lambda>_. 0) (\<lambda>_. 0)))
   = printValue LINE_Y1 23.47 ''deg'' COL_ROLL 1 (tft_construct (\<lambda>_. 0) (\<lambda>_. 0))"
  by (rule printValue_idempotent) (simp_all add: tft_construct_def)

text \<open>C5: a value update on the portrait screen changes no pixel outside its
  own value box, and keeps the display's size, rotation, wrap mode and font.\<close>

theorem printValue_frame:
  assumes "width d = ILI9341_TFTWIDTH" "\<bar>v\<bar> < 999" "length u \<le> 3"
    "\<forall>ch \<in> set u. (32::nat) \<le> of_char ch"
  shows "same_setup d (printValue y v u c 1 d) \<and>
         (\<forall>p. p \<notin> value_box y \<longrightarrow> gram (printValue y v u c 1 d) p = gram d p)"
  using value_box_screen_frame [OF assms, of y c] by (auto simp: agree_off_def)

theorem printValue_frame_witness:
  "same_setup (tft_construct (\<lambda>_. 0) (\<lambda>_. 0)) (printValue LINE_Y3 (- 12.25) ''C'' COL_TEMP 1 (tft_construct (\<lambda>_. 0) (\<lambda>_. 0))) \<and>
   gram (printValue LINE_Y3 (- 12.25) ''C'' COL_TEMP 1 (tft_construct (\<lambda>_. 0) (\<lambda>_. 0))) (0, 0) = 0"
proof -
  have "same_setup (tft_construct (\<lambda>_. 0) (\<lambda>_. 0)) (printValue LINE_Y3 (- 12.25) ''C'' COL_TEMP 1 (tft_construct (\<lambda>_. 0) (\<lambda>_. 0))) \<and>
   (\<forall>p. p \<notin> value_box LINE_Y3 \<longrightarrow>
      gram (printValue LINE_Y3 (- 12.25) ''C'' COL_TEMP 1 (tft_construct (\<lambda>_. 0) (\<lambda>_. 0))) p
      = gram (tft_construct (\<lambda>_. 0) (\<lambda>_. 0)) p)"
    by (rule printValue_frame) (simp_all add: tft_construct_def)
  moreover have "(0, 0) \<notin> value_box LINE_Y3" by (simp add: value_box_def layout_defs)
  ultimately show ?thesis by (simp add: tft_construct_def)
qed

text \<open>C14: every string the program prints in a value field lies, character
  cells included, inside that field's box and inside the 240 by 320 portrait
  screen, so it is never wrapped and never clipped.\<close>

theorem value_text_in_box:
  assumes "\<bar>v\<bar> < 999" and "length u \<le> 3" and "y \<in> {LINE_Y1, LINE_Y2, LINE_Y3}"
  shows "rect LINE_X_VAL y (12 * int (length (value_text v 1 u))) 16
           \<subseteq> value_box y \<inter> rect 0 0 ILI9341_TFTWIDTH ILI9341_TFTHEIGHT"
proof -
  have "length (value_text v 1 u) \<le> 10"
    using value_text_length [OF assms(1), of u] assms(2) by simp
  then show ?thesis
    using assms(3) by (auto simp: value_box_def layout_defs ILI9341_TFTWIDTH_def ILI9341_TFTHEIGHT_def)
qed

theorem value_text_in_box_witness:
  "rect LINE_X_VAL LINE_Y2 (12 * int (length (value_text (- 179.96) 1 ''deg''))) 16
     \<subseteq> value_box LINE_Y2 \<inter> rect 0 0 ILI9341_TFTWIDTH ILI9341_TFTHEIGHT"
  by (rule value_text_in_box) simp_all

text \<open>C19: a value update does not depend on what the previous frames left
  in its box: two displays with the same setup that agree outside the
  on-screen part of the box are equal after the update.\<close>

theorem printValue_history_free:
  assumes "same_setup d1 d2" and "\<forall>p. p \<notin> value_box y \<inter> screen d1 \<longrightarrow> gram d1 p = gram d2 p"
  shows "printValue y v u c k d1 = printValue y v u c k d2"
  using assms by (intro printValue_cong) (simp_all add: agree_off_def)

theorem printValue_history_free_witness:
  "printValue LINE_Y2 1.5 ''deg'' COL_PITCH 1 (tft_construct (\<lambda>_. 0) (\<lambda>_. 0)) =
   printValue LINE_Y2 1.5 ''deg'' COL_PITCH 1 (tft_construct (\<lambda>p. if p = (120, LINE_Y2) then 7 else 0) (\<lambda>_. 0))"
  by (rule printValue_history_free)
    (auto simp: tft_construct_def same_setup_def value_box_def layout_defs screen_rect
      ILI9341_TFTWIDTH_def ILI9341_TFTHEIGHT_def)

text \<open>C8: the number a value field shows reads back as the value's magnitude
  rounded half-up to the requested decimals, with the value's sign: the text
  up to the first space of what \<^verbatim>\<open>printValue\<close> writes (line 87) denotes that
  number, for every value below the \<^verbatim>\<open>printFloat\<close> overflow threshold.\<close>

theorem value_text_value:
  assumes "\<bar>x\<bar> \<le> 4294967040"
  shows "dec_value (takeWhile (\<lambda>c. c \<noteq> CHR '' '') (value_text x d u)) =
         (if x < 0 then - 1 else 1) * (of_int \<lfloor>\<bar>x\<bar> * 10 ^ d + 1 / 2\<rfloor> / 10 ^ d)"
  using dec_value_print_float [OF assms] by (simp add: value_text_number)

theorem value_text_value_witness:
  "dec_value (takeWhile (\<lambda>c. c \<noteq> CHR '' '') (value_text (- 23.47) 1 ''deg'')) = - 23.5"
proof -
  have h: "\<bar>- 23.47 :: real\<bar> \<le> 4294967040" by simp
  have "\<lfloor>\<bar>- 23.47 :: real\<bar> * 10 ^ 1 + 1 / 2\<rfloor> = 235" by (simp add: floor_eq_iff)
  with value_text_value [OF h, of 1 "''deg''"] show ?thesis by simp
qed

text \<open>C9: precision of the display: the number a field shows differs from the
  value by at most half a unit in the last printed place.\<close>

theorem value_text_error:
  assumes "\<bar>x\<bar> \<le> 4294967040"
  shows "\<bar>dec_value (takeWhile (\<lambda>c. c \<noteq> CHR '' '') (value_text x d u)) - x\<bar> \<le> 1 / (2 * 10 ^ d)"
  using print_float_error [OF assms] by (simp add: value_text_number)

theorem value_text_error_witness:
  "\<bar>dec_value (takeWhile (\<lambda>c. c \<noteq> CHR '' '') (value_text 23.47 1 ''deg'')) - 23.47\<bar> \<le> 1 / (2 * 10 ^ 1)"
  by (rule value_text_error) simp

text \<open>C16: negative zero.  A value field shows \<open>-0.0\<close> exactly for the
  negative values above -0.05: \<^verbatim>\<open>printFloat\<close> prints the sign of the value,
  not of the rounded number, so every small negative roll, pitch or
  temperature is shown as \<open>-0.0\<close>, and no other value is.\<close>

theorem value_text_negative_zero:
  "value_text x 1 u = ''-0.0 '' @ u \<longleftrightarrow> - 1 / 20 < x \<and> x < 0"
proof
  assume h: "value_text x 1 u = ''-0.0 '' @ u"
  have nz: "\<bar>x\<bar> \<le> 4294967040"
  proof (rule ccontr)
    assume "\<not> ?thesis"
    then have "print_float x 1 = ''ovf''" by (auto simp: print_float_def)
    with h show False by (simp add: value_text_def)
  qed
  have p: "print_float x 1 = ''-0.0''"
    using value_text_number [of x 1 u] h by simp
  have neg: "x < 0"
  proof (rule ccontr)
    assume "\<not> x < 0"
    then have "hd (print_float x 1) \<noteq> CHR ''-''"
      using print_float_unfold [OF nz, of 1] by (simp add: hd_print_number_not_minus)
    with p show False by simp
  qed
  have "dec_value ''-0.0'' = 0" by code_simp
  then have "\<lfloor>\<bar>x\<bar> * 10 + 1 / 2\<rfloor> = 0"
    using dec_value_print_float [OF nz, of 1] p neg by simp
  then show "- 1 / 20 < x \<and> x < 0" using neg by (simp add: floor_eq_iff)
next
  assume b: "- 1 / 20 < x \<and> x < 0"
  then have nz: "\<bar>x\<bar> \<le> 4294967040" by simp
  have f0: "\<lfloor>\<bar>x\<bar> + rounding 1\<rfloor> = 0" using b by (simp add: rounding_one floor_eq_iff)
  have "trunc_int ((- x + 1 / 20) * 10) = 0"
    using b by (simp add: trunc_int_def floor_eq_iff)
  moreover have "\<bar>x\<bar> + rounding 1 - of_int \<lfloor>\<bar>x\<bar> + rounding 1\<rfloor> = - x + 1 / 20"
    unfolding f0 using b by (simp add: rounding_one)
  ultimately have t: "trunc_int ((\<bar>x\<bar> + rounding 1 - of_int \<lfloor>\<bar>x\<bar> + rounding 1\<rfloor>) * 10) = 0"
    by (simp only:)
  have fr1: "frac_digits 1 R = print_long (trunc_int (R * 10))" for R
    by (simp add: Let_def)
  have "frac_digits 1 (\<bar>x\<bar> + rounding 1 - of_int \<lfloor>\<bar>x\<bar> + rounding 1\<rfloor>) = print_long 0"
    by (simp only: fr1 t)
  moreover have "char_of (48::nat) = CHR ''0''" by code_simp
  ultimately have "print_float x 1 = ''-0.0''"
    using print_float_unfold [OF nz, of 1] b by (simp add: f0 print_long_def print_number_digit)
  then show "value_text x 1 u = ''-0.0 '' @ u" by (simp add: value_text_def)
qed

end
