(* ===== verification/Orientation.thy ===== *)
theory Orientation
  imports Prelude
begin

text \<open>
  The orientation estimator of \<^verbatim>\<open>loop()\<close> in \<^verbatim>\<open>src/src/main.cpp\<close>
  (lines 137--139): roll and pitch in degrees from the acceleration vector,
  through the C library's \<^verbatim>\<open>atan2f\<close>.  Angles are real numbers (the
  single-precision rounding of \<^verbatim>\<open>atan2f\<close>, \<^verbatim>\<open>sqrtf\<close> and the products is not
  modelled); \<open>atan2\<close> is the C function on the reals, case by case as C99
  7.12.4.4 defines it, with the zero of the real line in place of the two
  signed zeros.  The lemmas show that \<open>atan2\<close> is the argument of the complex
  number \<open>x + iy\<close>, that the estimator inverts the static tilt model (a gravity
  vector rotated by roll and pitch), that it is scale invariant and bounded,
  and the spec's sanity checks of roll.
\<close>

definition atan2 :: "real \<Rightarrow> real \<Rightarrow> real" where
  "atan2 y x =
     (if 0 < x then arctan (y / x)
      else if x < 0 then (if 0 \<le> y then arctan (y / x) + pi else arctan (y / x) - pi)
      else if 0 < y then pi / 2
      else if y < 0 then - (pi / 2)
      else 0)"

text \<open>The two angles of lines 138--139, converted to degrees as the code does
  (\<^verbatim>\<open>* 180.0f / PI\<close>, the product first).\<close>

definition roll_deg :: "real \<Rightarrow> real \<Rightarrow> real" where
  "roll_deg ay az = atan2 ay az * 180 / pi"

definition pitch_deg :: "real \<Rightarrow> real \<Rightarrow> real \<Rightarrow> real" where
  "pitch_deg ax ay az = atan2 (- ax) (sqrt (ay * ay + az * az)) * 180 / pi"

text \<open>The spec's \<open>Orientation\<close> and \<open>estimate\<close>: both angles of one sample.\<close>

record orientation =
  roll :: real
  pitch :: real

definition estimate :: "real \<Rightarrow> real \<Rightarrow> real \<Rightarrow> orientation" where
  "estimate ax ay az = \<lparr>roll = roll_deg ay az, pitch = pitch_deg ax ay az\<rparr>"

subsection \<open>The two-argument arc tangent\<close>

lemma atan2_scale: "0 < r \<Longrightarrow> atan2 (r * y) (r * x) = atan2 y x"
  by (simp add: atan2_def zero_less_mult_iff mult_less_0_iff zero_le_mult_iff)

lemma atan2_bounds: "- pi < atan2 y x \<and> atan2 y x \<le> pi"
proof -
  have a: "- (pi / 2) < arctan t \<and> arctan t < pi / 2" for t
    using arctan_bounded by blast
  have n: "x < 0 \<Longrightarrow> 0 \<le> y \<Longrightarrow> arctan (y / x) \<le> 0"
    by (simp add: arctan_le_zero_iff divide_nonneg_neg)
  have p: "x < 0 \<Longrightarrow> y < 0 \<Longrightarrow> 0 < arctan (y / x)"
    by (simp add: divide_neg_neg)
  show ?thesis
    using a [of "y / x"] n p pi_gt_zero by (auto simp: atan2_def)
qed

lemma atan2_right_half: "0 \<le> x \<Longrightarrow> - (pi / 2) \<le> atan2 y x \<and> atan2 y x \<le> pi / 2"
  using arctan_bounded [of "y / x"] by (auto simp: atan2_def less_imp_le)

lemma atan2_tan: "- (pi / 2) < b \<Longrightarrow> b < pi / 2 \<Longrightarrow> arctan (sin b / cos b) = b"
  using arctan_tan [of b] by (simp add: tan_def)

lemma atan2_unit_circle:
  assumes "- pi < a" and "a \<le> pi"
  shows "atan2 (sin a) (cos a) = a"
proof -
  consider "- (pi / 2) < a \<and> a < pi / 2" | "a = pi / 2" | "a = - (pi / 2)"
    | "pi / 2 < a" | "a < - (pi / 2)"
    by linarith
  then show ?thesis
  proof cases
    case 1
    then have "0 < cos a" by (simp add: cos_gt_zero_pi)
    then show ?thesis using 1 by (simp add: atan2_def atan2_tan)
  next
    case 2
    show ?thesis unfolding 2 by (simp add: atan2_def)
  next
    case 3
    show ?thesis unfolding 3 by (simp add: atan2_def)
  next
    case 4
    define b where "b = a - pi"
    have b: "- (pi / 2) < b" "b \<le> 0" using 4 assms by (simp_all add: b_def)
    have a: "a = b + pi" by (simp add: b_def)
    have "0 < cos b" using b by (simp add: cos_gt_zero_pi)
    moreover have "sin b \<le> 0" using b sin_ge_zero [of "- b"] by simp
    ultimately show ?thesis
      using b by (simp add: a atan2_def sin_periodic_pi cos_periodic_pi atan2_tan)
  next
    case 5
    define b where "b = a + pi"
    have b: "0 < b" "b < pi / 2" using 5 assms by (simp_all add: b_def)
    have a: "a = b - pi" by (simp add: b_def)
    have "0 < cos b" using b by (simp add: cos_gt_zero_pi)
    moreover have "0 < sin b" using b by (simp add: sin_gt_zero)
    ultimately show ?thesis
      using b by (simp add: a atan2_def sin_diff cos_diff atan2_tan)
  qed
qed

lemma atan2_polar: "0 < r \<Longrightarrow> - pi < a \<Longrightarrow> a \<le> pi \<Longrightarrow> atan2 (r * sin a) (r * cos a) = a"
  by (simp add: atan2_scale atan2_unit_circle)

lemma sqrt_sum_sq_scale: "0 \<le> r \<Longrightarrow> sqrt ((r * a) * (r * a) + (r * b) * (r * b)) = r * sqrt (a * a + b * b)"
proof -
  assume r: "0 \<le> r"
  have "(r * a) * (r * a) + (r * b) * (r * b) = r\<^sup>2 * (a * a + b * b)"
    by (simp add: power2_eq_square algebra_simps)
  then show ?thesis using r by (simp add: real_sqrt_mult)
qed

lemma deg_bounds: "- pi < t \<Longrightarrow> t \<le> pi \<Longrightarrow> - 180 < t * 180 / pi \<and> t * 180 / pi \<le> 180"
  using pi_gt_zero by (simp add: field_simps)

lemma deg_half_bounds: "- (pi / 2) \<le> t \<Longrightarrow> t \<le> pi / 2 \<Longrightarrow> - 90 \<le> t * 180 / pi \<and> t * 180 / pi \<le> 90"
  using pi_gt_zero by (simp add: field_simps)

lemma roll_abs_bound: "\<bar>roll (estimate ax ay az)\<bar> \<le> 180"
proof -
  have "- 180 < atan2 ay az * 180 / pi \<and> atan2 ay az * 180 / pi \<le> 180"
    using atan2_bounds by (intro deg_bounds) simp_all
  then show ?thesis unfolding estimate_def roll_deg_def pitch_deg_def orientation.simps abs_le_iff by linarith
qed

lemma pitch_abs_bound: "\<bar>pitch (estimate ax ay az)\<bar> \<le> 90"
proof -
  have "- 90 \<le> atan2 (- ax) (sqrt (ay * ay + az * az)) * 180 / pi
        \<and> atan2 (- ax) (sqrt (ay * ay + az * az)) * 180 / pi \<le> 90"
    using atan2_right_half [of "sqrt (ay * ay + az * az)" "- ax"] by (intro deg_half_bounds) simp_all
  then show ?thesis unfolding estimate_def roll_deg_def pitch_deg_def orientation.simps abs_le_iff by linarith
qed

subsection \<open>Properties of the estimator\<close>

text \<open>C6: the estimator inverts the static tilt model.  A device at rest under
  gravity \<open>g\<close>, rolled by \<open>\<phi>\<close> and pitched by \<open>\<theta>\<close>, measures
  \<open>(- g sin \<theta>, g cos \<theta> sin \<phi>, g cos \<theta> cos \<phi>)\<close>; from it the code computes
  exactly \<open>\<phi>\<close> and \<open>\<theta>\<close> in degrees, for every roll in \<open>(-\<pi>, \<pi>]\<close> and every pitch
  in \<open>(-\<pi>/2, \<pi>/2)\<close>.\<close>

theorem estimate_inverts_tilt:
  assumes g: "0 < g" and r: "- pi < \<phi>" "\<phi> \<le> pi" and p: "- (pi / 2) < \<theta>" "\<theta> < pi / 2"
  shows "estimate (- (g * sin \<theta>)) (g * cos \<theta> * sin \<phi>) (g * cos \<theta> * cos \<phi>)
         = \<lparr>roll = \<phi> * 180 / pi, pitch = \<theta> * 180 / pi\<rparr>"
proof -
  have c: "0 < g * cos \<theta>" using g p by (simp add: cos_gt_zero_pi)
  have "sqrt ((g * cos \<theta> * sin \<phi>) * (g * cos \<theta> * sin \<phi>) + (g * cos \<theta> * cos \<phi>) * (g * cos \<theta> * cos \<phi>))
        = g * cos \<theta>"
    using sqrt_sum_sq_scale [of "g * cos \<theta>" "sin \<phi>" "cos \<phi>"] c
    by (simp add: power2_eq_square [symmetric])
  moreover have "atan2 (g * sin \<theta>) (g * cos \<theta>) = \<theta>"
    using g p pi_gt_zero by (intro atan2_polar) simp_all
  moreover have "atan2 (g * cos \<theta> * sin \<phi>) (g * cos \<theta> * cos \<phi>) = \<phi>"
    using atan2_polar [OF c r] by (simp add: mult.assoc)
  ultimately show ?thesis by (simp add: estimate_def roll_deg_def pitch_deg_def)
qed

theorem estimate_inverts_tilt_witness:
  "estimate (- (9.8 * sin (pi / 6))) (9.8 * cos (pi / 6) * sin (pi / 2)) (9.8 * cos (pi / 6) * cos (pi / 2))
   = \<lparr>roll = (pi / 2) * 180 / pi, pitch = (pi / 6) * 180 / pi\<rparr>"
  using pi_gt_zero by (intro estimate_inverts_tilt) simp_all

text \<open>C7: roll lies in \<open>(-180, 180]\<close> and pitch in \<open>[-90, 90]\<close> degrees, for
  every acceleration vector.\<close>

theorem estimate_bounds:
  "- 180 < roll (estimate ax ay az) \<and> roll (estimate ax ay az) \<le> 180 \<and>
   - 90 \<le> pitch (estimate ax ay az) \<and> pitch (estimate ax ay az) \<le> 90"
proof -
  have "- 180 < atan2 ay az * 180 / pi \<and> atan2 ay az * 180 / pi \<le> 180"
    using atan2_bounds by (intro deg_bounds) simp_all
  moreover have "- 90 \<le> atan2 (- ax) (sqrt (ay * ay + az * az)) * 180 / pi
        \<and> atan2 (- ax) (sqrt (ay * ay + az * az)) * 180 / pi \<le> 90"
    using atan2_right_half [of "sqrt (ay * ay + az * az)" "- ax"] by (intro deg_half_bounds) simp_all
  ultimately show ?thesis by (simp add: estimate_def roll_deg_def pitch_deg_def)
qed

text \<open>The C \<open>atan2 (y, x)\<close> is the principal argument of the complex number
  \<open>x + iy\<close> (and 0 at the origin).\<close>

lemma atan2_Arg: "atan2 y x = Arg (Complex x y)"
proof (cases "x = 0 \<and> y = 0")
  case True
  then show ?thesis by (simp add: atan2_def Arg_zero flip: zero_complex.code)
next
  case False
  define z where "z = Complex x y"
  have z: "z \<noteq> 0" using False by (simp add: z_def complex_eq_iff)
  have c: "0 < cmod z" using z by simp
  then have xy: "x = cmod z * cos (Arg z)" "y = cmod z * sin (Arg z)"
    using z by (simp_all add: cos_Arg sin_Arg z_def)
  have "atan2 (cmod z * sin (Arg z)) (cmod z * cos (Arg z)) = Arg z"
    by (rule atan2_polar [OF c]) (use Arg_bounded [of z] in simp_all)
  then have "atan2 y x = Arg z" by (simp only: xy)
  then show ?thesis by (simp only: z_def)
qed

text \<open>C11: the estimator is invariant under scaling of the acceleration by
  any positive factor (it reads only the direction of gravity).\<close>

theorem estimate_scale_invariant:
  assumes "0 < r"
  shows "estimate (r * ax) (r * ay) (r * az) = estimate ax ay az"
proof -
  have q: "sqrt ((r * ay) * (r * ay) + (r * az) * (r * az)) = r * sqrt (ay * ay + az * az)"
    using assms by (simp add: sqrt_sum_sq_scale)
  have "atan2 (- (r * ax)) (r * sqrt (ay * ay + az * az)) = atan2 (- ax) (sqrt (ay * ay + az * az))"
    using atan2_scale [OF assms, of "- ax"] by simp
  then show ?thesis using assms by (simp only: estimate_def roll_deg_def pitch_deg_def q atan2_scale)
qed

theorem estimate_scale_invariant_witness:
  "estimate (2 * 1) (2 * (- 3)) (2 * 4) = estimate 1 (- 3) 4"
  by (rule estimate_scale_invariant) simp

text \<open>C12: with no acceleration along the x axis, pitch is 0, whatever
  \<open>ay\<close> and \<open>az\<close> are (also when both are 0).\<close>

theorem pitch_zero_no_ax: "pitch (estimate 0 ay az) = 0"
  by (simp add: estimate_def roll_deg_def pitch_deg_def atan2_def not_less sum_squares_ge_zero)

text \<open>C13: the spec's sanity checks of roll: for \<open>ay = 0\<close> and \<open>az > 0\<close> roll
  is 0, and for \<open>ay = az > 0\<close> roll is 45 degrees.\<close>

theorem roll_sanity:
  assumes "0 < a"
  shows "roll (estimate ax 0 a) = 0 \<and> roll (estimate ax a a) = 45"
  using assms by (simp add: estimate_def roll_deg_def pitch_deg_def atan2_def arctan_one)

theorem roll_sanity_witness:
  "roll (estimate 1 0 9.8) = 0 \<and> roll (estimate 1 9.8 9.8) = 45"
  using roll_sanity [of "9.8" 1] by simp

end
