(* ===== verification/Mpu6050.thy ===== *)
theory Mpu6050
  imports Prelude
begin

text \<open>
  The sensor source: the parts of the Adafruit MPU6050 driver that
  \<^verbatim>\<open>setup()\<close> and \<^verbatim>\<open>loop()\<close> of \<^verbatim>\<open>src/src/main.cpp\<close> call (lines 101, 108--110
  and 130).  The driver is a library outside the repository, modelled after
  its documented behaviour: the configuration lives in 8-bit registers of the
  chip, written and read through bit fields (\<^verbatim>\<open>Adafruit_BusIO_RegisterBits\<close>);
  \<^verbatim>\<open>begin\<close> probes the chip's identity register and resets it to the driver's
  defaults; \<^verbatim>\<open>getEvent\<close> reads the 14 measurement bytes, assembles
  big-endian signed 16-bit values and scales them by the configured ranges.
  The bus itself is the environment: the identity byte the probe returns and
  the measurement bytes are inputs of the model.  The lemmas show that a range
  written is the range read back, that a bit-field write leaves the other bits
  of its register alone, that 16-bit values survive the byte split, that the
  accelerations and the temperature come from the first eight bytes, and
  bound the scaled values.
\<close>

unbundle bit_operations_syntax

type_synonym regfile = "8 word \<Rightarrow> 8 word"

definition MPU6050_DEVICE_ID :: "8 word" where "MPU6050_DEVICE_ID = 0x68"
definition MPU6050_ACCEL_CONFIG :: "8 word" where "MPU6050_ACCEL_CONFIG = 0x1C"

datatype mpu6050_accel_range =
  MPU6050_RANGE_2_G | MPU6050_RANGE_4_G | MPU6050_RANGE_8_G | MPU6050_RANGE_16_G

datatype mpu6050_gyro_range =
  MPU6050_RANGE_250_DEG | MPU6050_RANGE_500_DEG | MPU6050_RANGE_1000_DEG | MPU6050_RANGE_2000_DEG

datatype mpu6050_bandwidth =
  MPU6050_BAND_260_HZ | MPU6050_BAND_184_HZ | MPU6050_BAND_94_HZ | MPU6050_BAND_44_HZ
  | MPU6050_BAND_21_HZ | MPU6050_BAND_10_HZ | MPU6050_BAND_5_HZ

text \<open>The enumerators' values, as the driver's header numbers them.\<close>

primrec accel_range_code :: "mpu6050_accel_range \<Rightarrow> 8 word" where
  "accel_range_code MPU6050_RANGE_2_G = 0"
| "accel_range_code MPU6050_RANGE_4_G = 1"
| "accel_range_code MPU6050_RANGE_8_G = 2"
| "accel_range_code MPU6050_RANGE_16_G = 3"

primrec gyro_range_code :: "mpu6050_gyro_range \<Rightarrow> 8 word" where
  "gyro_range_code MPU6050_RANGE_250_DEG = 0"
| "gyro_range_code MPU6050_RANGE_500_DEG = 1"
| "gyro_range_code MPU6050_RANGE_1000_DEG = 2"
| "gyro_range_code MPU6050_RANGE_2000_DEG = 3"

primrec bandwidth_code :: "mpu6050_bandwidth \<Rightarrow> 8 word" where
  "bandwidth_code MPU6050_BAND_260_HZ = 0"
| "bandwidth_code MPU6050_BAND_184_HZ = 1"
| "bandwidth_code MPU6050_BAND_94_HZ = 2"
| "bandwidth_code MPU6050_BAND_44_HZ = 3"
| "bandwidth_code MPU6050_BAND_21_HZ = 4"
| "bandwidth_code MPU6050_BAND_10_HZ = 5"
| "bandwidth_code MPU6050_BAND_5_HZ = 6"

text \<open>The setters write \<^verbatim>\<open>MPU6050_ACCEL_CONFIG\<close> (0x1C),
  \<^verbatim>\<open>MPU6050_GYRO_CONFIG\<close> (0x1B) and \<^verbatim>\<open>MPU6050_CONFIG\<close> (0x1A); an
  acceleration is scaled by \<^verbatim>\<open>SENSORS_GRAVITY_STANDARD\<close> (9.80665).\<close>

text \<open>\<^verbatim>\<open>Adafruit_BusIO_RegisterBits::write\<close> and \<^verbatim>\<open>read\<close>: a field of \<open>bits\<close>
  bits at offset \<open>shift\<close> of an 8-bit register.\<close>

definition reg_bits_write :: "nat \<Rightarrow> nat \<Rightarrow> 8 word \<Rightarrow> 8 word \<Rightarrow> 8 word" where
  "reg_bits_write bits shift data val =
     (val AND NOT (push_bit shift (mask bits))) OR push_bit shift (data AND mask bits)"

definition reg_bits_read :: "nat \<Rightarrow> nat \<Rightarrow> 8 word \<Rightarrow> 8 word" where
  "reg_bits_read bits shift val = drop_bit shift val AND mask bits"

definition setAccelerometerRange :: "mpu6050_accel_range \<Rightarrow> regfile \<Rightarrow> regfile" where
  "setAccelerometerRange r regs =
     regs(MPU6050_ACCEL_CONFIG := reg_bits_write 2 3 (accel_range_code r) (regs MPU6050_ACCEL_CONFIG))"

text \<open>\<^verbatim>\<open>getAccelerometerRange\<close> casts the two-bit field back to the enumeration.\<close>

definition getAccelerometerRange :: "regfile \<Rightarrow> mpu6050_accel_range" where
  "getAccelerometerRange regs =
     (let v = reg_bits_read 2 3 (regs MPU6050_ACCEL_CONFIG)
      in if v = 0 then MPU6050_RANGE_2_G else if v = 1 then MPU6050_RANGE_4_G
         else if v = 2 then MPU6050_RANGE_8_G else MPU6050_RANGE_16_G)"

definition setGyroRange :: "mpu6050_gyro_range \<Rightarrow> regfile \<Rightarrow> regfile" where
  "setGyroRange r regs =
     regs(0x1B := reg_bits_write 2 3 (gyro_range_code r) (regs 0x1B))"

text \<open>\<^verbatim>\<open>getGyroRange\<close> casts the two-bit field of \<^verbatim>\<open>GYRO_CONFIG\<close> back.\<close>

definition getGyroRange :: "regfile \<Rightarrow> mpu6050_gyro_range" where
  "getGyroRange regs =
     (let v = reg_bits_read 2 3 (regs 0x1B)
      in if v = 0 then MPU6050_RANGE_250_DEG else if v = 1 then MPU6050_RANGE_500_DEG
         else if v = 2 then MPU6050_RANGE_1000_DEG else MPU6050_RANGE_2000_DEG)"

definition setFilterBandwidth :: "mpu6050_bandwidth \<Rightarrow> regfile \<Rightarrow> regfile" where
  "setFilterBandwidth b regs =
     regs(0x1A := reg_bits_write 3 0 (bandwidth_code b) (regs 0x1A))"

text \<open>\<^verbatim>\<open>Adafruit_MPU6050::begin\<close>: the probe fails when the chip does not
  answer or answers with another identity; otherwise \<^verbatim>\<open>_init\<close> resets the chip
  (every configuration register reads 0 after the reset) and sets the
  driver's defaults: 260 Hz bandwidth, 500 deg/s, 2 g.\<close>

definition mpu_begin :: "8 word option \<Rightarrow> regfile option" where
  "mpu_begin who_am_i =
     (if who_am_i \<noteq> Some MPU6050_DEVICE_ID then None
      else Some (setAccelerometerRange MPU6050_RANGE_2_G
                  (setGyroRange MPU6050_RANGE_500_DEG
                    (setFilterBandwidth MPU6050_BAND_260_HZ (\<lambda>_. 0)))))"

text \<open>The accelerometer's LSB per g for each range (\<^verbatim>\<open>accel_scale\<close>).\<close>

primrec accel_scale :: "mpu6050_accel_range \<Rightarrow> real" where
  "accel_scale MPU6050_RANGE_2_G = 16384"
| "accel_scale MPU6050_RANGE_4_G = 8192"
| "accel_scale MPU6050_RANGE_8_G = 4096"
| "accel_scale MPU6050_RANGE_16_G = 2048"

text \<open>The gyroscope's LSB per degree per second for each range, and
  \<^verbatim>\<open>SENSORS_DPS_TO_RADS\<close> (the \<^verbatim>\<open>float\<close> constant 0.017453293).\<close>

primrec gyro_scale :: "mpu6050_gyro_range \<Rightarrow> real" where
  "gyro_scale MPU6050_RANGE_250_DEG = 131"
| "gyro_scale MPU6050_RANGE_500_DEG = 65.5"
| "gyro_scale MPU6050_RANGE_1000_DEG = 32.8"
| "gyro_scale MPU6050_RANGE_2000_DEG = 16.4"

definition SENSORS_DPS_TO_RADS :: real where "SENSORS_DPS_TO_RADS = 0.017453293"

text \<open>\<^verbatim>\<open>buffer[i] << 8 | buffer[i + 1]\<close> stored in an \<^verbatim>\<open>int16_t\<close>.\<close>

definition be16 :: "8 word \<Rightarrow> 8 word \<Rightarrow> 16 word" where
  "be16 hi lo = push_bit 8 (ucast hi) OR ucast lo"

text \<open>The fields of the three \<^verbatim>\<open>sensors_event_t\<close> that \<^verbatim>\<open>getEvent\<close> fills
  (the timestamps apart).\<close>

record sensor_sample =
  acc_x :: real
  acc_y :: real
  acc_z :: real
  temperature :: real
  gyro_x :: real
  gyro_y :: real
  gyro_z :: real

definition raw_word :: "(nat \<Rightarrow> 8 word) \<Rightarrow> nat \<Rightarrow> int" where
  "raw_word buf i = sint (be16 (buf (2 * i)) (buf (2 * i + 1)))"

text \<open>\<^verbatim>\<open>getEvent\<close> after \<^verbatim>\<open>_read\<close>: bytes 0--5 the accelerometer, 6--7 the
  temperature (\<^verbatim>\<open>raw / 340.0 + 36.53\<close>), 8--13 the gyroscope, each scaled
  with the range read back from the chip; the rates are converted from
  degrees to radians per second.\<close>

definition mpu_get_event :: "regfile \<Rightarrow> (nat \<Rightarrow> 8 word) \<Rightarrow> sensor_sample" where
  "mpu_get_event regs buf =
     (let scale = accel_scale (getAccelerometerRange regs);
          gscale = gyro_scale (getGyroRange regs)
      in \<lparr>acc_x = of_int (raw_word buf 0) / scale * 9.80665,
          acc_y = of_int (raw_word buf 1) / scale * 9.80665,
          acc_z = of_int (raw_word buf 2) / scale * 9.80665,
          temperature = of_int (raw_word buf 3) / 340 + 36.53,
          gyro_x = of_int (raw_word buf 4) / gscale * SENSORS_DPS_TO_RADS,
          gyro_y = of_int (raw_word buf 5) / gscale * SENSORS_DPS_TO_RADS,
          gyro_z = of_int (raw_word buf 6) / gscale * SENSORS_DPS_TO_RADS\<rparr>)"

subsection \<open>Bit fields of the configuration registers\<close>

lemma reg_bits_read_write:
  "shift + bits \<le> 8 \<Longrightarrow> reg_bits_read bits shift (reg_bits_write bits shift d v) = d AND mask bits"
  by (rule bit_word_eqI) (auto simp: reg_bits_read_def reg_bits_write_def bit_simps)

lemma reg_bits_write_other:
  "n < 8 \<Longrightarrow> n < shift \<or> shift + bits \<le> n \<Longrightarrow> bit (reg_bits_write bits shift d v) n = bit v n"
  by (auto simp: reg_bits_write_def bit_simps)

lemma accel_range_code_mask [simp]: "accel_range_code r AND mask 2 = accel_range_code r"
  by (cases r) (simp_all add: mask_eq_exp_minus_1)

lemma getAccelerometerRange_set [simp]:
  "getAccelerometerRange (setAccelerometerRange r regs) = r"
  by (cases r) (simp_all add: getAccelerometerRange_def setAccelerometerRange_def reg_bits_read_write
      mask_eq_exp_minus_1)

lemma getAccelerometerRange_gyro [simp]:
  "getAccelerometerRange (setGyroRange g regs) = getAccelerometerRange regs"
  by (simp add: getAccelerometerRange_def setGyroRange_def MPU6050_ACCEL_CONFIG_def)

lemma getAccelerometerRange_band [simp]:
  "getAccelerometerRange (setFilterBandwidth b regs) = getAccelerometerRange regs"
  by (simp add: getAccelerometerRange_def setFilterBandwidth_def MPU6050_ACCEL_CONFIG_def)

lemma gyro_range_code_mask [simp]: "gyro_range_code r AND mask 2 = gyro_range_code r"
  by (cases r) (simp_all add: mask_eq_exp_minus_1)

lemma getGyroRange_set [simp]: "getGyroRange (setGyroRange r regs) = r"
  by (cases r) (simp_all add: getGyroRange_def setGyroRange_def reg_bits_read_write mask_eq_exp_minus_1)

lemma getGyroRange_accel [simp]:
  "getGyroRange (setAccelerometerRange r regs) = getGyroRange regs"
  by (simp add: getGyroRange_def setAccelerometerRange_def MPU6050_ACCEL_CONFIG_def)

lemma getGyroRange_band [simp]:
  "getGyroRange (setFilterBandwidth b regs) = getGyroRange regs"
  by (simp add: getGyroRange_def setFilterBandwidth_def)

subsection \<open>Sixteen-bit samples\<close>

lemma raw_word_bounds: "- 32768 \<le> raw_word buf i \<and> raw_word buf i \<le> 32767"
proof -
  have "- (2 ^ (LENGTH(16) - 1)) \<le> sint (be16 (buf (2 * i)) (buf (2 * i + 1)))"
    by (rule sint_ge)
  moreover have "sint (be16 (buf (2 * i)) (buf (2 * i + 1))) < 2 ^ (LENGTH(16) - 1)"
    by (rule sint_lt)
  ultimately show ?thesis by (simp add: raw_word_def)
qed

subsection \<open>Register writes and sample assembly\<close>

text \<open>A range write changes no other register and no bit of
  \<^verbatim>\<open>ACCEL_CONFIG\<close> outside the two-bit range field (bits 3 and 4).\<close>

lemma setAccelerometerRange_frame:
  "(\<forall>a. a \<noteq> MPU6050_ACCEL_CONFIG \<longrightarrow> setAccelerometerRange r regs a = regs a) \<and>
   (\<forall>n < 8. n \<notin> {3, 4} \<longrightarrow>
      bit (setAccelerometerRange r regs MPU6050_ACCEL_CONFIG) n = bit (regs MPU6050_ACCEL_CONFIG) n)"
proof -
  have "n < 8 \<Longrightarrow> n \<notin> {3, 4} \<Longrightarrow>
      bit (reg_bits_write 2 3 (accel_range_code r) (regs MPU6050_ACCEL_CONFIG)) n
      = bit (regs MPU6050_ACCEL_CONFIG) n" for n
    by (rule reg_bits_write_other) auto
  then show ?thesis by (simp add: setAccelerometerRange_def)
qed

text \<open>The big-endian assembly \<^verbatim>\<open>buffer[i] << 8 | buffer[i + 1]\<close> and the
  split of a 16-bit register into its high and low bytes are inverse.\<close>

lemma be16_roundtrip:
  "be16 (ucast (drop_bit 8 w)) (ucast w) = w \<and>
   ucast (drop_bit 8 (be16 hi lo)) = hi \<and> ucast (be16 hi lo) = lo"
proof (intro conjI)
  show "be16 (ucast (drop_bit 8 w)) (ucast w) = w"
    by (rule bit_word_eqI) (auto simp: be16_def bit_simps)
  show "ucast (drop_bit 8 (be16 hi lo)) = hi"
    by (rule bit_word_eqI) (auto simp: be16_def bit_simps dest: bit_imp_le_length)
  show "ucast (be16 hi lo) = lo"
    by (rule bit_word_eqI) (auto simp: be16_def bit_simps)
qed

text \<open>Every temperature the driver reports lies between -60 and 133 degrees
  Celsius, whatever bytes the bus delivers.\<close>

lemma temperature_bounds:
  "- 60 < temperature (mpu_get_event regs buf) \<and> temperature (mpu_get_event regs buf) < 133"
  using raw_word_bounds [of buf 3] by (simp add: mpu_get_event_def Let_def)

text \<open>The accelerations and the temperature come from the first eight
  bytes of the sample alone.\<close>

lemma mpu_get_event_first_bytes:
  assumes "\<forall>i < 8. buf i = buf' i"
  shows "acc_x (mpu_get_event regs buf) = acc_x (mpu_get_event regs buf') \<and>
    acc_y (mpu_get_event regs buf) = acc_y (mpu_get_event regs buf') \<and>
    acc_z (mpu_get_event regs buf) = acc_z (mpu_get_event regs buf') \<and>
    temperature (mpu_get_event regs buf) = temperature (mpu_get_event regs buf')"
proof -
  have "raw_word buf k = raw_word buf' k" if "k < 4" for k
    using assms that by (simp add: raw_word_def)
  then show ?thesis by (simp add: mpu_get_event_def Let_def)
qed

text \<open>No temperature the driver reports lies half-way between two
  multiples of 0.1: ten times its magnitude is never an integer plus one
  half, since \<open>(raw / 340 + 36.53) * 1700 = 5 * raw + 62101\<close> is never a
  multiple of 85 times an odd number.\<close>

lemma temperature_no_tie:
  "\<bar>temperature (mpu_get_event regs buf)\<bar> * 10 - of_int \<lfloor>\<bar>temperature (mpu_get_event regs buf)\<bar> * 10\<rfloor> \<noteq> 1 / 2"
proof
  define t where "t = temperature (mpu_get_event regs buf)"
  define k where "k = raw_word buf 3"
  define m where "m = \<lfloor>\<bar>t\<bar> * 10\<rfloor>"
  assume "\<bar>temperature (mpu_get_event regs buf)\<bar> * 10 - of_int \<lfloor>\<bar>temperature (mpu_get_event regs buf)\<bar> * 10\<rfloor> = 1 / 2"
  then have "\<bar>t\<bar> * 1700 = of_int (170 * m + 85)" unfolding t_def [symmetric] m_def by simp
  moreover have "t * 1700 = of_int (5 * k + 62101)"
    by (simp add: t_def k_def mpu_get_event_def Let_def)
  ultimately have "of_int (5 * k + 62101) = (of_int (170 * m + 85) :: real) \<or>
                   of_int (5 * k + 62101) = (of_int (- (170 * m + 85)) :: real)"
    by (cases "0 \<le> t") simp_all
  then have "5 * k + 62101 = 170 * m + 85 \<or> 5 * k + 62101 = - (170 * m + 85)"
    by (simp only: of_int_eq_iff)
  then show False by presburger
qed

end
