(* ===== verification/Printf.thy ===== *)
theory Printf
  imports Print_Float
begin

text \<open>
  The fixed-point conversion \<^verbatim>\<open>%.Nf\<close> of the C library's \<^verbatim>\<open>printf\<close>, which
  \<^verbatim>\<open>Serial.printf\<close> (line 145 of \<^verbatim>\<open>src/src/main.cpp\<close>) uses for the
  diagnostic line.  Unlike \<^verbatim>\<open>Print::printFloat\<close>, \<^verbatim>\<open>printf\<close> rounds the value
  correctly to the nearest representable decimal, ties to even, and always
  prints at least one integer digit, the point, and exactly \<open>N\<close> fractional
  digits, zero-padded; the sign is printed whenever the value is negative.
  The value is a real number (the binary value the \<^verbatim>\<open>double\<close> holds).  The
  lemmas show what the text denotes, that it is within half a unit of the
  last place of the value, and that with one decimal it is the text of
  \<^verbatim>\<open>printFloat\<close> for every value that is not a rounding tie.
\<close>

definition round_half_even :: "real \<Rightarrow> int" where
  "round_half_even r =
     (let f = \<lfloor>r\<rfloor>; e = r - of_int f
      in if e < 1 / 2 then f else if 1 / 2 < e then f + 1 else if even f then f else f + 1)"

definition pad_left :: "nat \<Rightarrow> string \<Rightarrow> string" where
  "pad_left n s = replicate (n - length s) CHR ''0'' @ s"

definition fmt_fixed :: "nat \<Rightarrow> real \<Rightarrow> string" where
  "fmt_fixed prec x =
     (let q = nat (round_half_even (\<bar>x\<bar> * 10 ^ prec))
      in (if x < 0 then ''-'' else []) @ print_number (q div 10 ^ prec)
         @ (if 0 < prec then ''.'' else []) @ (if 0 < prec then pad_left prec (print_number (q mod 10 ^ prec)) else []))"

subsection \<open>Rounding\<close>

lemma round_half_even_close: "\<bar>of_int (round_half_even r) - r\<bar> \<le> 1 / 2"
proof -
  have "of_int \<lfloor>r\<rfloor> \<le> r" "r < of_int \<lfloor>r\<rfloor> + 1" by linarith+
  then show ?thesis unfolding round_half_even_def Let_def by (simp add: abs_le_iff)
qed

lemma round_half_even_nonneg: "0 \<le> r \<Longrightarrow> 0 \<le> round_half_even r"
  unfolding round_half_even_def Let_def by (simp split: if_splits)

subsection \<open>What the text denotes\<close>

lemma digits_val_zeros [simp]: "digits_val (replicate k CHR ''0'') = 0"
  by (induction k) (simp_all add: digits_val_def)

lemma digits_val_pad_left [simp]: "digits_val (pad_left n s) = digits_val s"
  by (simp add: pad_left_def digits_val_append)

lemma length_pad_left: "length s \<le> n \<Longrightarrow> length (pad_left n s) = n"
  by (simp add: pad_left_def)

lemma set_pad_left:
  "set s \<subseteq> {ch. (48::nat) \<le> of_char ch \<and> of_char ch \<le> (57::nat)} \<Longrightarrow>
   set (pad_left n s) \<subseteq> {ch. (48::nat) \<le> of_char ch \<and> of_char ch \<le> (57::nat)}"
  by (auto simp: pad_left_def)

lemma udec_value_fmt_body:
  "udec_value (print_number (q div 10 ^ p) @ (if 0 < p then ''.'' else [])
     @ (if 0 < p then pad_left p (print_number (q mod 10 ^ p)) else [])) = real q / 10 ^ p"
proof (cases "0 < p")
  case True
  have "length (print_number (q mod 10 ^ p)) \<le> p"
    using True by (intro length_print_number_le) simp_all
  then have l: "length (pad_left p (print_number (q mod 10 ^ p))) = p" by (rule length_pad_left)
  have "udec_value (print_number (q div 10 ^ p) @ (if 0 < p then ''.'' else [])
          @ pad_left p (print_number (q mod 10 ^ p)))
        = real (q div 10 ^ p) + real (q mod 10 ^ p) / 10 ^ p"
    using udec_value_digits [OF set_print_number, of p "pad_left p (print_number (q mod 10 ^ p))" "q div 10 ^ p"]
      True by (simp add: l digits_val_print_number)
  also have "\<dots> = real q / 10 ^ p"
  proof -
    have e: "q = q div 10 ^ p * 10 ^ p + q mod 10 ^ p" by (rule div_mult_mod_eq [symmetric])
    have "real q = real (q div 10 ^ p) * 10 ^ p + real (q mod 10 ^ p)"
      by (subst e) simp
    then show ?thesis by (simp add: field_simps)
  qed
  finally show ?thesis using True by simp
next
  case False
  show ?thesis
  proof -
    have "digits_val [] = 0" by (simp add: digits_val_def)
    then show ?thesis
      using False udec_value_digits [OF set_print_number, of 0 "[]" q] by (simp add: digits_val_print_number)
  qed
qed

lemma dec_value_fmt_fixed:
  "dec_value (fmt_fixed p x) =
     (if x < 0 then - 1 else 1) * (of_int (round_half_even (\<bar>x\<bar> * 10 ^ p)) / 10 ^ p)"
proof -
  define q where "q = nat (round_half_even (\<bar>x\<bar> * 10 ^ p))"
  have q: "real q = of_int (round_half_even (\<bar>x\<bar> * 10 ^ p))"
    using round_half_even_nonneg [of "\<bar>x\<bar> * 10 ^ p"] by (simp add: q_def)
  define body where "body = print_number (q div 10 ^ p) @ (if 0 < p then ''.'' else [])
     @ (if 0 < p then pad_left p (print_number (q mod 10 ^ p)) else [])"
  have u: "udec_value body = real q / 10 ^ p" unfolding body_def by (rule udec_value_fmt_body)
  have f: "fmt_fixed p x = (if x < 0 then ''-'' else []) @ body"
    by (simp add: fmt_fixed_def body_def q_def Let_def)
  show ?thesis
  proof (cases "x < 0")
    case True
    then show ?thesis by (simp add: f u q)
  next
    case False
    have "dec_value body = udec_value body"
      by (rule dec_value_unsigned) (simp_all add: body_def hd_print_number_not_minus)
    with False show ?thesis by (simp add: f u q)
  qed
qed

lemma fmt_fixed_error: "\<bar>dec_value (fmt_fixed p x) - x\<bar> \<le> 1 / (2 * 10 ^ p)"
proof -
  define r where "r = of_int (round_half_even (\<bar>x\<bar> * 10 ^ p)) / (10 ^ p :: real)"
  have "\<bar>of_int (round_half_even (\<bar>x\<bar> * 10 ^ p)) - \<bar>x\<bar> * 10 ^ p\<bar> \<le> 1 / 2"
    by (rule round_half_even_close)
  then have "\<bar>of_int (round_half_even (\<bar>x\<bar> * 10 ^ p)) - \<bar>x\<bar> * 10 ^ p\<bar> / 10 ^ p \<le> (1 / 2) / 10 ^ p"
    by (rule divide_right_mono) simp
  moreover have "r - \<bar>x\<bar> = (of_int (round_half_even (\<bar>x\<bar> * 10 ^ p)) - \<bar>x\<bar> * 10 ^ p) / 10 ^ p"
    by (simp add: r_def field_simps)
  then have "\<bar>r - \<bar>x\<bar>\<bar> = \<bar>of_int (round_half_even (\<bar>x\<bar> * 10 ^ p)) - \<bar>x\<bar> * 10 ^ p\<bar> / 10 ^ p"
    by (simp add: abs_divide)
  ultimately have c: "\<bar>r - \<bar>x\<bar>\<bar> \<le> 1 / (2 * 10 ^ p)" by simp
  show ?thesis
  proof (cases "x < 0")
    case True
    then have "dec_value (fmt_fixed p x) - x = - (r - \<bar>x\<bar>)"
      by (simp add: dec_value_fmt_fixed r_def)
    with c show ?thesis by (simp only: abs_minus_cancel)
  next
    case False
    then have "dec_value (fmt_fixed p x) - x = r - \<bar>x\<bar>"
      by (simp add: dec_value_fmt_fixed r_def)
    with c show ?thesis by simp
  qed
qed

lemma fmt_fixed_no_space: "CHR '' '' \<notin> set (fmt_fixed p x)"
proof -
  have "set (print_number n) \<subseteq> {ch. (48::nat) \<le> of_char ch \<and> of_char ch \<le> (57::nat)}" for n
    by (rule set_print_number)
  then have "CHR '' '' \<notin> set (print_number n)" for n by fastforce
  moreover have "CHR '' '' \<notin> set (pad_left p (print_number n))" for n
    using set_pad_left [OF set_print_number [of n], of p] by fastforce
  ultimately show ?thesis by (simp add: fmt_fixed_def Let_def)
qed


subsection \<open>Agreement with \<^verbatim>\<open>printFloat\<close> away from ties\<close>

text \<open>Away from a tie, rounding to even is rounding half up.\<close>

lemma round_half_even_no_tie:
  assumes "r - of_int \<lfloor>r\<rfloor> \<noteq> 1 / 2"
  shows "round_half_even r = \<lfloor>r + 1 / 2\<rfloor>"
proof -
  define f where "f = \<lfloor>r\<rfloor>"
  have b: "of_int f \<le> r" "r < of_int f + 1" unfolding f_def by linarith+
  show ?thesis
  proof (cases "r - of_int f < 1 / 2")
    case True
    then have "\<lfloor>r + 1 / 2\<rfloor> = f" unfolding floor_eq_iff using b by linarith
    with True show ?thesis by (simp add: round_half_even_def Let_def f_def [symmetric])
  next
    case False
    then have g: "1 / 2 < r - of_int f" using assms by (simp add: f_def)
    then have "\<lfloor>r + 1 / 2\<rfloor> = f + 1" unfolding floor_eq_iff of_int_add of_int_1 using b by linarith
    with False g show ?thesis by (simp add: round_half_even_def Let_def f_def [symmetric])
  qed
qed

text \<open>With one decimal, \<^verbatim>\<open>printFloat\<close> (add 0.05, truncate) and \<^verbatim>\<open>printf\<close>
  (round ties to even) print the same text whenever ten times the magnitude
  is not exactly half-way between two integers.\<close>

lemma print_float_one_fmt_fixed:
  assumes "\<bar>x\<bar> \<le> 4294967040" and "\<bar>x\<bar> * 10 - of_int \<lfloor>\<bar>x\<bar> * 10\<rfloor> \<noteq> 1 / 2"
  shows "print_float x 1 = fmt_fixed 1 x"
proof -
  define n where "n = \<bar>x\<bar> + 1 / 20"
  define Q where "Q = \<lfloor>\<bar>x\<bar> * 10 + 1 / 2\<rfloor>"
  have Q0: "0 \<le> Q" by (simp add: Q_def)
  have nQ: "\<lfloor>n * 10\<rfloor> = Q" by (simp add: n_def Q_def algebra_simps)
  have fn: "\<lfloor>n\<rfloor> = Q div 10"
  proof -
    have "\<lfloor>n\<rfloor> = \<lfloor>n * 10\<rfloor> div 10"
      using floor_divide_real_eq_div [of 10 "n * 10"] by simp
    then show ?thesis by (simp add: nQ)
  qed
  have fr: "\<lfloor>(n - of_int \<lfloor>n\<rfloor>) * 10\<rfloor> = Q mod 10"
  proof -
    have "(n - of_int \<lfloor>n\<rfloor>) * 10 = n * 10 - of_int (\<lfloor>n\<rfloor> * 10)" by (simp add: algebra_simps)
    then have "\<lfloor>(n - of_int \<lfloor>n\<rfloor>) * 10\<rfloor> = Q - Q div 10 * 10"
      by (simp only: floor_diff_of_int nQ fn)
    then show ?thesis by (simp add: minus_div_mult_eq_mod)
  qed
  have r0: "0 \<le> n - of_int \<lfloor>n\<rfloor>" "n - of_int \<lfloor>n\<rfloor> < 1" by linarith+
  have m0: "0 \<le> Q mod 10" "Q mod 10 < 10" by simp_all
  have t: "trunc_int ((n - of_int \<lfloor>n\<rfloor>) * 10) = Q mod 10"
  proof -
    have "trunc_int ((n - of_int \<lfloor>n\<rfloor>) * 10) = \<lfloor>(n - of_int \<lfloor>n\<rfloor>) * 10\<rfloor>"
      by (rule trunc_int_nonneg) (use r0 in simp)
    then show ?thesis by (simp only: fr)
  qed
  have "frac_digits 1 (n - of_int \<lfloor>n\<rfloor>) = print_long (Q mod 10)"
    by (simp only: One_nat_def frac_digits.simps Let_def t) simp
  then have fd: "frac_digits 1 (n - of_int \<lfloor>n\<rfloor>) = [char_of (48 + nat (Q mod 10))]"
    using m0 by (simp add: print_long_digit)
  have pf: "print_float x 1 = (if x < 0 then ''-'' else []) @ print_number (nat (Q div 10)) @ ''.''
            @ [char_of (48 + nat (Q mod 10))]"
    using print_float_unfold [OF assms(1), of 1] fd fn by (simp add: n_def rounding_eq)
  have q: "nat (round_half_even (\<bar>x\<bar> * 10)) = nat Q"
    using round_half_even_no_tie [OF assms(2)] by (simp add: Q_def)
  have dv: "nat Q div 10 = nat (Q div 10)" and md: "nat Q mod 10 = nat (Q mod 10)"
    using Q0 by (simp_all add: nat_div_distrib nat_mod_distrib)
  have "pad_left 1 (print_number (nat (Q mod 10))) = [char_of (48 + nat (Q mod 10))]"
    using m0 by (simp add: print_number_digit pad_left_def nat_less_iff)
  then show ?thesis unfolding pf by (simp add: fmt_fixed_def Let_def q dv md)
qed

end
