(* ===== verification/Driver.thy ===== *)
theory Driver
  imports Renderer Orientation Mpu6050 Printf
begin

text \<open>
  The driver of \<^verbatim>\<open>src/src/main.cpp\<close>: \<^verbatim>\<open>setup()\<close> (lines 92--125) and
  \<^verbatim>\<open>loop()\<close> (lines 127--154) over the whole system state, the two global
  objects \<^verbatim>\<open>mpu\<close> and \<^verbatim>\<open>tft\<close> (lines 27--28) and the serial log.  The Arduino
  runtime calls \<^verbatim>\<open>setup()\<close> once and then \<^verbatim>\<open>loop()\<close> forever; when the sensor
  is missing, \<^verbatim>\<open>setup()\<close> never returns (\<^verbatim>\<open>while (true) delay(100);\<close>), the
  phase \<open>Halted\<close> of the model, whose only step is one more idle turn.  The
  environment supplies the sensor's answer to the identity probe and the
  measurement bytes of every cycle.  The step relation and the reachable
  states are inductive; the invariant \<open>sys_inv\<close> says what every reachable
  state of each phase looks like.  The call of \<^verbatim>\<open>setup()\<close> itself is
  \<open>setup_call\<close>, whose halt loop is a partial function in the option monad,
  and \<open>serial_text\<close> gives the characters each log line writes.
\<close>

text \<open>The pin map of lines 13--24: ESP32 GPIO numbers.\<close>

definition I2C_SDA :: nat where "I2C_SDA = 21"
definition I2C_SCL :: nat where "I2C_SCL = 22"
definition TFT_CS :: nat where "TFT_CS = 5"
definition TFT_DC :: nat where "TFT_DC = 2"
definition TFT_RST :: nat where "TFT_RST = 4"
definition SPI_SCK :: nat where "SPI_SCK = 18"
definition SPI_MISO :: nat where "SPI_MISO = 19"
definition SPI_MOSI :: nat where "SPI_MOSI = 23"

datatype phase = Uninitialized | Running | Halted

text \<open>One line of the serial log: a text line, or the readings line of
  \<^verbatim>\<open>Serial.printf\<close> (line 145) with its six values.\<close>

datatype log_line = Log_Text string | Log_Reading real real real real real real

text \<open>The characters a log line puts on the serial port: \<^verbatim>\<open>Serial.println\<close>
  ends its text with CR LF (lines 103 and 124); the \<^verbatim>\<open>Serial.printf\<close> of lines
  145--146 formats the six values with \<^verbatim>\<open>%.2f\<close> and \<^verbatim>\<open>%.1f\<close>.\<close>

fun serial_text :: "log_line \<Rightarrow> string" where
  "serial_text (Log_Text t) = t @ [CHR 0x0D, CHR 0x0A]"
| "serial_text (Log_Reading ax ay az r p t) =
     ''Ax: '' @ fmt_fixed 2 ax @ '' Ay: '' @ fmt_fixed 2 ay @ '' Az: '' @ fmt_fixed 2 az
     @ '' | Roll: '' @ fmt_fixed 2 r @ '' deg Pitch: '' @ fmt_fixed 2 p
     @ '' deg | Temp: '' @ fmt_fixed 1 t @ '' C'' @ [CHR 0x0A]"

record sys =
  phase :: phase
  disp :: tft
  imu :: regfile
  serial :: "log_line list"

text \<open>Power-on: the display object constructed over whatever the controller
  holds, the sensor's configuration registers at their reset value 0.\<close>

definition power_on :: "framebuffer \<Rightarrow> (nat \<Rightarrow> 8 word) \<Rightarrow> sys" where
  "power_on fb font = \<lparr>phase = Uninitialized, disp = tft_construct fb font, imu = (\<lambda>_. 0), serial = []\<rparr>"

text \<open>Lines 108--110: accelerometer range, gyroscope range, filter.\<close>

definition mpu_configure :: "regfile \<Rightarrow> regfile" where
  "mpu_configure regs =
     setFilterBandwidth MPU6050_BAND_21_HZ
       (setGyroRange MPU6050_RANGE_500_DEG (setAccelerometerRange MPU6050_RANGE_8_G regs))"

text \<open>Lines 114--122: \<^verbatim>\<open>tft.begin()\<close>, portrait rotation, clear, chrome.\<close>

definition init_display :: "tft \<Rightarrow> tft" where
  "init_display d = drawStaticLabels (drawHeader (fill_screen COL_BG (set_rotation 0 (tft_begin d))))"

definition arduino_setup :: "8 word option \<Rightarrow> sys \<Rightarrow> sys" where
  "arduino_setup who_am_i s =
     (case mpu_begin who_am_i of
        None \<Rightarrow> s\<lparr>phase := Halted, serial := serial s @ [Log_Text ''ERROR: MPU6050 not found!'']\<rparr>
      | Some regs \<Rightarrow>
          s\<lparr>phase := Running, imu := mpu_configure regs, disp := init_display (disp s),
            serial := serial s @ [Log_Text ''System started. Reading MPU6050...'']\<rparr>)"

text \<open>Lines 149--151: the three field updates, in the code's order.\<close>

definition render_values :: "real \<Rightarrow> real \<Rightarrow> real \<Rightarrow> tft \<Rightarrow> tft" where
  "render_values roll_v pitch_v tC d =
     printValue LINE_Y3 tC ''C'' COL_TEMP 1
       (printValue LINE_Y2 pitch_v ''deg'' COL_PITCH 1
         (printValue LINE_Y1 roll_v ''deg'' COL_ROLL 1 d))"

definition arduino_loop :: "(nat \<Rightarrow> 8 word) \<Rightarrow> sys \<Rightarrow> sys" where
  "arduino_loop buf s =
     (let e = mpu_get_event (imu s) buf;
          ax = acc_x e; ay = acc_y e; az = acc_z e;
          ori = estimate ax ay az;
          tC = temperature e
      in s\<lparr>serial := serial s @ [Log_Reading ax ay az (roll ori) (pitch ori) tC],
           disp := render_values (roll ori) (pitch ori) tC (disp s)\<rparr>)"

text \<open>One turn of \<^verbatim>\<open>while (true) delay(100);\<close> (line 104): nothing of the
  modelled state changes.\<close>

definition halt_idle :: "sys \<Rightarrow> sys" where
  "halt_idle s = s"

text \<open>The halt loop as the function it is: \<^verbatim>\<open>while (true) delay(100);\<close>
  calls itself after every idle turn and never returns (the value \<open>None\<close>).\<close>

partial_function (option) halt_wait :: "sys \<Rightarrow> sys option" where
  "halt_wait s = halt_wait (halt_idle s)"

text \<open>\<^verbatim>\<open>setup()\<close> as a call that may not return: it returns the started
  system when the probe succeeds, and otherwise logs the error and enters the
  halt loop.\<close>

definition setup_call :: "8 word option \<Rightarrow> sys \<Rightarrow> sys option" where
  "setup_call who_am_i s =
     (case mpu_begin who_am_i of
        None \<Rightarrow> halt_wait (arduino_setup who_am_i s)
      | Some regs \<Rightarrow> Some (arduino_setup who_am_i s))"

text \<open>The runtime: \<^verbatim>\<open>setup()\<close> once, then \<^verbatim>\<open>loop()\<close> with each new sample, or
  the idle loop of a failed start.\<close>

inductive step :: "sys \<Rightarrow> sys \<Rightarrow> bool" where
  boot: "phase s = Uninitialized \<Longrightarrow> step s (arduino_setup who_am_i s)"
| cycle: "phase s = Running \<Longrightarrow> step s (arduino_loop buf s)"
| idle: "phase s = Halted \<Longrightarrow> step s (halt_idle s)"

inductive reach :: "framebuffer \<Rightarrow> (nat \<Rightarrow> 8 word) \<Rightarrow> sys \<Rightarrow> bool" for fb font where
  reach_init: "reach fb font (power_on fb font)"
| reach_step: "reach fb font s \<Longrightarrow> step s s' \<Longrightarrow> reach fb font s'"

text \<open>The display right after a successful start.\<close>

definition boot_display :: "framebuffer \<Rightarrow> (nat \<Rightarrow> 8 word) \<Rightarrow> tft" where
  "boot_display fb font = init_display (tft_construct fb font)"

primrec is_reading :: "log_line \<Rightarrow> bool" where
  "is_reading (Log_Text t) = False"
| "is_reading (Log_Reading ax ay az r p t) = True"

definition sys_inv :: "framebuffer \<Rightarrow> (nat \<Rightarrow> 8 word) \<Rightarrow> sys \<Rightarrow> bool" where
  "sys_inv fb font s \<longleftrightarrow>
     (phase s = Uninitialized \<longrightarrow> s = power_on fb font) \<and>
     (phase s = Halted \<longrightarrow> disp s = tft_construct fb font \<and>
        serial s = [Log_Text ''ERROR: MPU6050 not found!'']) \<and>
     (phase s = Running \<longrightarrow> same_setup (disp s) (boot_display fb font) \<and>
        agree_off (value_area \<inter> screen (boot_display fb font)) (gram (boot_display fb font)) (gram (disp s)) \<and>
        getAccelerometerRange (imu s) = MPU6050_RANGE_8_G \<and> getGyroRange (imu s) = MPU6050_RANGE_500_DEG \<and>
        (\<exists>rs. serial s = Log_Text ''System started. Reading MPU6050...'' # rs \<and> list_all is_reading rs))"

text \<open>The abstract content of the display after a cycle: the values of the
  sample, read with the 8 g range, rendered over the start-up screen.\<close>

definition expected_display :: "framebuffer \<Rightarrow> (nat \<Rightarrow> 8 word) \<Rightarrow> (nat \<Rightarrow> 8 word) \<Rightarrow> tft" where
  "expected_display fb font buf =
     (let e = mpu_get_event (setAccelerometerRange MPU6050_RANGE_8_G (\<lambda>_. 0)) buf;
          ori = estimate (acc_x e) (acc_y e) (acc_z e)
      in render_values (roll ori) (pitch ori) (temperature e) (boot_display fb font))"

text \<open>An executable reading of the runtime: the environment's events, one
  step per event when the phase allows it, and a run of a list of events.\<close>

datatype event = Boot "8 word option" | Cycle "nat \<Rightarrow> 8 word" | Idle

fun sys_step :: "event \<Rightarrow> sys \<Rightarrow> sys option" where
  "sys_step (Boot who_am_i) s = (if phase s = Uninitialized then Some (arduino_setup who_am_i s) else None)"
| "sys_step (Cycle buf) s = (if phase s = Running then Some (arduino_loop buf s) else None)"
| "sys_step Idle s = (if phase s = Halted then Some (halt_idle s) else None)"

fun run :: "event list \<Rightarrow> sys \<Rightarrow> sys option" where
  "run [] s = Some s"
| "run (e # es) s = (case sys_step e s of None \<Rightarrow> None | Some s' \<Rightarrow> run es s')"

inductive_cases stepE: "step s s'"

subsection \<open>The display after start-up\<close>

lemma init_display_setup:
  "width (init_display d) = ILI9341_TFTWIDTH \<and> height (init_display d) = ILI9341_TFTHEIGHT \<and>
   rotation (init_display d) = 0"
proof -
  define d0 where "d0 = fill_screen COL_BG (set_rotation 0 (tft_begin d))"
  have "same_setup (init_display d) d0"
    unfolding init_display_def d0_def
    by (rule same_setup_trans [OF drawStaticLabels_setup drawHeader_setup])
  moreover have "width d0 = ILI9341_TFTWIDTH \<and> height d0 = ILI9341_TFTHEIGHT \<and> rotation d0 = 0"
    by (simp add: d0_def fill_screen_def set_rotation_def tft_begin_def)
  ultimately show ?thesis by (simp add: same_setup_def)
qed

lemma boot_display_width: "width (boot_display fb font) = ILI9341_TFTWIDTH"
  using init_display_setup by (simp add: boot_display_def)

subsection \<open>One cycle of the loop\<close>

text \<open>The three stages of a rendering: each update keeps the setup and
  changes only its own box.\<close>

lemma render_values_stages:
  assumes w: "width d = ILI9341_TFTWIDTH" and b: "\<bar>r\<bar> < 999" "\<bar>p\<bar> < 999" "\<bar>t\<bar> < 999"
  shows "same_setup d (printValue LINE_Y1 r ''deg'' COL_ROLL 1 d) \<and>
    agree_off (value_box LINE_Y1 \<inter> screen d) (gram d) (gram (printValue LINE_Y1 r ''deg'' COL_ROLL 1 d))"
    and "same_setup d (printValue LINE_Y2 p ''deg'' COL_PITCH 1 (printValue LINE_Y1 r ''deg'' COL_ROLL 1 d)) \<and>
    agree_off (value_box LINE_Y2 \<inter> screen d) (gram (printValue LINE_Y1 r ''deg'' COL_ROLL 1 d))
      (gram (printValue LINE_Y2 p ''deg'' COL_PITCH 1 (printValue LINE_Y1 r ''deg'' COL_ROLL 1 d)))"
    and "same_setup d (render_values r p t d) \<and>
    agree_off (value_box LINE_Y3 \<inter> screen d)
      (gram (printValue LINE_Y2 p ''deg'' COL_PITCH 1 (printValue LINE_Y1 r ''deg'' COL_ROLL 1 d)))
      (gram (render_values r p t d))"
proof -
  define d1 where "d1 = printValue LINE_Y1 r ''deg'' COL_ROLL 1 d"
  define d2 where "d2 = printValue LINE_Y2 p ''deg'' COL_PITCH 1 d1"
  have F1: "same_setup d d1 \<and> agree_off (value_box LINE_Y1 \<inter> screen d) (gram d) (gram d1)"
    unfolding d1_def by (rule value_box_screen_frame) (simp_all add: w b)
  then have w1: "width d1 = ILI9341_TFTWIDTH" and s1: "screen d1 = screen d"
    using w by (simp_all add: same_setup_def d1_def)
  have F2: "same_setup d1 d2 \<and> agree_off (value_box LINE_Y2 \<inter> screen d1) (gram d1) (gram d2)"
    unfolding d2_def by (rule value_box_screen_frame) (simp_all add: w1 b)
  then have w2: "width d2 = ILI9341_TFTWIDTH" and s2: "screen d2 = screen d"
    using w1 s1 by (simp_all add: same_setup_def d2_def)
  have F3: "same_setup d2 (render_values r p t d) \<and>
            agree_off (value_box LINE_Y3 \<inter> screen d2) (gram d2) (gram (render_values r p t d))"
    unfolding render_values_def d2_def [symmetric] d1_def [symmetric]
    by (rule value_box_screen_frame) (simp_all add: w2 b)
  show "same_setup d d1 \<and> agree_off (value_box LINE_Y1 \<inter> screen d) (gram d) (gram d1)"
    by (rule F1)
  show "same_setup d d2 \<and> agree_off (value_box LINE_Y2 \<inter> screen d) (gram d1) (gram d2)"
    using F1 F2 s1 same_setup_trans [of d d1 d2] by simp
  show "same_setup d (render_values r p t d) \<and>
    agree_off (value_box LINE_Y3 \<inter> screen d) (gram d2) (gram (render_values r p t d))"
    using F1 F2 F3 s2 same_setup_trans [of d d1 d2] same_setup_trans [of d d2 "render_values r p t d"]
    by simp
qed

lemma render_values_frame:
  assumes w: "width d = ILI9341_TFTWIDTH" and b: "\<bar>r\<bar> < 999" "\<bar>p\<bar> < 999" "\<bar>t\<bar> < 999"
  shows "same_setup d (render_values r p t d) \<and>
         agree_off (value_area \<inter> screen d) (gram d) (gram (render_values r p t d))"
proof -
  note S = render_values_stages [OF assms]
  have "agree_off (value_box LINE_Y1 \<inter> screen d \<union> value_box LINE_Y2 \<inter> screen d \<union> value_box LINE_Y3 \<inter> screen d)
          (gram d) (gram (render_values r p t d))"
    using agree_off_trans [OF agree_off_trans [OF conjunct2 [OF S(1)] conjunct2 [OF S(2)]] conjunct2 [OF S(3)]] .
  then show ?thesis using S(3) by (auto simp: value_area_def elim: agree_off_mono)
qed

lemma render_values_cong:
  assumes "same_setup d1 d2" and "agree_off (value_area \<inter> screen d1) (gram d1) (gram d2)"
  shows "render_values r p t d1 = render_values r p t d2"
proof -
  define B where "B y = value_box y \<inter> screen d1" for y
  define e1 where "e1 = printValue LINE_Y1 r ''deg'' COL_ROLL 1 d1"
  define e2 where "e2 = printValue LINE_Y1 r ''deg'' COL_ROLL 1 d2"
  have "agree_off ((B LINE_Y2 \<union> B LINE_Y3) \<union> (value_box LINE_Y1 \<inter> screen d1)) (gram d1) (gram d2)"
    using assms(2) by (rule agree_off_mono) (auto simp: B_def value_area_def)
  then have "tft_agree (B LINE_Y2 \<union> B LINE_Y3) e1 e2"
    unfolding e1_def e2_def by (rule printValue_cong_gen [OF assms(1)])
  then have "tft_agree (B LINE_Y3 \<union> (value_box LINE_Y2 \<inter> screen e1)) e1 e2"
    by (rule tft_agree_mono) (auto simp: B_def e1_def)
  then have "tft_agree (B LINE_Y3) (printValue LINE_Y2 p ''deg'' COL_PITCH 1 e1) (printValue LINE_Y2 p ''deg'' COL_PITCH 1 e2)"
    by (rule printValue_cong_agree)
  then have "tft_agree ({} \<union> (value_box LINE_Y3 \<inter> screen (printValue LINE_Y2 p ''deg'' COL_PITCH 1 e1)))
               (printValue LINE_Y2 p ''deg'' COL_PITCH 1 e1) (printValue LINE_Y2 p ''deg'' COL_PITCH 1 e2)"
    by (simp add: B_def e1_def)
  then have "tft_agree {} (render_values r p t d1) (render_values r p t d2)"
    unfolding render_values_def e1_def [symmetric] e2_def [symmetric] by (rule printValue_cong_agree)
  then show ?thesis by (simp add: tft_agree_empty)
qed

lemma mpu_get_event_range:
  "getAccelerometerRange r1 = getAccelerometerRange r2 \<Longrightarrow>
   acc_x (mpu_get_event r1 buf) = acc_x (mpu_get_event r2 buf) \<and>
   acc_y (mpu_get_event r1 buf) = acc_y (mpu_get_event r2 buf) \<and>
   acc_z (mpu_get_event r1 buf) = acc_z (mpu_get_event r2 buf) \<and>
   temperature (mpu_get_event r1 buf) = temperature (mpu_get_event r2 buf)"
  by (simp add: mpu_get_event_def Let_def)

lemma temperature_abs_bound: "\<bar>temperature (mpu_get_event regs buf)\<bar> < 999"
  using raw_word_bounds [of buf 3] by (simp add: mpu_get_event_def Let_def abs_less_iff)

lemma arduino_loop_fields [simp]:
  "phase (arduino_loop buf s) = phase s" "imu (arduino_loop buf s) = imu s"
  by (simp_all add: arduino_loop_def Let_def)

lemma arduino_loop_disp:
  "disp (arduino_loop buf s) =
     (let e = mpu_get_event (imu s) buf
      in render_values (roll (estimate (acc_x e) (acc_y e) (acc_z e)))
           (pitch (estimate (acc_x e) (acc_y e) (acc_z e))) (temperature e) (disp s))"
  by (simp add: arduino_loop_def Let_def)

lemma arduino_loop_frame:
  assumes "width (disp s) = ILI9341_TFTWIDTH"
  shows "same_setup (disp s) (disp (arduino_loop buf s)) \<and>
         agree_off (value_area \<inter> screen (disp s)) (gram (disp s)) (gram (disp (arduino_loop buf s)))"
  unfolding arduino_loop_disp Let_def
  by (intro render_values_frame [OF assms] le_less_trans [OF roll_abs_bound]
      le_less_trans [OF pitch_abs_bound] temperature_abs_bound) simp_all

subsection \<open>The invariant of the reachable states\<close>

lemma mpu_configure_range [simp]: "getAccelerometerRange (mpu_configure regs) = MPU6050_RANGE_8_G"
  by (simp add: mpu_configure_def)

lemma mpu_configure_gyro [simp]: "getGyroRange (mpu_configure regs) = MPU6050_RANGE_500_DEG"
  by (simp add: mpu_configure_def)

lemma sys_inv_init: "sys_inv fb font (power_on fb font)"
  by (simp add: sys_inv_def power_on_def)

lemma sys_inv_boot:
  assumes "sys_inv fb font s" and "phase s = Uninitialized"
  shows "sys_inv fb font (arduino_setup who s)"
proof -
  have s: "s = power_on fb font" using assms by (simp add: sys_inv_def)
  show ?thesis
    by (cases "mpu_begin who") (simp_all add: s arduino_setup_def sys_inv_def power_on_def boot_display_def)
qed

lemma sys_inv_cycle:
  assumes "sys_inv fb font s" and "phase s = Running"
  shows "sys_inv fb font (arduino_loop buf s)"
proof -
  let ?b = "boot_display fb font"
  have i: "same_setup (disp s) ?b" "agree_off (value_area \<inter> screen ?b) (gram ?b) (gram (disp s))"
    "getAccelerometerRange (imu s) = MPU6050_RANGE_8_G"
    "\<exists>rs. serial s = Log_Text ''System started. Reading MPU6050...'' # rs \<and> list_all is_reading rs"
    "getGyroRange (imu s) = MPU6050_RANGE_500_DEG"
    using assms by (simp_all add: sys_inv_def)
  have w: "width (disp s) = ILI9341_TFTWIDTH"
    using i(1) boot_display_width by (simp add: same_setup_def)
  have sc: "screen (disp s) = screen ?b" using i(1) by (rule same_setup_screen)
  note F = arduino_loop_frame [OF w, of buf]
  have "same_setup (disp (arduino_loop buf s)) ?b"
    using F i(1) by (blast intro: same_setup_trans same_setup_sym)
  moreover have "agree_off (value_area \<inter> screen ?b) (gram ?b) (gram (disp (arduino_loop buf s)))"
    using agree_off_trans [OF i(2) conjunct2 [OF F]] by (simp add: sc)
  moreover obtain rs where "serial s = Log_Text ''System started. Reading MPU6050...'' # rs"
    and "list_all is_reading rs" using i(4) by blast
  ultimately show ?thesis using assms i(3) i(5) by (simp add: sys_inv_def arduino_loop_def Let_def)
qed

lemma sys_inv_step: "sys_inv fb font s \<Longrightarrow> step s s' \<Longrightarrow> sys_inv fb font s'"
  by (erule stepE) (simp_all add: sys_inv_boot sys_inv_cycle halt_idle_def)

lemma reach_sys_inv: "reach fb font s \<Longrightarrow> sys_inv fb font s"
  by (induction rule: reach.induct) (auto intro: sys_inv_init sys_inv_step)

subsection \<open>Runs of the system\<close>

lemma boot_ok_phase: "phase (arduino_setup (Some MPU6050_DEVICE_ID) s) = Running"
  by (simp add: arduino_setup_def mpu_begin_def)

lemma reach_boot: "reach fb font (arduino_setup who (power_on fb font))"
  by (rule reach_step [OF reach_init]) (rule step.boot, simp add: power_on_def)

lemma reach_cycle: "reach fb font s \<Longrightarrow> phase s = Running \<Longrightarrow> reach fb font (arduino_loop buf s)"
  by (erule reach_step) (erule step.cycle)

subsection \<open>Executable runs\<close>

lemma step_sys_step: "step s s' \<longleftrightarrow> (\<exists>e. sys_step e s = Some s')"
proof
  assume "step s s'"
  then show "\<exists>e. sys_step e s = Some s'"
    by (rule stepE) (auto intro: exI [of _ "Boot _"] exI [of _ "Cycle _"] exI [of _ Idle])
next
  assume "\<exists>e. sys_step e s = Some s'"
  then obtain e where "sys_step e s = Some s'" by blast
  then show "step s s'"
    by (cases e) (auto split: if_splits intro: step.intros)
qed

lemma run_append:
  "run (es @ fs) s = (case run es s of None \<Rightarrow> None | Some s' \<Rightarrow> run fs s')"
  by (induction es arbitrary: s) (auto split: option.splits)

lemma run_reach: "reach fb font s \<Longrightarrow> run es s = Some s' \<Longrightarrow> reach fb font s'"
proof (induction es arbitrary: s)
  case Nil
  then show ?case by simp
next
  case (Cons e es)
  then obtain s1 where s1: "sys_step e s = Some s1" and r: "run es s1 = Some s'"
    by (auto split: option.splits)
  have "step s s1" using s1 step_sys_step by blast
  then show ?case using Cons.IH [OF _ r] Cons.prems(1) by (blast intro: reach_step)
qed

lemma reach_run: "reach fb font s \<Longrightarrow> \<exists>es. run es (power_on fb font) = Some s"
proof (induction rule: reach.induct)
  case reach_init
  show ?case by (rule exI [of _ "[]"]) simp
next
  case (reach_step s s')
  then obtain es where es: "run es (power_on fb font) = Some s" by blast
  obtain e where "sys_step e s = Some s'" using reach_step.hyps(2) step_sys_step by blast
  then have "run (es @ [e]) (power_on fb font) = Some s'" by (simp add: run_append es)
  then show ?case by blast
qed

subsection \<open>The halt loop and the well-formed display\<close>

lemma halt_wait_not_Some: "halt_wait s = Some s' \<Longrightarrow> False"
  by (rule halt_wait.raw_induct [where P = "\<lambda>_ _. False"]) auto

lemma halt_wait_None [simp]: "halt_wait s = None"
  using halt_wait_not_Some by (cases "halt_wait s") auto

lemma tft_wf_init_display:
  assumes "tft_wf d"
  shows "tft_wf (init_display d)"
proof -
  have "tft_wf (set_rotation 0 (tft_begin d))"
    using assms by (intro tft_wf_set_rotation) (simp_all add: tft_begin_def tft_wf_def)
  then show ?thesis by (simp add: init_display_def tft_wf_renderer)
qed

lemma tft_wf_step: "tft_wf (disp s) \<Longrightarrow> step s s' \<Longrightarrow> tft_wf (disp s')"
  by (erule stepE)
    (auto simp: arduino_setup_def arduino_loop_def render_values_def halt_idle_def Let_def
      tft_wf_renderer tft_wf_init_display split: option.splits)

end
