(* ===== verification/Spec2Isabelle.thy ===== *)
theory Spec2Isabelle
  imports Driver
begin

text \<open>
  \<^bold>\<open>A verification model of the ESP32 MPU6050 attitude display.\<close>

  The program (\<^verbatim>\<open>src/src/main.cpp\<close>) samples an MPU6050 inertial sensor, turns
  the acceleration into roll and pitch, and shows roll, pitch and temperature
  on an ILI9341 display.  It has three parts, composed by the Arduino runtime:
  a sensor source (the Adafruit MPU6050 driver, called at lines 101, 108--110
  and 130), an orientation estimator (lines 137--139) and a display renderer
  (lines 30--90, over the Adafruit GFX and ILI9341 libraries and Arduino's
  \<^verbatim>\<open>Print\<close>); \<^verbatim>\<open>setup()\<close> (lines 92--125) starts them once and \<^verbatim>\<open>loop()\<close>
  (lines 127--154) runs the pipeline forever.

  \<^bold>\<open>Theories.\<close>
  \<^item> \<open>Prelude\<close>: framebuffers (pixel to RGB565 word), overlays and painting,
    rectangles, and agreement of framebuffers off a set of pixels.
  \<^item> \<open>Gfx\<close>: the display library.  The record \<open>tft\<close> is the state of the
    \<^verbatim>\<open>Adafruit_ILI9341\<close> object and the controller memory; \<open>fill_rect\<close>
    (\<^verbatim>\<open>fillRect\<close> with its clipping), \<open>draw_char\<close>, \<open>write_char\<close> and
    \<open>print_str\<close> (\<^verbatim>\<open>drawChar\<close>, \<^verbatim>\<open>write\<close>, \<^verbatim>\<open>print(const char* )\<close>) and the
    setters.  Frame lemmas bound the pixels each call changes; congruence
    lemmas show that the pixels it writes depend on nothing the screen held.
    The well-formedness predicate \<open>tft_wf\<close> (positive text sizes, rotation
    below 4, logical size matching the rotation) is kept by every call.
  \<^item> \<open>Print_Float\<close>: \<^verbatim>\<open>Print::printFloat\<close> (rounding, integer part through
    \<^verbatim>\<open>unsigned long\<close> without wrap-around, digit loop) on real numbers, with a
    reference decimal parser \<open>dec_value\<close>: the printed string denotes the
    value rounded half-up, within half a unit of the last place; values
    beyond the 32-bit range print \<open>ovf\<close>.
  \<^item> \<open>Printf\<close>: the \<^verbatim>\<open>%.Nf\<close> conversion of the C library's \<^verbatim>\<open>printf\<close>
    (used by \<^verbatim>\<open>Serial.printf\<close>): rounding ties to even, zero-padded
    fraction; the text reads back within half a unit of the last place, and
    with one decimal it is the text of \<^verbatim>\<open>printFloat\<close> for every value that
    is not a rounding tie.
  \<^item> \<open>Renderer\<close>: the layout constants and \<open>drawHeader\<close>, \<open>drawStaticLabels\<close>,
    \<open>clearValueBox\<close>, \<open>printValue\<close>; frame lemmas for the chrome; a value
    update touches only its own box, is idempotent and forgets what its box
    held (C4, C5, C19); the printed number reads back as the rounded value
    (C8, C9), and \<open>-0.0\<close> is shown exactly for the values in \<open>(-0.05, 0)\<close>
    (C16); the strings the program prints fit their boxes (C14).
  \<^item> \<open>Orientation\<close>: C's \<open>atan2\<close> on the reals, \<open>roll_deg\<close>, \<open>pitch_deg\<close> and
    \<open>estimate\<close>; \<open>atan2\<close> is the complex argument, the estimator inverts
    the tilt model (C6), is bounded (C7), scale invariant (C11), gives pitch 0
    without x acceleration (C12), and meets the spec's sanity checks of roll
    (C13).
  \<^item> \<open>Mpu6050\<close>: the sensor driver's registers as a map from 8-bit addresses
    to 8-bit words, bit-field writes, \<open>mpu_begin\<close> and \<open>mpu_get_event\<close>
    (big-endian 16-bit assembly, range scaling of the accelerometer and the
    gyroscope, temperature formula), with the read-back, frame and
    round-trip lemmas of the register and byte layers, and the fact that no
    reported temperature is a tie for rounding to one decimal.
  \<^item> \<open>Driver\<close>: the pin map, the system state \<open>sys\<close> (phase, display, sensor
    registers, serial log), \<open>arduino_setup\<close>, \<open>render_values\<close>,
    \<open>arduino_loop\<close> and \<open>halt_idle\<close>, the call of \<^verbatim>\<open>setup()\<close> as
    \<open>setup_call\<close> whose halt loop \<open>halt_wait\<close> is a partial function in the
    option monad (\<open>None\<close>: it never returns), the characters \<open>serial_text\<close>
    of each log line, the step relation \<open>step\<close> of the runtime
    and its executable reading \<open>sys_step\<close>/\<open>run\<close> over environment events,
    the reachable states \<open>reach\<close> from power-on, and the invariant \<open>sys_inv\<close>
    (chrome and setup preserved, 8 g and 500 deg/s ranges, log shape,
    untouched display when halted) proved by rule induction; the three
    stages of a rendering and their frames.
  \<^item> This theory: the properties that span the components: the chrome stays
    intact (C1), a failed start draws nothing (C2), a loop cycle refines the
    abstract display (C3), the value fields are independent (C10), the log
    (C15, C21, C22), the phases (C17), the start-up screen (C18), the sensor
    configuration (C20), the liveness of a good start (C23), the termination
    of \<^verbatim>\<open>setup()\<close> exactly on a good probe (C24), its error path (C25), the
    display's portrait setup in every reachable state (C26), the serial
    readings line and its read-back (C27), the agreement of the logged and
    the displayed temperature (C28), the gyroscope scale in use (C29), and
    the loop's independence of the gyroscope bytes (C30).

  \<^bold>\<open>Modelling choices.\<close>  The program's \<^verbatim>\<open>float\<close> values are real numbers:
  the single-precision rounding of \<^verbatim>\<open>atan2f\<close>, \<^verbatim>\<open>sqrtf\<close> and the scaling is
  not modelled, and \<open>atan2\<close> has one zero where C has two; so the pitch
  C computes as \<^verbatim>\<open>-0.0f\<close> for \<open>ax = 0\<close> (logged as \<open>-0.00\<close>) is 0 in the
  model, whose log text has no sign.  Colours, register
  contents and raw samples are words of their width.  The environment
  (the sensor's identity answer, the 14 bytes of each sample, the power-on
  content of the controller memory and the font table) is a parameter.
  \<^verbatim>\<open>setup()\<close> with a missing sensor never returns; the model's phase
  \<open>Halted\<close> is that idle loop, and \<open>setup_call\<close> returns \<open>None\<close> there.
  Every loop of the program is bounded (the
  digit loops of \<^verbatim>\<open>printFloat\<close> by the number of digits, the glyph loops by
  5 and 8 columns and rows), so every operation is a total function; the only
  unbounded loops are \<^verbatim>\<open>loop()\<close> itself and the halt loop, which are the
  step relation.

  \<^bold>\<open>Not modelled.\<close>  The bus bring-up (\<^verbatim>\<open>Wire.begin\<close>,
  \<^verbatim>\<open>SPI.begin\<close>, \<^verbatim>\<open>Serial.begin\<close>), the delays (timing is not part of any
  property), the timestamps of the sensor events (\<^verbatim>\<open>millis()\<close>, never read
  by the program), and the
  SPI command stream of the display controller (the model is the memory it
  produces).
\<close>

subsection \<open>Properties of the whole system\<close>

text \<open>C1: the static chrome stays intact.  In every reachable state of the
  running system, every pixel of the header banner and of the three labels
  holds what start-up drew there.\<close>

theorem chrome_intact:
  assumes "reach fb font s" and "phase s = Running" and "p \<in> header_area \<union> label_area"
  shows "gram (disp s) p = gram (boot_display fb font) p"
proof -
  have "agree_off (value_area \<inter> screen (boot_display fb font)) (gram (boot_display fb font)) (gram (disp s))"
    using reach_sys_inv [OF assms(1)] assms(2) by (simp add: sys_inv_def)
  moreover have "p \<notin> value_area"
    using assms(3) header_value_disjoint label_value_disjoint by blast
  ultimately show ?thesis by (metis agree_offD IntD1)
qed

theorem chrome_intact_witness:
  "gram (disp (arduino_loop (\<lambda>_. 0) (arduino_setup (Some MPU6050_DEVICE_ID) (power_on (\<lambda>_. 0) (\<lambda>_. 0))))) (0, 0)
   = gram (boot_display (\<lambda>_. 0) (\<lambda>_. 0)) (0, 0)"
proof -
  have r: "reach (\<lambda>_. 0) (\<lambda>_. 0) (arduino_loop (\<lambda>_. 0) (arduino_setup (Some MPU6050_DEVICE_ID) (power_on (\<lambda>_. 0) (\<lambda>_. 0))))"
    by (intro reach_cycle reach_boot boot_ok_phase)
  have ph: "phase (arduino_loop (\<lambda>_. 0) (arduino_setup (Some MPU6050_DEVICE_ID) (power_on (\<lambda>_. 0) (\<lambda>_. 0)))) = Running"
    by (simp add: boot_ok_phase)
  have p: "(0, 0) \<in> header_area \<union> label_area"
    by (simp add: header_area_def HEADER_H_def ILI9341_TFTWIDTH_def)
  show ?thesis by (rule chrome_intact [OF r ph p])
qed

text \<open>C2 (Scenario 4): a start-up without the sensor reaches the halt loop
  without touching the display.  In every reachable halted state the display
  object is exactly as constructed (not even \<^verbatim>\<open>tft.begin\<close> ran) and the serial
  log holds the one error line.\<close>

theorem halted_display_untouched:
  assumes "reach fb font s" and "phase s = Halted"
  shows "disp s = tft_construct fb font \<and> serial s = [Log_Text ''ERROR: MPU6050 not found!'']"
  using reach_sys_inv [OF assms(1)] assms(2) by (simp add: sys_inv_def)

theorem halted_display_untouched_witness:
  "disp (arduino_setup None (power_on (\<lambda>_. 0) (\<lambda>_. 0))) = tft_construct (\<lambda>_. 0) (\<lambda>_. 0) \<and>
   serial (arduino_setup None (power_on (\<lambda>_. 0) (\<lambda>_. 0))) = [Log_Text ''ERROR: MPU6050 not found!'']"
  by (rule halted_display_untouched [OF reach_boot]) (simp add: arduino_setup_def mpu_begin_def)

text \<open>C3: refinement of the display loop.  From any reachable running state,
  one iteration of \<^verbatim>\<open>loop()\<close> leaves the display exactly as rendering the
  sample's roll, pitch and temperature over the fresh start-up screen would:
  nothing of the history survives a cycle, in particular no residue of a
  longer previous string.\<close>

theorem loop_display_refines:
  assumes "reach fb font s" and "phase s = Running"
  shows "disp (arduino_loop buf s) = expected_display fb font buf"
proof -
  let ?b = "boot_display fb font"
  have i: "same_setup (disp s) ?b" "agree_off (value_area \<inter> screen ?b) (gram ?b) (gram (disp s))"
    "getAccelerometerRange (imu s) = MPU6050_RANGE_8_G"
    using reach_sys_inv [OF assms(1)] assms(2) by (simp_all add: sys_inv_def)
  have "getAccelerometerRange (imu s) = getAccelerometerRange (setAccelerometerRange MPU6050_RANGE_8_G (\<lambda>_. 0))"
    using i(3) by simp
  note e = mpu_get_event_range [OF this, of buf]
  have "agree_off (value_area \<inter> screen (disp s)) (gram (disp s)) (gram ?b)"
    using agree_off_sym [OF i(2)] same_setup_screen [OF i(1)] by simp
  then have "render_values r p t (disp s) = render_values r p t ?b" for r p t
    by (rule render_values_cong [OF i(1)])
  then show ?thesis by (simp add: arduino_loop_disp expected_display_def e Let_def)
qed

theorem loop_display_refines_witness:
  "disp (arduino_loop (\<lambda>_. 0) (arduino_setup (Some MPU6050_DEVICE_ID) (power_on (\<lambda>_. 0) (\<lambda>_. 0))))
   = expected_display (\<lambda>_. 0) (\<lambda>_. 0) (\<lambda>_. 0)"
  by (rule loop_display_refines [OF reach_boot boot_ok_phase])

text \<open>C10: the three value fields are independent.  When one cycle renders
  roll, pitch and temperature on the portrait screen, the pixels of each
  field's box depend on that field's value alone: clearing and printing one
  field never disturbs what another field shows.\<close>

theorem fields_independent:
  assumes w: "width d = ILI9341_TFTWIDTH"
    and b: "\<bar>r\<bar> < 999" "\<bar>r'\<bar> < 999" "\<bar>p\<bar> < 999" "\<bar>p'\<bar> < 999" "\<bar>t\<bar> < 999" "\<bar>t'\<bar> < 999"
  shows "(\<forall>q \<in> value_box LINE_Y1. gram (render_values r p t d) q = gram (render_values r p' t' d) q) \<and>
         (\<forall>q \<in> value_box LINE_Y2. gram (render_values r p t d) q = gram (render_values r' p t' d) q) \<and>
         (\<forall>q \<in> value_box LINE_Y3. gram (render_values r p t d) q = gram (render_values r' p' t d) q)"
proof -
  let ?B = "\<lambda>y. value_box y \<inter> screen d"
  let ?X1 = "\<lambda>r. printValue LINE_Y1 r ''deg'' COL_ROLL 1 d"
  let ?X2 = "\<lambda>r p. printValue LINE_Y2 p ''deg'' COL_PITCH 1 (?X1 r)"
  note D = value_boxes_disjoint
  have S: "same_setup d (?X1 r) \<and> agree_off (?B LINE_Y1) (gram d) (gram (?X1 r))"
    "same_setup d (?X2 r p) \<and> agree_off (?B LINE_Y2) (gram (?X1 r)) (gram (?X2 r p))"
    "same_setup d (render_values r p t d) \<and>
     agree_off (?B LINE_Y3) (gram (?X2 r p)) (gram (render_values r p t d))"
    if "\<bar>r\<bar> < 999" "\<bar>p\<bar> < 999" "\<bar>t\<bar> < 999" for r p t
    using render_values_stages [OF w that] by simp_all
  have F1: "agree_off (?B LINE_Y2 \<union> ?B LINE_Y3) (gram (?X1 r)) (gram (render_values r p t d))"
    if "\<bar>r\<bar> < 999" "\<bar>p\<bar> < 999" "\<bar>t\<bar> < 999" for r p t
    using agree_off_trans [OF conjunct2 [OF S(2) [OF that]] conjunct2 [OF S(3) [OF that]]] .
  have F2: "agree_off (?B LINE_Y1 \<union> ?B LINE_Y2) (gram d) (gram (?X2 r p))"
    if "\<bar>r\<bar> < 999" "\<bar>p\<bar> < 999" for r p
    using agree_off_trans [OF conjunct2 [OF S(1) [OF that b(5)]] conjunct2 [OF S(2) [OF that b(5)]]] .
  have ss: "same_setup d1 d2" if "same_setup d d1" "same_setup d d2" for d1 d2
    using same_setup_trans [OF same_setup_sym [OF that(1)] that(2)] .
  have "gram (render_values r p t d) q = gram (render_values r p' t' d) q" if "q \<in> value_box LINE_Y1" for q
  proof -
    have n: "q \<notin> ?B LINE_Y2 \<union> ?B LINE_Y3" using that D by auto
    show ?thesis
      using agree_offD [OF F1 [OF b(1,3,5)] n] agree_offD [OF F1 [OF b(1,4,6)] n] by simp
  qed
  moreover have "gram (render_values r p t d) q = gram (render_values r' p t' d) q" if "q \<in> value_box LINE_Y2" for q
  proof -
    have n1: "q \<notin> ?B LINE_Y1" and n3: "q \<notin> ?B LINE_Y3" using that D by auto
    have "agree_off (?B LINE_Y1) (gram (?X1 r)) (gram (?X1 r'))"
      using agree_off_trans [OF agree_off_sym [OF conjunct2 [OF S(1) [OF b(1,3,5)]]] conjunct2 [OF S(1) [OF b(2,3,5)]]]
      by simp
    then have "agree_off (?B LINE_Y1) (gram (?X2 r p)) (gram (?X2 r' p))"
      by (rule printValue_agree_off [OF ss [OF conjunct1 [OF S(1) [OF b(1,3,5)]] conjunct1 [OF S(1) [OF b(2,3,5)]]]])
    then have "gram (?X2 r p) q = gram (?X2 r' p) q" by (rule agree_offD) (rule n1)
    then show ?thesis
      using agree_offD [OF conjunct2 [OF S(3) [OF b(1,3,5)]] n3] agree_offD [OF conjunct2 [OF S(3) [OF b(2,3,6)]] n3]
      by simp
  qed
  moreover have "gram (render_values r p t d) q = gram (render_values r' p' t d) q" if "q \<in> value_box LINE_Y3" for q
  proof -
    have n: "q \<notin> ?B LINE_Y1 \<union> ?B LINE_Y2" using that D by auto
    have "agree_off (?B LINE_Y1 \<union> ?B LINE_Y2) (gram (?X2 r p)) (gram (?X2 r' p'))"
      using agree_off_trans [OF agree_off_sym [OF F2 [OF b(1,3)]] F2 [OF b(2,4)]] by simp
    then have "agree_off (?B LINE_Y1 \<union> ?B LINE_Y2)
        (gram (printValue LINE_Y3 t ''C'' COL_TEMP 1 (?X2 r p))) (gram (printValue LINE_Y3 t ''C'' COL_TEMP 1 (?X2 r' p')))"
      by (rule printValue_agree_off [OF ss [OF conjunct1 [OF S(2) [OF b(1,3,5)]] conjunct1 [OF S(2) [OF b(2,4,5)]]]])
    then show ?thesis using agree_offD [OF _ n] by (simp add: render_values_def)
  qed
  ultimately show ?thesis by blast
qed

theorem fields_independent_witness:
  "gram (render_values 12.5 3 25 (tft_construct (\<lambda>_. 0) (\<lambda>_. 0))) (110, LINE_Y1) =
   gram (render_values 12.5 (- 40) 31 (tft_construct (\<lambda>_. 0) (\<lambda>_. 0))) (110, LINE_Y1)"
proof -
  have "(110, LINE_Y1) \<in> value_box LINE_Y1" by (simp add: value_box_def layout_defs)
  then show ?thesis
    using fields_independent [of "tft_construct (\<lambda>_. 0) (\<lambda>_. 0)" "12.5" "12.5" 3 "- 40" 25 31]
    by (simp add: tft_construct_def)
qed

text \<open>C17: the phases of the runtime.  A halted system stays exactly as it is,
  a running system keeps running, and no step returns to the state before
  start-up.\<close>

theorem step_phase:
  assumes "step s s'"
  shows "(phase s = Halted \<longrightarrow> s' = s) \<and> (phase s = Running \<longrightarrow> phase s' = Running) \<and>
         phase s' \<noteq> Uninitialized"
  using assms by (rule stepE) (auto simp: arduino_setup_def halt_idle_def split: option.splits)

theorem step_phase_witness:
  "halt_idle (arduino_setup None (power_on (\<lambda>_. 0) (\<lambda>_. 0))) = arduino_setup None (power_on (\<lambda>_. 0) (\<lambda>_. 0)) \<and>
   phase (halt_idle (arduino_setup None (power_on (\<lambda>_. 0) (\<lambda>_. 0)))) \<noteq> Uninitialized"
proof -
  have h: "phase (arduino_setup None (power_on (\<lambda>_. 0) (\<lambda>_. 0))) = Halted"
    by (simp add: arduino_setup_def mpu_begin_def)
  have "step (arduino_setup None (power_on (\<lambda>_. 0) (\<lambda>_. 0)))
             (halt_idle (arduino_setup None (power_on (\<lambda>_. 0) (\<lambda>_. 0))))"
    by (rule step.idle [OF h])
  from step_phase [OF this] h show ?thesis by simp
qed

text \<open>C18: the screen after a successful start.  Every on-screen pixel outside
  the header and the labels is background black, and every header pixel
  outside the title's character cells is the header colour, whatever the
  controller memory held at power-on.\<close>

theorem boot_screen:
  assumes "on_screen (boot_display fb font) p"
  shows "(p \<notin> header_area \<union> label_area \<longrightarrow> gram (boot_display fb font) p = COL_BG) \<and>
         (p \<in> header_area - title_area \<longrightarrow> gram (boot_display fb font) p = COL_HEADER)"
proof -
  define d0 where "d0 = fill_screen COL_BG (set_rotation 0 (tft_begin (tft_construct fb font)))"
  define dh where "dh = drawHeader d0"
  have b: "boot_display fb font = drawStaticLabels dh"
    by (simp add: boot_display_def init_display_def dh_def d0_def)
  have w0: "width d0 = ILI9341_TFTWIDTH"
    by (simp add: d0_def fill_screen_def set_rotation_def tft_begin_def)
  have wh: "width dh = ILI9341_TFTWIDTH" using drawHeader_setup w0 by (simp add: dh_def same_setup_def)
  have "same_setup (boot_display fb font) d0"
    unfolding b dh_def by (rule same_setup_trans [OF drawStaticLabels_setup drawHeader_setup])
  then have os: "on_screen d0 p" "p \<in> screen dh"
    using assms drawHeader_setup [of d0]
    by (simp_all add: same_setup_def on_screen_eq screen_rect dh_def rect_def)
  have "on_screen (set_rotation 0 (tft_begin (tft_construct fb font))) p"
    using os(1) by (simp add: d0_def on_screen_eq fill_screen_def)
  then have g0: "gram d0 p = COL_BG"
    by (simp add: d0_def fill_screen_gram set_rotation_def tft_begin_def
        ILI9341_TFTWIDTH_def ILI9341_TFTHEIGHT_def)
  note L = drawStaticLabels_frame [OF wh]
  note H = drawHeader_frame [OF w0]
  show ?thesis
  proof (intro conjI impI)
    assume p: "p \<notin> header_area \<union> label_area"
    have "gram dh p = gram (boot_display fb font) p"
      unfolding b using L by (rule agree_offD) (use p in blast)
    moreover have "gram d0 p = gram dh p"
      unfolding dh_def using H(1) by (rule agree_offD) (use p in blast)
    ultimately show "gram (boot_display fb font) p = COL_BG" using g0 by simp
  next
    assume p: "p \<in> header_area - title_area"
    then have "p \<notin> label_area" using header_label_disjoint by blast
    then have "gram dh p = gram (boot_display fb font) p"
      unfolding b using L by (intro agree_offD) blast+
    then show "gram (boot_display fb font) p = COL_HEADER"
      using H(2) [OF p os(1)] by (simp add: dh_def)
  qed
qed

theorem boot_screen_witness:
  "gram (boot_display (\<lambda>_. 0) (\<lambda>_. 0)) (5, 5) = COL_HEADER"
proof -
  have "on_screen (boot_display (\<lambda>_. 0) (\<lambda>_. 0)) (5, 5)"
    using init_display_setup [of "tft_construct (\<lambda>_. 0) (\<lambda>_. 0)"]
    by (simp add: on_screen_eq boot_display_def ILI9341_TFTWIDTH_def ILI9341_TFTHEIGHT_def)
  moreover have "(5, 5) \<in> header_area - title_area"
    by (simp add: header_area_def title_area_def HEADER_H_def ILI9341_TFTWIDTH_def)
  ultimately show ?thesis using boot_screen by blast
qed

text \<open>C15: the serial log of a running system is the start-up line followed
  only by reading lines, one per cycle.\<close>

theorem serial_log_shape:
  assumes "reach fb font s" and "phase s = Running"
  shows "\<exists>rs. serial s = Log_Text ''System started. Reading MPU6050...'' # rs \<and> list_all is_reading rs"
  using reach_sys_inv [OF assms(1)] assms(2) by (simp add: sys_inv_def)

theorem serial_log_shape_witness:
  "\<exists>rs. serial (arduino_loop (\<lambda>_. 0) (arduino_setup (Some MPU6050_DEVICE_ID) (power_on (\<lambda>_. 0) (\<lambda>_. 0))))
     = Log_Text ''System started. Reading MPU6050...'' # rs \<and> list_all is_reading rs"
  by (rule serial_log_shape [OF reach_cycle [OF reach_boot boot_ok_phase]]) (simp add: boot_ok_phase)

text \<open>C20: the sensor configuration of lines 108--110 reads back as written:
  range 8 g, 500 deg/s, 21 Hz; it changes no register but the three
  configuration registers.\<close>

theorem mpu_configure_registers:
  "getAccelerometerRange (mpu_configure regs) = MPU6050_RANGE_8_G \<and>
   reg_bits_read 2 3 (mpu_configure regs 0x1B) = gyro_range_code MPU6050_RANGE_500_DEG \<and>
   reg_bits_read 3 0 (mpu_configure regs 0x1A) = bandwidth_code MPU6050_BAND_21_HZ \<and>
   (\<forall>a. a \<notin> {0x1A, 0x1B, MPU6050_ACCEL_CONFIG} \<longrightarrow> mpu_configure regs a = regs a)"
  using mpu_configure_range [of regs]
  by (simp add: mpu_configure_def setFilterBandwidth_def setGyroRange_def setAccelerometerRange_def
      MPU6050_ACCEL_CONFIG_def reg_bits_read_write mask_eq_exp_minus_1)

theorem mpu_configure_registers_witness:
  "getAccelerometerRange (mpu_configure (\<lambda>_. 0)) = MPU6050_RANGE_8_G \<and>
   reg_bits_read 2 3 (mpu_configure (\<lambda>_. 0) 0x1B) = 1 \<and>
   reg_bits_read 3 0 (mpu_configure (\<lambda>_. 0) 0x1A) = 4 \<and> mpu_configure (\<lambda>_. 0) 0x6B = 0"
  using mpu_configure_registers [of "\<lambda>_. 0"] by (simp add: MPU6050_ACCEL_CONFIG_def)

text \<open>C21: what one cycle logs.  In a running system the loop reads each
  axis as the big-endian signed 16-bit word of its two bytes, scaled for the
  8 g range (4096 per g) to metres per second squared, the temperature as \<open>raw / 340 + 36.53\<close>, and
  appends exactly one line with these values and the angles computed from
  them.\<close>

theorem loop_log_reading:
  assumes "reach fb font s" and "phase s = Running"
  shows "serial (arduino_loop buf s) = serial s @
    [Log_Reading (of_int (sint (be16 (buf 0) (buf 1))) / 4096 * 9.80665)
       (of_int (sint (be16 (buf 2) (buf 3))) / 4096 * 9.80665)
       (of_int (sint (be16 (buf 4) (buf 5))) / 4096 * 9.80665)
       (roll (estimate (of_int (sint (be16 (buf 0) (buf 1))) / 4096 * 9.80665)
          (of_int (sint (be16 (buf 2) (buf 3))) / 4096 * 9.80665)
          (of_int (sint (be16 (buf 4) (buf 5))) / 4096 * 9.80665)))
       (pitch (estimate (of_int (sint (be16 (buf 0) (buf 1))) / 4096 * 9.80665)
          (of_int (sint (be16 (buf 2) (buf 3))) / 4096 * 9.80665)
          (of_int (sint (be16 (buf 4) (buf 5))) / 4096 * 9.80665)))
       (of_int (sint (be16 (buf 6) (buf 7))) / 340 + 36.53)]"
proof -
  have "getAccelerometerRange (imu s) = MPU6050_RANGE_8_G"
    using reach_sys_inv [OF assms(1)] assms(2) by (simp add: sys_inv_def)
  then show ?thesis by (simp add: arduino_loop_def mpu_get_event_def raw_word_def Let_def)
qed

theorem loop_log_reading_witness:
  "serial (arduino_loop (\<lambda>_. 0) (arduino_setup (Some MPU6050_DEVICE_ID) (power_on (\<lambda>_. 0) (\<lambda>_. 0)))) =
   serial (arduino_setup (Some MPU6050_DEVICE_ID) (power_on (\<lambda>_. 0) (\<lambda>_. 0))) @
    [Log_Reading (of_int (sint (be16 0 0)) / 4096 * 9.80665)
       (of_int (sint (be16 0 0)) / 4096 * 9.80665)
       (of_int (sint (be16 0 0)) / 4096 * 9.80665)
       (roll (estimate (of_int (sint (be16 0 0)) / 4096 * 9.80665)
          (of_int (sint (be16 0 0)) / 4096 * 9.80665)
          (of_int (sint (be16 0 0)) / 4096 * 9.80665)))
       (pitch (estimate (of_int (sint (be16 0 0)) / 4096 * 9.80665)
          (of_int (sint (be16 0 0)) / 4096 * 9.80665)
          (of_int (sint (be16 0 0)) / 4096 * 9.80665)))
       (of_int (sint (be16 0 0)) / 340 + 36.53)]"
  by (rule loop_log_reading [OF reach_boot boot_ok_phase])

text \<open>C22: every cycle logs a roll within 180 degrees, a pitch within 90
  degrees and a temperature between -60 and 133 degrees Celsius, whatever
  bytes the sensor delivers.\<close>

theorem loop_values_bounded:
  "\<exists>ax ay az r p t. serial (arduino_loop buf s) = serial s @ [Log_Reading ax ay az r p t] \<and>
     \<bar>r\<bar> \<le> 180 \<and> \<bar>p\<bar> \<le> 90 \<and> - 60 < t \<and> t < 133"
  using roll_abs_bound pitch_abs_bound temperature_bounds
  by (simp add: arduino_loop_def Let_def)

text \<open>C23: liveness of a good start: after the sensor answers the probe, the
  system accepts every sequence of samples, stays running, and logs one line
  per cycle after the start-up line.\<close>

theorem good_boot_runs:
  "\<exists>s. run (Boot (Some MPU6050_DEVICE_ID) # map Cycle bufs) (power_on fb font) = Some s \<and>
       phase s = Running \<and> length (serial s) = Suc (length bufs)"
proof (induction bufs rule: rev_induct)
  case Nil
  show ?case by (simp add: power_on_def boot_ok_phase arduino_setup_def mpu_begin_def)
next
  case (snoc b bufs)
  then obtain s where s: "run (Boot (Some MPU6050_DEVICE_ID) # map Cycle bufs) (power_on fb font) = Some s"
    and p: "phase s = Running" and l: "length (serial s) = Suc (length bufs)" by blast
  have "run ((Boot (Some MPU6050_DEVICE_ID) # map Cycle bufs) @ [Cycle b]) (power_on fb font)
        = Some (arduino_loop b s)"
    by (simp only: run_append s) (simp add: p)
  moreover have "length (serial (arduino_loop b s)) = Suc (length (bufs @ [b]))"
    using l by (simp add: arduino_loop_def Let_def)
  ultimately show ?case using p by simp
qed

text \<open>C24: termination of \<^verbatim>\<open>setup()\<close>: it returns, with the started system,
  exactly when the sensor answers the probe with its identity; otherwise it
  never returns (the halt loop).\<close>

theorem setup_returns:
  "setup_call who s = (if who = Some MPU6050_DEVICE_ID then Some (arduino_setup who s) else None)"
  by (simp add: setup_call_def mpu_begin_def)

text \<open>C25: the error path of start-up.  Whether the sensor does not answer or
  answers with another identity, \<^verbatim>\<open>setup()\<close> changes nothing but the phase
  and one error line of the log: the display and the sensor registers are
  left as they were.\<close>

theorem setup_error_path:
  assumes "who \<noteq> Some MPU6050_DEVICE_ID"
  shows "arduino_setup who s =
         s\<lparr>phase := Halted, serial := serial s @ [Log_Text ''ERROR: MPU6050 not found!'']\<rparr>"
  using assms by (simp add: arduino_setup_def mpu_begin_def)

theorem setup_error_path_witness:
  "arduino_setup (Some 0x12) (power_on (\<lambda>_. 0) (\<lambda>_. 0)) =
   (power_on (\<lambda>_. 0) (\<lambda>_. 0))\<lparr>phase := Halted,
      serial := serial (power_on (\<lambda>_. 0) (\<lambda>_. 0)) @ [Log_Text ''ERROR: MPU6050 not found!'']\<rparr>"
  by (rule setup_error_path) (simp add: MPU6050_DEVICE_ID_def)

text \<open>C26: the display stays in portrait.  In every reachable state the
  display object is well formed (positive text sizes, rotation below 4,
  logical size matching the rotation), its rotation is the portrait rotation
  0 that \<^verbatim>\<open>setup()\<close> selects (line 118), and its logical size is 240 by 320.\<close>

theorem reach_portrait:
  assumes "reach fb font s"
  shows "tft_wf (disp s) \<and> rotation (disp s) = 0 \<and>
         width (disp s) = ILI9341_TFTWIDTH \<and> height (disp s) = ILI9341_TFTHEIGHT"
proof -
  have wf: "tft_wf (disp s)"
    using assms by (induction rule: reach.induct) (auto simp: power_on_def tft_wf_construct intro: tft_wf_step)
  have "rotation (disp s) = 0"
    using reach_sys_inv [OF assms] init_display_setup [of "tft_construct fb font"]
    by (cases "phase s") (auto simp: sys_inv_def power_on_def tft_construct_def same_setup_def boot_display_def)
  with wf show ?thesis by (simp add: tft_wf_def)
qed

theorem reach_portrait_witness:
  "tft_wf (disp (arduino_setup (Some MPU6050_DEVICE_ID) (power_on (\<lambda>_. 0) (\<lambda>_. 0)))) \<and>
   rotation (disp (arduino_setup (Some MPU6050_DEVICE_ID) (power_on (\<lambda>_. 0) (\<lambda>_. 0)))) = 0 \<and>
   width (disp (arduino_setup (Some MPU6050_DEVICE_ID) (power_on (\<lambda>_. 0) (\<lambda>_. 0)))) = ILI9341_TFTWIDTH \<and>
   height (disp (arduino_setup (Some MPU6050_DEVICE_ID) (power_on (\<lambda>_. 0) (\<lambda>_. 0)))) = ILI9341_TFTHEIGHT"
  by (rule reach_portrait [OF reach_boot])

text \<open>C27: the readings line of the serial log is the six values' fixed-point
  texts between the line's labels; each text has no space and reads back
  within half a unit of its last printed place of the value (0.005 for the
  accelerations and angles, 0.05 for the temperature).\<close>

theorem serial_reading_roundtrip:
  "\<exists>A B C R P T. serial_text (Log_Reading ax ay az r p t) =
     ''Ax: '' @ A @ '' Ay: '' @ B @ '' Az: '' @ C @ '' | Roll: '' @ R @ '' deg Pitch: '' @ P
     @ '' deg | Temp: '' @ T @ '' C'' @ [CHR 0x0A] \<and>
     CHR '' '' \<notin> set (A @ B @ C @ R @ P @ T) \<and>
     \<bar>dec_value A - ax\<bar> \<le> 1 / 200 \<and> \<bar>dec_value B - ay\<bar> \<le> 1 / 200 \<and> \<bar>dec_value C - az\<bar> \<le> 1 / 200 \<and>
     \<bar>dec_value R - r\<bar> \<le> 1 / 200 \<and> \<bar>dec_value P - p\<bar> \<le> 1 / 200 \<and> \<bar>dec_value T - t\<bar> \<le> 1 / 20"
proof -
  have e2: "\<bar>dec_value (fmt_fixed 2 v) - v\<bar> \<le> 1 / 200" for v
    using fmt_fixed_error [of 2 v] by simp
  have e1: "\<bar>dec_value (fmt_fixed 1 v) - v\<bar> \<le> 1 / 20" for v
    using fmt_fixed_error [of 1 v] by simp
  show ?thesis
    by (rule exI [of _ "fmt_fixed 2 ax"], rule exI [of _ "fmt_fixed 2 ay"], rule exI [of _ "fmt_fixed 2 az"],
        rule exI [of _ "fmt_fixed 2 r"], rule exI [of _ "fmt_fixed 2 p"], rule exI [of _ "fmt_fixed 1 t"])
      (intro conjI e1 e2, simp_all add: fmt_fixed_no_space)
qed

text \<open>C28: the log and the display agree on the temperature.  The
  temperature one cycle logs with \<^verbatim>\<open>printf("%.1f")\<close> (line 145) is the one it
  displays with \<^verbatim>\<open>printValue(..., 1)\<close> (line 151), and the logged text is the
  number the display shows: \<^verbatim>\<open>printf\<close> rounds ties to even and
  \<^verbatim>\<open>printFloat\<close> half up, but no temperature the sensor reports is a tie.\<close>

theorem log_display_temperature_agree:
  "\<exists>r p t pre. disp (arduino_loop buf s) = render_values r p t (disp s) \<and>
     serial_text (last (serial (arduino_loop buf s))) =
       pre @ ''| Temp: '' @ takeWhile (\<lambda>c. c \<noteq> CHR '' '') (value_text t 1 ''C'') @ '' C'' @ [CHR 0x0A]"
proof -
  define e where "e = mpu_get_event (imu s) buf"
  have b: "\<bar>temperature e\<bar> \<le> 4294967040"
    using temperature_bounds [of "imu s" buf] unfolding e_def abs_le_iff by linarith
  define ori where "ori = estimate (acc_x e) (acc_y e) (acc_z e)"
  have tw: "takeWhile (\<lambda>c. c \<noteq> CHR '' '') (value_text (temperature e) 1 ''C'') = fmt_fixed 1 (temperature e)"
    using print_float_one_fmt_fixed [OF b] temperature_no_tie [of "imu s" buf]
    by (simp add: value_text_number e_def)
  show ?thesis
  proof (intro exI conjI)
    show "disp (arduino_loop buf s) = render_values (roll ori) (pitch ori) (temperature e) (disp s)"
      by (simp add: arduino_loop_def Let_def e_def ori_def)
    show "serial_text (last (serial (arduino_loop buf s))) =
      (''Ax: '' @ fmt_fixed 2 (acc_x e) @ '' Ay: '' @ fmt_fixed 2 (acc_y e) @ '' Az: '' @ fmt_fixed 2 (acc_z e)
       @ '' | Roll: '' @ fmt_fixed 2 (roll ori) @ '' deg Pitch: '' @ fmt_fixed 2 (pitch ori) @ '' deg '')
      @ ''| Temp: '' @ takeWhile (\<lambda>c. c \<noteq> CHR '' '') (value_text (temperature e) 1 ''C'') @ '' C'' @ [CHR 0x0A]"
      unfolding tw by (simp add: arduino_loop_def Let_def e_def ori_def)
  qed
qed

text \<open>C29: the gyroscope range that \<^verbatim>\<open>setup()\<close> selects (line 109) is the
  one \<^verbatim>\<open>getEvent\<close> (line 130) scales with in every cycle: in every running
  state each angular rate in \<^verbatim>\<open>g\<close> is its raw 16-bit value over 65.5 LSB per
  degree per second, in radians per second.\<close>

theorem running_gyro_scale:
  assumes "reach fb font s" and "phase s = Running"
  shows "gyro_x (mpu_get_event (imu s) buf) = of_int (raw_word buf 4) / 65.5 * SENSORS_DPS_TO_RADS \<and>
    gyro_y (mpu_get_event (imu s) buf) = of_int (raw_word buf 5) / 65.5 * SENSORS_DPS_TO_RADS \<and>
    gyro_z (mpu_get_event (imu s) buf) = of_int (raw_word buf 6) / 65.5 * SENSORS_DPS_TO_RADS"
proof -
  have "getGyroRange (imu s) = MPU6050_RANGE_500_DEG"
    using reach_sys_inv [OF assms(1)] assms(2) by (simp add: sys_inv_def)
  then show ?thesis by (simp add: mpu_get_event_def Let_def)
qed

theorem running_gyro_scale_witness:
  "gyro_x (mpu_get_event (imu (arduino_setup (Some MPU6050_DEVICE_ID) (power_on (\<lambda>_. 0) (\<lambda>_. 0)))) (\<lambda>_. 0xFF))
     = of_int (raw_word (\<lambda>_. 0xFF) 4) / 65.5 * SENSORS_DPS_TO_RADS"
  using running_gyro_scale [OF reach_boot, of "Some MPU6050_DEVICE_ID" "\<lambda>_. 0" "\<lambda>_. 0" "\<lambda>_. 0xFF"]
  by (simp add: boot_ok_phase)

text \<open>C30: the loop uses no gyroscope data: the bytes of the sample beyond
  the accelerations and the temperature (the gyroscope's bytes 8--13) change
  nothing of what a cycle does to the display, the log or the phase.\<close>

theorem loop_ignores_gyro:
  assumes "\<forall>i < 8. buf i = buf' i"
  shows "arduino_loop buf s = arduino_loop buf' s"
  using mpu_get_event_first_bytes [OF assms, of "imu s"] by (simp add: arduino_loop_def Let_def)

theorem loop_ignores_gyro_witness:
  "arduino_loop (\<lambda>_. 0) (power_on (\<lambda>_. 0) (\<lambda>_. 0))
   = arduino_loop (\<lambda>i. if i = 8 then 0x7F else 0) (power_on (\<lambda>_. 0) (\<lambda>_. 0))"
  using loop_ignores_gyro [of "\<lambda>_. 0" "\<lambda>i. if i = 8 then 0x7F else 0"] by simp

end
